theory Spec2Isabelle
  imports Complex_Main
begin

section \<open>Numbers as numpy computes with them\<close>

text \<open>
  The program works on float64 values. They are modelled as exact reals extended by the
  three special values of IEEE arithmetic, so that a division by zero is a value (as in
  numpy, which warns and goes on) and not an exception. Rounding, overflow of finite
  values and the sign of zero are not modelled: finite arithmetic is exact.
\<close>

datatype npfloat = Fin real | PInf | NInf | NaN

fun fneg :: "npfloat \<Rightarrow> npfloat" where
  "fneg (Fin a) = Fin (- a)"
| "fneg PInf = NInf"
| "fneg NInf = PInf"
| "fneg NaN = NaN"

fun fadd :: "npfloat \<Rightarrow> npfloat \<Rightarrow> npfloat" where
  "fadd (Fin a) (Fin b) = Fin (a + b)"
| "fadd (Fin a) PInf = PInf"
| "fadd (Fin a) NInf = NInf"
| "fadd PInf (Fin b) = PInf"
| "fadd PInf PInf = PInf"
| "fadd PInf NInf = NaN"
| "fadd NInf (Fin b) = NInf"
| "fadd NInf NInf = NInf"
| "fadd NInf PInf = NaN"
| "fadd NaN y = NaN"
| "fadd x NaN = NaN"

definition fsub :: "npfloat \<Rightarrow> npfloat \<Rightarrow> npfloat" where
  "fsub x y = fadd x (fneg y)"

text \<open>The sign of a product or quotient with an infinite operand.\<close>

definition signed_inf :: "bool \<Rightarrow> npfloat" where
  "signed_inf positive = (if positive then PInf else NInf)"

fun fmul :: "npfloat \<Rightarrow> npfloat \<Rightarrow> npfloat" where
  "fmul (Fin a) (Fin b) = Fin (a * b)"
| "fmul (Fin a) PInf = (if a = 0 then NaN else signed_inf (0 < a))"
| "fmul (Fin a) NInf = (if a = 0 then NaN else signed_inf (a < 0))"
| "fmul PInf (Fin b) = (if b = 0 then NaN else signed_inf (0 < b))"
| "fmul NInf (Fin b) = (if b = 0 then NaN else signed_inf (b < 0))"
| "fmul PInf PInf = PInf"
| "fmul PInf NInf = NInf"
| "fmul NInf PInf = NInf"
| "fmul NInf NInf = PInf"
| "fmul NaN y = NaN"
| "fmul x NaN = NaN"

text \<open>
  Division of float64 arrays: \<open>0 / 0\<close> is \<open>nan\<close>, a nonzero finite value over \<open>0\<close>
  is an infinity, a finite value over an infinity is \<open>0\<close>. No case raises.
\<close>

fun fdiv :: "npfloat \<Rightarrow> npfloat \<Rightarrow> npfloat" where
  "fdiv (Fin a) (Fin b) =
     (if b = 0 then (if a = 0 then NaN else signed_inf (0 < a)) else Fin (a / b))"
| "fdiv (Fin a) PInf = Fin 0"
| "fdiv (Fin a) NInf = Fin 0"
| "fdiv PInf (Fin b) = signed_inf (0 \<le> b)"
| "fdiv NInf (Fin b) = signed_inf (b < 0)"
| "fdiv PInf PInf = NaN"
| "fdiv PInf NInf = NaN"
| "fdiv NInf PInf = NaN"
| "fdiv NInf NInf = NaN"
| "fdiv NaN y = NaN"
| "fdiv x NaN = NaN"

fun fabs :: "npfloat \<Rightarrow> npfloat" where
  "fabs (Fin a) = Fin \<bar>a\<bar>"
| "fabs PInf = PInf"
| "fabs NInf = PInf"
| "fabs NaN = NaN"

text \<open>The comparison \<open><\<close> of floats: every comparison with \<open>nan\<close> is false.\<close>

fun flt :: "npfloat \<Rightarrow> npfloat \<Rightarrow> bool" where
  "flt (Fin a) (Fin b) = (a < b)"
| "flt (Fin a) PInf = True"
| "flt NInf (Fin b) = True"
| "flt NInf PInf = True"
| "flt x y = False"

definition fgt :: "npfloat \<Rightarrow> npfloat \<Rightarrow> bool" where
  "fgt x y = flt y x"

definition fle :: "npfloat \<Rightarrow> npfloat \<Rightarrow> bool" where
  "fle x y = (flt x y \<or> (x = y \<and> x \<noteq> NaN))"

definition fge :: "npfloat \<Rightarrow> npfloat \<Rightarrow> bool" where
  "fge x y = fle y x"

section \<open>Errors and arrays\<close>

datatype py_error = ValueError | IndexError

text \<open>
  A one-dimensional array is a list. \<open>np.dot\<close> of two one-dimensional arrays raises
  ValueError when the lengths differ; otherwise it is the sum of the products.
\<close>

text \<open>Sequencing of computations that may raise: the first error is the result.\<close>

definition bind_err :: "'e + 'a \<Rightarrow> ('a \<Rightarrow> 'e + 'b) \<Rightarrow> 'e + 'b" where
  "bind_err m f = (case m of Inl e \<Rightarrow> Inl e | Inr x \<Rightarrow> f x)"

definition np_sum :: "npfloat list \<Rightarrow> npfloat" where
  "np_sum xs = foldl fadd (Fin 0) xs"

definition np_dot :: "npfloat list \<Rightarrow> npfloat list \<Rightarrow> py_error + npfloat" where
  "np_dot xs ys =
     (if length xs \<noteq> length ys then Inl ValueError
      else Inr (np_sum (map2 fmul xs ys)))"

section \<open>Component data and specifications\<close>

record ComponenteDados =
  custos :: "npfloat list"
  octanagem :: "npfloat list"
  pressao_vapor :: "npfloat list"
  teor_benzeno :: "npfloat list"
  teor_enxofre :: "npfloat list"

definition componente_dados :: ComponenteDados where
  "componente_dados =
     \<lparr> custos = [Fin 2.50, Fin 3.00, Fin 1.80, Fin 2.80],
       octanagem = [Fin 95, Fin 88, Fin 85, Fin 92],
       pressao_vapor = [Fin 65, Fin 55, Fin 58, Fin 64],
       teor_benzeno = [Fin 2.5, Fin 1.5, Fin 1.2, Fin 2.0],
       teor_enxofre = [Fin 60, Fin 40, Fin 35, Fin 55] \<rparr>"

record Especificacoes =
  octanagem_min :: npfloat
  pressao_vapor_max :: npfloat
  benzeno_max :: npfloat
  enxofre_max :: npfloat

definition especificacoes :: Especificacoes where
  "especificacoes =
     \<lparr> octanagem_min = Fin 91,
       pressao_vapor_max = Fin 62,
       benzeno_max = Fin 2.0,
       enxofre_max = Fin 50 \<rparr>"

section \<open>The genetic algorithm object\<close>

record AlgoritmoGenetico =
  tamanho_pop :: int
  taxa_crossover :: real
  taxa_mutacao :: real
  geracoes :: int
  torneio_k :: int
  componentes :: ComponenteDados
  specs :: Especificacoes
  historico_custos :: "npfloat list"
  melhor_solucao :: "npfloat list option"
  melhor_custo :: npfloat

text \<open>The constructor: the only place where the run state is initialised.\<close>

definition init_ag :: "int \<Rightarrow> real \<Rightarrow> real \<Rightarrow> int \<Rightarrow> int \<Rightarrow> AlgoritmoGenetico" where
  "init_ag tp tc tm g k =
     \<lparr> tamanho_pop = tp, taxa_crossover = tc, taxa_mutacao = tm, geracoes = g,
       torneio_k = k, componentes = componente_dados, specs = especificacoes,
       historico_custos = [], melhor_solucao = None, melhor_custo = PInf \<rparr>"

subsection \<open>Properties, cost, penalties, fitness\<close>

definition calcular_propriedades ::
  "AlgoritmoGenetico \<Rightarrow> npfloat list \<Rightarrow> py_error + (npfloat \<times> npfloat \<times> npfloat \<times> npfloat)" where
  "calcular_propriedades ag individuo =
     bind_err (np_dot individuo (octanagem (componentes ag))) (\<lambda>oct.
     bind_err (np_dot individuo (pressao_vapor (componentes ag))) (\<lambda>pres.
     bind_err (np_dot individuo (teor_benzeno (componentes ag))) (\<lambda>benz.
     bind_err (np_dot individuo (teor_enxofre (componentes ag))) (\<lambda>enx.
     Inr (oct, pres, benz, enx)))))"

definition calcular_custo :: "AlgoritmoGenetico \<Rightarrow> npfloat list \<Rightarrow> py_error + npfloat" where
  "calcular_custo ag individuo = np_dot individuo (custos (componentes ag))"

text \<open>
  The four \<open>if\<close> statements of the source, each adding to the running penalty, on the
  blended properties.
\<close>

definition penalidade_de ::
  "Especificacoes \<Rightarrow> npfloat \<times> npfloat \<times> npfloat \<times> npfloat \<Rightarrow> npfloat" where
  "penalidade_de sp props =
     (case props of (oct, pres, benz, enx) \<Rightarrow>
        let p0 = Fin 0;
            p1 = (if flt oct (octanagem_min sp)
                  then fadd p0 (fmul (Fin 100) (fsub (octanagem_min sp) oct)) else p0);
            p2 = (if fgt pres (pressao_vapor_max sp)
                  then fadd p1 (fmul (Fin 50) (fsub pres (pressao_vapor_max sp))) else p1);
            p3 = (if fgt benz (benzeno_max sp)
                  then fadd p2 (fmul (Fin 200) (fsub benz (benzeno_max sp))) else p2);
            p4 = (if fgt enx (enxofre_max sp)
                  then fadd p3 (fmul (Fin 150) (fsub enx (enxofre_max sp))) else p3)
        in p4)"

definition calcular_penalidades :: "AlgoritmoGenetico \<Rightarrow> npfloat list \<Rightarrow> py_error + npfloat" where
  "calcular_penalidades ag individuo =
     bind_err (calcular_propriedades ag individuo) (\<lambda>props.
     Inr (penalidade_de (specs ag) props))"

definition fitness :: "AlgoritmoGenetico \<Rightarrow> npfloat list \<Rightarrow> py_error + npfloat" where
  "fitness ag individuo =
     bind_err (calcular_custo ag individuo) (\<lambda>c.
     bind_err (calcular_penalidades ag individuo) (\<lambda>p.
     Inr (fadd c p)))"

text \<open>
  The penalty as the specification words it: each constraint contributes its weight
  times the magnitude of its violation, and nothing when it is met.
\<close>

definition violacao_min :: "npfloat \<Rightarrow> npfloat \<Rightarrow> npfloat" where
  "violacao_min limite v = (if flt v limite then fsub limite v else Fin 0)"

definition violacao_max :: "npfloat \<Rightarrow> npfloat \<Rightarrow> npfloat" where
  "violacao_max limite v = (if fgt v limite then fsub v limite else Fin 0)"

definition penalidade_spec ::
  "Especificacoes \<Rightarrow> npfloat \<times> npfloat \<times> npfloat \<times> npfloat \<Rightarrow> npfloat" where
  "penalidade_spec sp props =
     (case props of (oct, pres, benz, enx) \<Rightarrow>
        fadd (fadd (fadd (fmul (Fin 100) (violacao_min (octanagem_min sp) oct))
                         (fmul (Fin 50) (violacao_max (pressao_vapor_max sp) pres)))
                   (fmul (Fin 200) (violacao_max (benzeno_max sp) benz)))
             (fmul (Fin 150) (violacao_max (enxofre_max sp) enx)))"

text \<open>All four thresholds are met (the checks of \<open>imprimir_resultados\<close>).\<close>

definition atende ::
  "Especificacoes \<Rightarrow> npfloat \<times> npfloat \<times> npfloat \<times> npfloat \<Rightarrow> bool" where
  "atende sp props =
     (case props of (oct, pres, benz, enx) \<Rightarrow>
        fge oct (octanagem_min sp) \<and> fle pres (pressao_vapor_max sp) \<and>
        fle benz (benzeno_max sp) \<and> fle enx (enxofre_max sp))"

text \<open>Every column of the component table has one entry per component.\<close>

definition comprimento4 :: "ComponenteDados \<Rightarrow> bool" where
  "comprimento4 c =
     (length (custos c) = 4 \<and> length (octanagem c) = 4 \<and> length (pressao_vapor c) = 4 \<and>
      length (teor_benzeno c) = 4 \<and> length (teor_enxofre c) = 4)"

section \<open>Random draws\<close>

text \<open>
  The program draws from numpy's global generator. Each operator takes the values it
  draws as arguments, so that a run is a function of its draws. A draw that a branch
  does not reach is ignored. What numpy promises about a draw is a predicate on it.
\<close>

text \<open>\<open>np.random.random(4)\<close>: four floats of the half-open interval from 0 to 1.\<close>

definition np_random4 :: "(nat \<Rightarrow> real) \<Rightarrow> npfloat list" where
  "np_random4 u = [Fin (u 0), Fin (u 1), Fin (u 2), Fin (u 3)]"

definition uniforme :: "real \<Rightarrow> bool" where
  "uniforme x = (0 \<le> x \<and> x < 1)"

definition uniforme4 :: "(nat \<Rightarrow> real) \<Rightarrow> bool" where
  "uniforme4 u = (uniforme (u 0) \<and> uniforme (u 1) \<and> uniforme (u 2) \<and> uniforme (u 3))"

text \<open>
  \<open>np.random.choice(n, k)\<close>: \<open>k\<close> indices below \<open>n\<close>, with replacement. It raises
  ValueError for a negative \<open>k\<close>, and for \<open>n = 0\<close> unless no sample is taken.
\<close>

definition np_random_choice :: "nat \<Rightarrow> int \<Rightarrow> (nat \<Rightarrow> nat) \<Rightarrow> py_error + nat list" where
  "np_random_choice n k d =
     (if k < 0 then Inl ValueError
      else if n = 0 \<and> k \<noteq> 0 then Inl ValueError
      else Inr (map d [0..<nat k]))"

section \<open>Array operations\<close>

text \<open>\<open>x / x.sum()\<close>: every component over the sum of all. Nothing is raised for a zero sum.\<close>

definition dividir_pela_soma :: "npfloat list \<Rightarrow> npfloat list" where
  "dividir_pela_soma xs = map (\<lambda>x. fdiv x (np_sum xs)) xs"

text \<open>Indexing with one index, and with an array of indices.\<close>

definition np_get :: "'a list \<Rightarrow> nat \<Rightarrow> py_error + 'a" where
  "np_get xs i = (if i < length xs then Inr (xs ! i) else Inl IndexError)"

definition np_take :: "'a list \<Rightarrow> nat list \<Rightarrow> py_error + 'a list" where
  "np_take xs idx =
     (if list_all (\<lambda>i. i < length xs) idx then Inr (map (\<lambda>i. xs ! i) idx)
      else Inl IndexError)"

text \<open>
  \<open>np.argmin\<close>: the index of the first occurrence of the minimum, where a \<open>nan\<close> counts
  as the minimum: the scan takes a later element when it is not greater than or equal
  to the current one, and stops at a \<open>nan\<close>. An empty array raises ValueError.
\<close>

fun argmin_laco :: "npfloat list \<Rightarrow> nat \<Rightarrow> npfloat \<Rightarrow> nat \<Rightarrow> nat" where
  "argmin_laco [] i mp min_ind = min_ind"
| "argmin_laco (x # xs) i mp min_ind =
     (if mp = NaN then min_ind
      else if \<not> fge x mp then argmin_laco xs (Suc i) x i
      else argmin_laco xs (Suc i) mp min_ind)"

fun np_argmin :: "npfloat list \<Rightarrow> py_error + nat" where
  "np_argmin [] = Inl ValueError"
| "np_argmin (x # xs) = Inr (argmin_laco xs 1 x 0)"

text \<open>
  \<open>np.where(mascara, a, b)\<close> on one-dimensional arrays: an array of length one is
  broadcast, any other length mismatch raises ValueError.
\<close>

definition broadcast :: "nat \<Rightarrow> 'a list \<Rightarrow> py_error + 'a list" where
  "broadcast n xs =
     (if length xs = n then Inr xs
      else if length xs = 1 then Inr (replicate n (hd xs))
      else Inl ValueError)"

definition np_where :: "bool list \<Rightarrow> 'a list \<Rightarrow> 'a list \<Rightarrow> py_error + 'a list" where
  "np_where mascara a b =
     bind_err (broadcast (length mascara) a) (\<lambda>a'.
     bind_err (broadcast (length mascara) b) (\<lambda>b'.
     Inr (map (\<lambda>(c, x, y). if c then x else y) (zip mascara (zip a' b')))))"

section \<open>Creation of individuals and of the population\<close>

definition criar_individuo :: "(nat \<Rightarrow> real) \<Rightarrow> npfloat list" where
  "criar_individuo u = (let proporcoes = np_random4 u in dividir_pela_soma proporcoes)"

definition criar_populacao ::
  "AlgoritmoGenetico \<Rightarrow> (nat \<Rightarrow> nat \<Rightarrow> real) \<Rightarrow> npfloat list list" where
  "criar_populacao ag us = map (\<lambda>i. criar_individuo (us i)) [0..<nat (tamanho_pop ag)]"

section \<open>Genetic operators\<close>

definition selecao_torneio ::
  "AlgoritmoGenetico \<Rightarrow> npfloat list list \<Rightarrow> npfloat list \<Rightarrow> (nat \<Rightarrow> nat) \<Rightarrow>
   py_error + npfloat list" where
  "selecao_torneio ag populacao fitness_values d =
     bind_err (np_random_choice (length populacao) (torneio_k ag) d) (\<lambda>idx.
     bind_err (np_take fitness_values idx) (\<lambda>fs.
     bind_err (np_argmin fs) (\<lambda>j.
     bind_err (np_get idx j) (\<lambda>melhor_idx.
     np_get populacao melhor_idx))))"

text \<open>The child of the crossover branch before it is renormalised.\<close>

definition recombinar ::
  "(nat \<Rightarrow> real) \<Rightarrow> npfloat list \<Rightarrow> npfloat list \<Rightarrow> py_error + npfloat list" where
  "recombinar um pai1 pai2 =
     (let mascara = map (\<lambda>x. flt x (Fin 0.5)) (np_random4 um)
      in np_where mascara pai1 pai2)"

definition crossover ::
  "AlgoritmoGenetico \<Rightarrow> npfloat list \<Rightarrow> npfloat list \<Rightarrow> real \<Rightarrow> (nat \<Rightarrow> real) \<Rightarrow>
   py_error + npfloat list" where
  "crossover ag pai1 pai2 u um =
     (if u < taxa_crossover ag
      then bind_err (recombinar um pai1 pai2) (\<lambda>filho. Inr (dividir_pela_soma filho))
      else Inr pai1)"

text \<open>
  The individual of the mutation branch before it is renormalised: the drawn position
  is perturbed, then every position takes its absolute value. The source perturbs the
  array it is given in place; on values that write is not visible, and the operators on
  arrays in memory below account for it.
\<close>

definition perturbar :: "npfloat list \<Rightarrow> nat \<Rightarrow> real \<Rightarrow> py_error + npfloat list" where
  "perturbar individuo idx z =
     (if idx < length individuo
      then Inr (map fabs (individuo[idx := fadd (individuo ! idx) (Fin z)]))
      else Inl IndexError)"

definition mutacao ::
  "AlgoritmoGenetico \<Rightarrow> npfloat list \<Rightarrow> real \<Rightarrow> nat \<Rightarrow> real \<Rightarrow> py_error + npfloat list" where
  "mutacao ag individuo u idx z =
     (if u < taxa_mutacao ag
      then bind_err (perturbar individuo idx z) (\<lambda>individuo'. Inr (dividir_pela_soma individuo'))
      else Inr individuo)"

section \<open>The run\<close>

text \<open>The draws that produce one offspring, in the order the loop body makes them.\<close>

record sorteio =
  torneio1 :: "nat \<Rightarrow> nat"
  torneio2 :: "nat \<Rightarrow> nat"
  u_crossover :: real
  u_mascara :: "nat \<Rightarrow> real"
  u_mutacao :: real
  idx_mutacao :: nat
  ruido :: real

text \<open>
  The draws of one call of \<open>executar\<close>: those of the initial population (individual,
  position) and those of every offspring (generation, offspring).
\<close>

record aleatorio =
  iniciais :: "nat \<Rightarrow> nat \<Rightarrow> real"
  sorteios :: "nat \<Rightarrow> nat \<Rightarrow> sorteio"

text \<open>
  What numpy promises: tournament indices below the population size, uniform draws in
  the unit interval, \<open>randint(4)\<close> below 4.
\<close>

definition sorteio_valido :: "nat \<Rightarrow> sorteio \<Rightarrow> bool" where
  "sorteio_valido n s =
     ((\<forall>j. torneio1 s j < n) \<and> (\<forall>j. torneio2 s j < n) \<and> uniforme (u_crossover s) \<and>
      uniforme4 (u_mascara s) \<and> uniforme (u_mutacao s) \<and> idx_mutacao s < 4)"

definition aleatorio_valido :: "nat \<Rightarrow> aleatorio \<Rightarrow> bool" where
  "aleatorio_valido n ale =
     ((\<forall>i. uniforme4 (iniciais ale i)) \<and> (\<forall>g j. sorteio_valido n (sorteios ale g j)))"

text \<open>The list comprehension over the population: the first error ends it.\<close>

fun fitness_todos :: "AlgoritmoGenetico \<Rightarrow> npfloat list list \<Rightarrow> py_error + npfloat list" where
  "fitness_todos ag [] = Inr []"
| "fitness_todos ag (ind # populacao) =
     (case fitness ag ind of
        Inl e \<Rightarrow> Inl e
      | Inr f \<Rightarrow>
          (case fitness_todos ag populacao of
             Inl e \<Rightarrow> Inl e
           | Inr fs \<Rightarrow> Inr (f # fs)))"

text \<open>The body of the inner loop: two selections, crossover, mutation.\<close>

definition gerar_filho ::
  "AlgoritmoGenetico \<Rightarrow> npfloat list list \<Rightarrow> npfloat list \<Rightarrow> sorteio \<Rightarrow>
   py_error + npfloat list" where
  "gerar_filho ag populacao fitness_values s =
     bind_err (selecao_torneio ag populacao fitness_values (torneio1 s)) (\<lambda>pai1.
     bind_err (selecao_torneio ag populacao fitness_values (torneio2 s)) (\<lambda>pai2.
     bind_err (crossover ag pai1 pai2 (u_crossover s) (u_mascara s)) (\<lambda>filho.
     mutacao ag filho (u_mutacao s) (idx_mutacao s) (ruido s))))"

text \<open>
  The inner \<open>while\<close> loop. \<open>j\<close> counts the offspring made so far in this generation and
  selects their draws.
\<close>

function completar ::
  "AlgoritmoGenetico \<Rightarrow> npfloat list list \<Rightarrow> npfloat list \<Rightarrow> (nat \<Rightarrow> sorteio) \<Rightarrow> nat \<Rightarrow>
   npfloat list list \<Rightarrow> py_error + npfloat list list" where
  "completar ag populacao fitness_values srt j nova_populacao =
     (if int (length nova_populacao) < tamanho_pop ag
      then (case gerar_filho ag populacao fitness_values (srt j) of
              Inl e \<Rightarrow> Inl e
            | Inr filho \<Rightarrow>
                completar ag populacao fitness_values srt (Suc j) (nova_populacao @ [filho]))
      else Inr nova_populacao)"
  by pat_completeness auto
termination
  by (relation "measure (\<lambda>(ag, populacao, fitness_values, srt, j, nova_populacao).
        nat (tamanho_pop ag - int (length nova_populacao)))") auto

declare completar.simps [simp del]

text \<open>
  One iteration of the loop over the generations, on the object and the population. The
  progress line printed every tenth generation is output only and left out; the
  conversion of the list of rows with \<open>np.array\<close> keeps the rows as they are.
\<close>

definition geracao_passo ::
  "AlgoritmoGenetico \<Rightarrow> npfloat list list \<Rightarrow> (nat \<Rightarrow> sorteio) \<Rightarrow>
   py_error + (AlgoritmoGenetico \<times> npfloat list list)" where
  "geracao_passo ag populacao srt =
     bind_err (fitness_todos ag populacao) (\<lambda>fitness_values.
     bind_err (np_argmin fitness_values) (\<lambda>melhor_idx.
     bind_err (np_get fitness_values melhor_idx) (\<lambda>melhor_fitness.
     bind_err (np_get populacao melhor_idx) (\<lambda>melhor.
       let ag1 = ag\<lparr>historico_custos := historico_custos ag @ [melhor_fitness]\<rparr>;
           ag2 = (if flt melhor_fitness (melhor_custo ag1)
                  then ag1\<lparr>melhor_custo := melhor_fitness, melhor_solucao := Some melhor\<rparr>
                  else ag1)
       in bind_err (completar ag2 populacao fitness_values srt 0 [melhor]) (\<lambda>nova_populacao.
          Inr (ag2, nova_populacao))))))"

text \<open>\<open>n\<close> more generations, the next one being generation \<open>g\<close>.\<close>

fun laco_geracoes ::
  "nat \<Rightarrow> (nat \<Rightarrow> nat \<Rightarrow> sorteio) \<Rightarrow> nat \<Rightarrow> AlgoritmoGenetico \<times> npfloat list list \<Rightarrow>
   py_error + (AlgoritmoGenetico \<times> npfloat list list)" where
  "laco_geracoes 0 srts g estado = Inr estado"
| "laco_geracoes (Suc n) srts g estado =
     (case geracao_passo (fst estado) (snd estado) (srts g) of
        Inl e \<Rightarrow> Inl e
      | Inr estado' \<Rightarrow> laco_geracoes n srts (Suc g) estado')"

text \<open>The object and the population after the first \<open>g\<close> generations of a call.\<close>

definition apos_geracoes ::
  "AlgoritmoGenetico \<Rightarrow> aleatorio \<Rightarrow> nat \<Rightarrow> py_error + (AlgoritmoGenetico \<times> npfloat list list)" where
  "apos_geracoes ag ale g =
     laco_geracoes g (sorteios ale) 0 (ag, criar_populacao ag (iniciais ale))"

text \<open>
  \<open>executar\<close>: the object as the call leaves it, and the pair it returns. \<open>range\<close> of
  a negative number is empty. When an exception is raised the result is the exception;
  what the object holds at that moment is not modelled.
\<close>

definition executar ::
  "AlgoritmoGenetico \<Rightarrow> aleatorio \<Rightarrow>
   py_error + (AlgoritmoGenetico \<times> (npfloat list option \<times> npfloat))" where
  "executar ag ale =
     bind_err (apos_geracoes ag ale (nat (geracoes ag))) (\<lambda>(ag', populacao).
     Inr (ag', (melhor_solucao ag', melhor_custo ag')))"

section \<open>The operators on arrays in memory\<close>

text \<open>
  numpy arrays are objects: \<open>populacao[i]\<close> is a view of row \<open>i\<close>, \<open>copy\<close>, \<open>np.where\<close>,
  \<open>np.abs\<close> and the division make new arrays, and \<open>individuo[idx] += ...\<close> writes into
  the array it is given. To see which arrays an operator writes, the operators are
  modelled a second time on a memory of cells: an array is the address of its cell, the
  population is the list of the addresses of its rows.
\<close>

record memoria =
  celulas :: "nat \<Rightarrow> npfloat list"
  proximo :: nat

text \<open>A new array with the given contents: its address is the next free one.\<close>

definition alocar :: "memoria \<Rightarrow> npfloat list \<Rightarrow> memoria \<times> nat" where
  "alocar m v =
     (m\<lparr>celulas := (celulas m)(proximo m := v), proximo := Suc (proximo m)\<rparr>, proximo m)"

text \<open>An assignment into an existing array.\<close>

definition escrever :: "memoria \<Rightarrow> nat \<Rightarrow> npfloat list \<Rightarrow> memoria" where
  "escrever m a v = m\<lparr>celulas := (celulas m)(a := v)\<rparr>"

definition selecao_torneio_mem ::
  "AlgoritmoGenetico \<Rightarrow> memoria \<Rightarrow> nat list \<Rightarrow> npfloat list \<Rightarrow> (nat \<Rightarrow> nat) \<Rightarrow>
   py_error + (memoria \<times> nat)" where
  "selecao_torneio_mem ag m populacao fitness_values d =
     bind_err (np_random_choice (length populacao) (torneio_k ag) d) (\<lambda>idx.
     bind_err (np_take fitness_values idx) (\<lambda>fs.
     bind_err (np_argmin fs) (\<lambda>j.
     bind_err (np_get idx j) (\<lambda>melhor_idx.
     bind_err (np_get populacao melhor_idx) (\<lambda>linha.
     Inr (alocar m (celulas m linha)))))))"

definition crossover_mem ::
  "AlgoritmoGenetico \<Rightarrow> memoria \<Rightarrow> nat \<Rightarrow> nat \<Rightarrow> real \<Rightarrow> (nat \<Rightarrow> real) \<Rightarrow>
   py_error + (memoria \<times> nat)" where
  "crossover_mem ag m pai1 pai2 u um =
     (if u < taxa_crossover ag
      then bind_err (recombinar um (celulas m pai1) (celulas m pai2)) (\<lambda>v.
             (case alocar m v of (m1, filho) \<Rightarrow>
                Inr (alocar m1 (dividir_pela_soma (celulas m1 filho)))))
      else Inr (alocar m (celulas m pai1)))"

definition mutacao_mem ::
  "AlgoritmoGenetico \<Rightarrow> memoria \<Rightarrow> nat \<Rightarrow> real \<Rightarrow> nat \<Rightarrow> real \<Rightarrow> py_error + (memoria \<times> nat)" where
  "mutacao_mem ag m individuo u idx z =
     (if u < taxa_mutacao ag
      then (if idx < length (celulas m individuo)
            then (let m1 = escrever m individuo
                             ((celulas m individuo)
                                [idx := fadd (celulas m individuo ! idx) (Fin z)])
                  in (case alocar m1 (map fabs (celulas m1 individuo)) of (m2, individuo') \<Rightarrow>
                        Inr (alocar m2 (dividir_pela_soma (celulas m2 individuo')))))
            else Inl IndexError)
      else Inr (m, individuo))"

definition gerar_filho_mem ::
  "AlgoritmoGenetico \<Rightarrow> memoria \<Rightarrow> nat list \<Rightarrow> npfloat list \<Rightarrow> sorteio \<Rightarrow>
   py_error + (memoria \<times> nat)" where
  "gerar_filho_mem ag m populacao fitness_values s =
     bind_err (selecao_torneio_mem ag m populacao fitness_values (torneio1 s)) (\<lambda>(m1, pai1).
     bind_err (selecao_torneio_mem ag m1 populacao fitness_values (torneio2 s)) (\<lambda>(m2, pai2).
     bind_err (crossover_mem ag m2 pai1 pai2 (u_crossover s) (u_mascara s)) (\<lambda>(m3, filho).
     mutacao_mem ag m3 filho (u_mutacao s) (idx_mutacao s) (ruido s))))"

function completar_mem ::
  "AlgoritmoGenetico \<Rightarrow> memoria \<Rightarrow> nat list \<Rightarrow> npfloat list \<Rightarrow> (nat \<Rightarrow> sorteio) \<Rightarrow> nat \<Rightarrow>
   nat list \<Rightarrow> py_error + (memoria \<times> nat list)" where
  "completar_mem ag m populacao fitness_values srt j nova_populacao =
     (if int (length nova_populacao) < tamanho_pop ag
      then (case gerar_filho_mem ag m populacao fitness_values (srt j) of
              Inl e \<Rightarrow> Inl e
            | Inr (m', filho) \<Rightarrow>
                completar_mem ag m' populacao fitness_values srt (Suc j)
                  (nova_populacao @ [filho]))
      else Inr (m, nova_populacao))"
  by pat_completeness auto
termination
  by (relation "measure (\<lambda>(ag, m, populacao, fitness_values, srt, j, nova_populacao).
        nat (tamanho_pop ag - int (length nova_populacao)))") auto

declare completar_mem.simps [simp del]

text \<open>The rows of the population, read from memory.\<close>

definition linhas :: "memoria \<Rightarrow> nat list \<Rightarrow> npfloat list list" where
  "linhas m populacao = map (celulas m) populacao"

text \<open>Every array allocated in \<open>m\<close> has in \<open>m'\<close> the contents it has in \<open>m\<close>.\<close>

definition preserva :: "memoria \<Rightarrow> memoria \<Rightarrow> bool" where
  "preserva m m' = (proximo m \<le> proximo m' \<and> (\<forall>a<proximo m. celulas m' a = celulas m a))"

definition alocados :: "memoria \<Rightarrow> nat list \<Rightarrow> bool" where
  "alocados m as = list_all (\<lambda>a. a < proximo m) as"

section \<open>Predicates of the statements\<close>

text \<open>
  A candidate as the specification describes it: four proportions, none negative, that
  sum to one.
\<close>

definition candidato :: "npfloat list \<Rightarrow> bool" where
  "candidato v = (length v = 4 \<and> list_all (fle (Fin 0)) v \<and> np_sum v = Fin 1)"

definition nans :: "npfloat list" where
  "nans = [NaN, NaN, NaN, NaN]"

text \<open>The renormalisation of the operator is reached and its denominator is zero.\<close>

definition denominador_nulo_crossover ::
  "AlgoritmoGenetico \<Rightarrow> npfloat list \<Rightarrow> npfloat list \<Rightarrow> real \<Rightarrow> (nat \<Rightarrow> real) \<Rightarrow> bool" where
  "denominador_nulo_crossover ag pai1 pai2 u um =
     (u < taxa_crossover ag \<and>
      (case recombinar um pai1 pai2 of Inl e \<Rightarrow> False | Inr filho \<Rightarrow> np_sum filho = Fin 0))"

definition denominador_nulo_mutacao ::
  "AlgoritmoGenetico \<Rightarrow> npfloat list \<Rightarrow> real \<Rightarrow> nat \<Rightarrow> real \<Rightarrow> bool" where
  "denominador_nulo_mutacao ag individuo u idx z =
     (u < taxa_mutacao ag \<and>
      (case perturbar individuo idx z of Inl e \<Rightarrow> False | Inr v \<Rightarrow> np_sum v = Fin 0))"

section \<open>Predicates and functions of the statements about the run\<close>

text \<open>Every row of the population has four components.\<close>

definition linhas4 :: "npfloat list list \<Rightarrow> bool" where
  "linhas4 populacao = list_all (\<lambda>v. length v = 4) populacao"

text \<open>
  The invariant of the loop over the generations: the configuration is usable, and the
  population has \<open>P\<close> rows of four components.
\<close>

definition estado_ok :: "int \<Rightarrow> AlgoritmoGenetico \<Rightarrow> npfloat list list \<Rightarrow> bool" where
  "estado_ok P ag populacao =
     (tamanho_pop ag = P \<and> 0 < P \<and> 1 \<le> torneio_k ag \<and> comprimento4 (componentes ag) \<and>
      length populacao = nat P \<and> linhas4 populacao)"

text \<open>
  The bookkeeping of one generation, written as one update of the object: the best
  fitness of the generation is appended, and the best of all generations is replaced
  when that fitness is strictly smaller.
\<close>

definition registrar ::
  "AlgoritmoGenetico \<Rightarrow> npfloat \<Rightarrow> npfloat list \<Rightarrow> AlgoritmoGenetico" where
  "registrar ag f melhor =
     ag\<lparr>historico_custos := historico_custos ag @ [f],
        melhor_custo := (if flt f (melhor_custo ag) then f else melhor_custo ag),
        melhor_solucao := (if flt f (melhor_custo ag) then Some melhor else melhor_solucao ag)\<rparr>"

text \<open>\<open>m\<close> is the minimum of the values \<open>xs\<close>: one of them, and below or equal to all.\<close>

definition minimo_de :: "npfloat list \<Rightarrow> npfloat \<Rightarrow> bool" where
  "minimo_de xs m = (m \<in> set xs \<and> list_all (fle m) xs)"

text \<open>The best so far, after the values \<open>hs\<close> have been offered in turn to \<open>b\<close>.\<close>

definition menor_corrente :: "npfloat \<Rightarrow> npfloat list \<Rightarrow> npfloat" where
  "menor_corrente b hs = foldl (\<lambda>m f. if flt f m then f else m) b hs"

text \<open>The fields that the constructor sets from its arguments are the same.\<close>

definition mesma_config :: "AlgoritmoGenetico \<Rightarrow> AlgoritmoGenetico \<Rightarrow> bool" where
  "mesma_config ag ag' =
     (tamanho_pop ag' = tamanho_pop ag \<and> taxa_crossover ag' = taxa_crossover ag \<and>
      taxa_mutacao ag' = taxa_mutacao ag \<and> geracoes ag' = geracoes ag \<and>
      torneio_k ag' = torneio_k ag \<and> componentes ag' = componentes ag \<and> specs ag' = specs ag)"

text \<open>The values that are numbers, in their order.\<close>

definition numeros :: "npfloat list \<Rightarrow> npfloat list" where
  "numeros hs = filter (\<lambda>x. x \<noteq> NaN) hs"

section \<open>An example run\<close>

text \<open>
  A population of two, two generations, tournaments of two. The draws make the initial
  population \<open>[1, 0, 0, 0]\<close> and \<open>[0.25, 0.25, 0.25, 0.25]\<close>; every offspring comes from
  the row of index 0, without crossover, with a mutation that adds 1 at position 1.
\<close>

definition ag_exemplo :: AlgoritmoGenetico where
  "ag_exemplo = init_ag 2 0.7 0.01 2 2"

definition sorteio_exemplo :: sorteio where
  "sorteio_exemplo =
     \<lparr> torneio1 = (\<lambda>j. 0), torneio2 = (\<lambda>j. 1), u_crossover = 0.9, u_mascara = (\<lambda>i. 0.1),
       u_mutacao = 0, idx_mutacao = 1, ruido = 1 \<rparr>"

definition aleatorio_exemplo :: aleatorio where
  "aleatorio_exemplo =
     \<lparr> iniciais = (\<lambda>i j. if i = 0 then (if j = 0 then 0.5 else 0) else 0.25),
       sorteios = (\<lambda>g j. sorteio_exemplo) \<rparr>"

definition ag_exemplo_1 :: AlgoritmoGenetico where
  "ag_exemplo_1 = registrar ag_exemplo (Fin 102.525) [Fin 0.25, Fin 0.25, Fin 0.25, Fin 0.25]"

definition ag_exemplo_2 :: AlgoritmoGenetico where
  "ag_exemplo_2 = registrar ag_exemplo_1 (Fin 2.75) [Fin 0.5, Fin 0.5, Fin 0, Fin 0]"

definition ag_exemplo_4 :: AlgoritmoGenetico where
  "ag_exemplo_4 =
     registrar (registrar ag_exemplo_2 (Fin 102.525) [Fin 0.25, Fin 0.25, Fin 0.25, Fin 0.25])
       (Fin 2.75) [Fin 0.5, Fin 0.5, Fin 0, Fin 0]"

text \<open>
  A second set of draws for the same configuration. All four draws of the first
  individual are 0, so that it is \<open>0 / 0\<close> in every component; every offspring is the
  row of index 1, without crossover and without mutation.
\<close>

definition sorteio_nan :: sorteio where
  "sorteio_nan =
     \<lparr> torneio1 = (\<lambda>j. 1), torneio2 = (\<lambda>j. 1), u_crossover = 0.9, u_mascara = (\<lambda>i. 0.1),
       u_mutacao = 0.5, idx_mutacao = 0, ruido = 0 \<rparr>"

definition aleatorio_nan :: aleatorio where
  "aleatorio_nan =
     \<lparr> iniciais = (\<lambda>i j. if i = 0 then 0 else 0.25),
       sorteios = (\<lambda>g j. sorteio_nan) \<rparr>"

definition ag_nan_2 :: AlgoritmoGenetico where
  "ag_nan_2 = registrar (registrar ag_exemplo NaN [NaN, NaN, NaN, NaN]) NaN [NaN, NaN, NaN, NaN]"

definition ag_nan_4 :: AlgoritmoGenetico where
  "ag_nan_4 = registrar (registrar ag_nan_2 NaN [NaN, NaN, NaN, NaN]) NaN [NaN, NaN, NaN, NaN]"

section \<open>An example memory\<close>

text \<open>The memory whose cells are the given arrays, at the addresses 0, 1, 2 and so on.\<close>

definition mem_de :: "npfloat list list \<Rightarrow> memoria" where
  "mem_de rows = \<lparr> celulas = (\<lambda>a. if a < length rows then rows ! a else []),
                   proximo = length rows \<rparr>"

section \<open>The evaluator\<close>

lemma fadd_zero_left: "fadd (Fin 0) x = x"
  by (cases x) simp_all

lemma fadd_zero_right: "fadd x (Fin 0) = x"
  by (cases x) simp_all

lemma fle_zero_fadd: "fle (Fin 0) x \<Longrightarrow> fle (Fin 0) y \<Longrightarrow> fle (Fin 0) (fadd x y)"
  by (cases x; cases y) (auto simp: fle_def)

lemma parcela_nonneg: "0 < w \<Longrightarrow> flt v t \<Longrightarrow> fle (Fin 0) (fmul (Fin w) (fsub t v))"
  by (cases v; cases t) (simp_all add: fle_def fsub_def signed_inf_def)

lemma parcela_min_nonneg: "0 < w \<Longrightarrow> fle (Fin 0) (fmul (Fin w) (violacao_min t v))"
  by (simp add: violacao_min_def parcela_nonneg) (simp add: fle_def)

lemma parcela_max_nonneg: "0 < w \<Longrightarrow> fle (Fin 0) (fmul (Fin w) (violacao_max t v))"
  by (simp add: violacao_max_def fgt_def parcela_nonneg) (simp add: fle_def)

lemma penalidade_de_spec: "penalidade_de sp props = penalidade_spec sp props"
  by (cases props)
     (simp add: penalidade_de_def penalidade_spec_def violacao_min_def violacao_max_def
        Let_def fadd_zero_left fadd_zero_right)

lemma penalidade_spec_nonneg: "fle (Fin 0) (penalidade_spec sp props)"
  by (cases props)
     (simp add: penalidade_spec_def fle_zero_fadd parcela_min_nonneg parcela_max_nonneg)

lemma fle_not_flt: "fle x y \<Longrightarrow> \<not> flt y x"
  by (cases x; cases y) (auto simp: fle_def)

lemma penalidade_spec_atende: "atende sp props \<Longrightarrow> penalidade_spec sp props = Fin 0"
  by (cases props)
     (simp add: penalidade_spec_def atende_def violacao_min_def violacao_max_def fge_def
        fgt_def fle_not_flt)

lemma np_dot_Inr: "length xs = length ys \<Longrightarrow> np_dot xs ys = Inr (np_sum (map2 fmul xs ys))"
  by (simp add: np_dot_def)

lemma calcular_propriedades_Inr:
  assumes "length individuo = 4" "comprimento4 (componentes ag)"
  shows "\<exists>props. calcular_propriedades ag individuo = Inr props"
  using assms by (simp add: calcular_propriedades_def comprimento4_def np_dot_Inr bind_err_def)

text \<open>
  Claim C1. For every candidate of length 4, \<open>calcular_penalidades\<close> returns the sum
  over the four constraints of weight times violation magnitude: 100 times the octane
  deficit, 50 times the vapor pressure excess, 200 times the benzene excess and 150
  times the sulfur excess, each being 0 when its constraint is met. The result is
  therefore never negative, and it is 0 for a candidate whose blended properties meet
  all four thresholds.
\<close>

theorem calcular_penalidades_soma:
  assumes "length individuo = 4" and "comprimento4 (componentes ag)"
  shows "\<exists>props. calcular_propriedades ag individuo = Inr props \<and>
           calcular_penalidades ag individuo = Inr (penalidade_spec (specs ag) props) \<and>
           fle (Fin 0) (penalidade_spec (specs ag) props) \<and>
           (atende (specs ag) props \<longrightarrow> calcular_penalidades ag individuo = Inr (Fin 0))"
proof -
  from assms obtain props where p: "calcular_propriedades ag individuo = Inr props"
    using calcular_propriedades_Inr by blast
  have "calcular_penalidades ag individuo = Inr (penalidade_spec (specs ag) props)"
    by (simp add: calcular_penalidades_def p bind_err_def penalidade_de_spec)
  then show ?thesis
    using p penalidade_spec_nonneg penalidade_spec_atende by auto
qed

lemmas avaliar =
  calcular_propriedades_def calcular_custo_def calcular_penalidades_def fitness_def
  penalidade_de_def init_ag_def componente_dados_def especificacoes_def np_dot_def
  np_sum_def bind_err_def fsub_def fgt_def fle_def fge_def Let_def

theorem calcular_penalidades_soma_witness:
  "length [Fin 0.5, Fin 0.5, Fin 0, Fin 0] = 4 \<and>
   comprimento4 (componentes (init_ag 100 0.7 0.01 100 3)) \<and>
   calcular_propriedades (init_ag 100 0.7 0.01 100 3) [Fin 0.5, Fin 0.5, Fin 0, Fin 0]
     = Inr (Fin 91.5, Fin 60, Fin 2, Fin 50) \<and>
   atende (specs (init_ag 100 0.7 0.01 100 3)) (Fin 91.5, Fin 60, Fin 2, Fin 50) \<and>
   calcular_penalidades (init_ag 100 0.7 0.01 100 3) [Fin 0.5, Fin 0.5, Fin 0, Fin 0]
     = Inr (Fin 0)"
proof -
  let ?ag = "init_ag 100 0.7 0.01 100 3"
  let ?x = "[Fin 0.5, Fin 0.5, Fin 0, Fin 0]"
  have l: "length ?x = 4" by simp
  have c: "comprimento4 (componentes ?ag)"
    by (simp add: comprimento4_def init_ag_def componente_dados_def)
  have p: "calcular_propriedades ?ag ?x = Inr (Fin 91.5, Fin 60, Fin 2, Fin 50)"
    by (simp add: avaliar)
  have a: "atende (specs ?ag) (Fin 91.5, Fin 60, Fin 2, Fin 50)"
    by (simp add: atende_def avaliar)
  from calcular_penalidades_soma [OF l c] p a
  have "calcular_penalidades ?ag ?x = Inr (Fin 0)" by auto
  with l c p a show ?thesis by blast
qed

text \<open>
  Claim C9. With the fixed component table and specification, the blend of equal parts
  has octane exactly 90, below the minimum 91, while its vapor pressure 60.5, benzene
  1.8 and sulfur 47.5 meet their maxima. It is infeasible, its penalty is exactly 100,
  its cost exactly 2.525 and its fitness 102.525.
\<close>

theorem blend_uniforme:
  "calcular_propriedades (init_ag 100 0.7 0.01 100 3) [Fin 0.25, Fin 0.25, Fin 0.25, Fin 0.25]
     = Inr (Fin 90, Fin 60.5, Fin 1.8, Fin 47.5) \<and>
   flt (Fin 90) (octanagem_min especificacoes) \<and>
   fle (Fin 60.5) (pressao_vapor_max especificacoes) \<and>
   fle (Fin 1.8) (benzeno_max especificacoes) \<and>
   fle (Fin 47.5) (enxofre_max especificacoes) \<and>
   \<not> atende especificacoes (Fin 90, Fin 60.5, Fin 1.8, Fin 47.5) \<and>
   calcular_penalidades (init_ag 100 0.7 0.01 100 3) [Fin 0.25, Fin 0.25, Fin 0.25, Fin 0.25]
     = Inr (Fin 100) \<and>
   calcular_custo (init_ag 100 0.7 0.01 100 3) [Fin 0.25, Fin 0.25, Fin 0.25, Fin 0.25]
     = Inr (Fin 2.525) \<and>
   fitness (init_ag 100 0.7 0.01 100 3) [Fin 0.25, Fin 0.25, Fin 0.25, Fin 0.25]
     = Inr (Fin 102.525)"
  by (simp add: avaliar atende_def)

section \<open>Renormalisation in the operators\<close>

lemma length4: "length v = 4 \<Longrightarrow> \<exists>w x y z. v = [w, x, y, z]"
  by (cases v; simp; rename_tac a v1; case_tac v1; simp; rename_tac b v2; case_tac v2; simp;
      rename_tac c v3; case_tac v3; simp)

lemma fle_zero_cases: "fle (Fin 0) x \<Longrightarrow> (\<exists>a\<ge>0. x = Fin a) \<or> x = PInf"
  by (cases x) (auto simp: fle_def)

lemma np_sum4: "np_sum [Fin a, Fin b, Fin c, Fin d] = Fin (a + b + c + d)"
  by (simp add: np_sum_def)

lemma candidato_reais:
  assumes "candidato v"
  shows "\<exists>a b c d. v = [Fin a, Fin b, Fin c, Fin d] \<and> 0 \<le> a \<and> 0 \<le> b \<and> 0 \<le> c \<and> 0 \<le> d \<and>
           a + b + c + d = 1"
proof -
  from assms have "length v = 4" by (simp add: candidato_def)
  then obtain w x y z where v: "v = [w, x, y, z]"
    using length4 by blast
  from assms v have nn: "fle (Fin 0) w" "fle (Fin 0) x" "fle (Fin 0) y" "fle (Fin 0) z"
    and s: "np_sum [w, x, y, z] = Fin 1"
    by (simp_all add: candidato_def)
  from nn s show ?thesis unfolding v
    by (auto dest!: fle_zero_cases simp: np_sum_def)
qed

lemma reais_candidato:
  "0 \<le> a \<Longrightarrow> 0 \<le> b \<Longrightarrow> 0 \<le> c \<Longrightarrow> 0 \<le> d \<Longrightarrow> a + b + c + d = 1 \<Longrightarrow>
   candidato [Fin a, Fin b, Fin c, Fin d]"
  by (auto simp: candidato_def np_sum4 fle_def)

lemma dividir_candidato:
  assumes "0 \<le> a" "0 \<le> b" "0 \<le> c" "0 \<le> d" and nz: "a + b + c + d \<noteq> 0"
  shows "candidato (dividir_pela_soma [Fin a, Fin b, Fin c, Fin d])"
proof -
  let ?s = "a + b + c + d"
  from assms have pos: "0 < ?s" by linarith
  have d: "dividir_pela_soma [Fin a, Fin b, Fin c, Fin d] =
      [Fin (a / ?s), Fin (b / ?s), Fin (c / ?s), Fin (d / ?s)]"
    using nz by (simp add: dividir_pela_soma_def np_sum4)
  have one: "a / ?s + b / ?s + c / ?s + d / ?s = 1"
    using nz by (simp add: add_divide_distrib [symmetric])
  show ?thesis unfolding d
    using assms(1-4) pos one by (intro reais_candidato) simp_all
qed

lemma dividir_zeros:
  "dividir_pela_soma [Fin 0, Fin 0, Fin 0, Fin 0] = nans"
  by (simp add: dividir_pela_soma_def np_sum4 nans_def)

lemma soma_zero_zeros:
  "0 \<le> a \<Longrightarrow> 0 \<le> b \<Longrightarrow> 0 \<le> c \<Longrightarrow> 0 \<le> d \<Longrightarrow> a + b + c + (d::real) = 0 \<Longrightarrow>
   a = 0 \<and> b = 0 \<and> c = 0 \<and> d = 0"
  by linarith

lemma recombinar4:
  "recombinar um [a1, b1, c1, d1] [a2, b2, c2, d2] =
     Inr [if um 0 < 0.5 then a1 else a2, if um 1 < 0.5 then b1 else b2,
          if um 2 < 0.5 then c1 else c2, if um 3 < 0.5 then d1 else d2]"
  by (simp add: recombinar_def np_where_def broadcast_def np_random4_def bind_err_def)

lemma recombinar_reais:
  "\<exists>a b c d. recombinar um [Fin a1, Fin b1, Fin c1, Fin d1] [Fin a2, Fin b2, Fin c2, Fin d2]
      = Inr [Fin a, Fin b, Fin c, Fin d] \<and>
     a \<in> {a1, a2} \<and> b \<in> {b1, b2} \<and> c \<in> {c1, c2} \<and> d \<in> {d1, d2}"
  by (simp add: recombinar4)

lemma crossover_candidato:
  assumes p1: "candidato pai1" and p2: "candidato pai2"
    and nz: "\<not> denominador_nulo_crossover ag pai1 pai2 uc um"
  shows "\<exists>filho. crossover ag pai1 pai2 uc um = Inr filho \<and> candidato filho"
proof (cases "uc < taxa_crossover ag")
  case False
  then show ?thesis using p1 by (simp add: crossover_def)
next
  case True
  from candidato_reais [OF p1] obtain a1 b1 c1 d1 where
    v1: "pai1 = [Fin a1, Fin b1, Fin c1, Fin d1]" and n1: "0 \<le> a1" "0 \<le> b1" "0 \<le> c1" "0 \<le> d1"
    by blast
  from candidato_reais [OF p2] obtain a2 b2 c2 d2 where
    v2: "pai2 = [Fin a2, Fin b2, Fin c2, Fin d2]" and n2: "0 \<le> a2" "0 \<le> b2" "0 \<le> c2" "0 \<le> d2"
    by blast
  from recombinar_reais [of um a1 b1 c1 d1 a2 b2 c2 d2] obtain a b c d where
    r: "recombinar um pai1 pai2 = Inr [Fin a, Fin b, Fin c, Fin d]"
    and m: "a \<in> {a1, a2}" "b \<in> {b1, b2}" "c \<in> {c1, c2}" "d \<in> {d1, d2}"
    unfolding v1 v2 by blast
  from m n1 n2 have nn: "0 \<le> a" "0 \<le> b" "0 \<le> c" "0 \<le> d" by auto
  from nz True r have "a + b + c + d \<noteq> 0"
    by (simp add: denominador_nulo_crossover_def np_sum4)
  from dividir_candidato [OF nn this] True r show ?thesis
    by (simp add: crossover_def bind_err_def)
qed

lemma perturbar4:
  assumes "idx < 4"
  shows "\<exists>a b c d. perturbar [Fin a0, Fin b0, Fin c0, Fin d0] idx z = Inr [Fin a, Fin b, Fin c, Fin d]
           \<and> 0 \<le> a \<and> 0 \<le> b \<and> 0 \<le> c \<and> 0 \<le> d"
proof -
  from assms have "idx = 0 \<or> idx = 1 \<or> idx = 2 \<or> idx = 3" by arith
  then show ?thesis
    by (elim disjE) (simp_all add: perturbar_def)
qed

lemma mutacao_candidato:
  assumes p: "candidato individuo" and i: "idx < 4"
    and nz: "\<not> denominador_nulo_mutacao ag individuo u idx z"
  shows "\<exists>r. mutacao ag individuo u idx z = Inr r \<and> candidato r"
proof (cases "u < taxa_mutacao ag")
  case False
  then show ?thesis using p by (simp add: mutacao_def)
next
  case True
  from candidato_reais [OF p] obtain a0 b0 c0 d0 where
    v: "individuo = [Fin a0, Fin b0, Fin c0, Fin d0]" by blast
  from perturbar4 [OF i, of a0 b0 c0 d0 z] obtain a b c d where
    r: "perturbar individuo idx z = Inr [Fin a, Fin b, Fin c, Fin d]"
    and nn: "0 \<le> a" "0 \<le> b" "0 \<le> c" "0 \<le> d"
    unfolding v by blast
  from nz True r have "a + b + c + d \<noteq> 0"
    by (simp add: denominador_nulo_mutacao_def np_sum4)
  from dividir_candidato [OF nn this] True r show ?thesis
    by (simp add: mutacao_def bind_err_def)
qed

lemma criar_individuo_candidato:
  assumes "uniforme4 u" and "np_sum (np_random4 u) \<noteq> Fin 0"
  shows "candidato (criar_individuo u)"
proof -
  from assms(1) have nn: "0 \<le> u 0" "0 \<le> u 1" "0 \<le> u 2" "0 \<le> u 3"
    by (simp_all add: uniforme4_def uniforme_def)
  from assms(2) have "u 0 + u 1 + u 2 + u 3 \<noteq> 0"
    by (simp add: np_random4_def np_sum4)
  from dividir_candidato [OF nn this] show ?thesis
    by (simp add: criar_individuo_def np_random4_def)
qed

lemma crossover_Inr:
  assumes "length pai1 = 4" "length pai2 = 4"
  shows "\<exists>filho. crossover ag pai1 pai2 uc um = Inr filho"
proof -
  from assms(1) obtain a1 b1 c1 d1 where "pai1 = [a1, b1, c1, d1]"
    using length4 by blast
  moreover from assms(2) obtain a2 b2 c2 d2 where "pai2 = [a2, b2, c2, d2]"
    using length4 by blast
  ultimately show ?thesis
    by (simp add: crossover_def recombinar4 bind_err_def)
qed

lemma mutacao_Inr:
  assumes "length individuo = 4" "idx < 4"
  shows "\<exists>r. mutacao ag individuo u idx z = Inr r"
  using assms by (simp add: mutacao_def perturbar_def bind_err_def)

lemma crossover_nans:
  assumes p1: "candidato pai1" and p2: "candidato pai2"
    and z: "denominador_nulo_crossover ag pai1 pai2 uc um"
  shows "crossover ag pai1 pai2 uc um = Inr nans"
proof -
  from candidato_reais [OF p1] obtain a1 b1 c1 d1 where
    v1: "pai1 = [Fin a1, Fin b1, Fin c1, Fin d1]" and n1: "0 \<le> a1" "0 \<le> b1" "0 \<le> c1" "0 \<le> d1"
    by blast
  from candidato_reais [OF p2] obtain a2 b2 c2 d2 where
    v2: "pai2 = [Fin a2, Fin b2, Fin c2, Fin d2]" and n2: "0 \<le> a2" "0 \<le> b2" "0 \<le> c2" "0 \<le> d2"
    by blast
  from recombinar_reais [of um a1 b1 c1 d1 a2 b2 c2 d2] obtain a b c d where
    r: "recombinar um pai1 pai2 = Inr [Fin a, Fin b, Fin c, Fin d]"
    and m: "a \<in> {a1, a2}" "b \<in> {b1, b2}" "c \<in> {c1, c2}" "d \<in> {d1, d2}"
    unfolding v1 v2 by blast
  from m n1 n2 have nn: "0 \<le> a" "0 \<le> b" "0 \<le> c" "0 \<le> d" by auto
  from z r have u: "uc < taxa_crossover ag" and "a + b + c + d = 0"
    by (simp_all add: denominador_nulo_crossover_def np_sum4)
  with nn have "a = 0 \<and> b = 0 \<and> c = 0 \<and> d = 0" using soma_zero_zeros by blast
  with r u show ?thesis
    by (simp add: crossover_def bind_err_def dividir_zeros)
qed

lemma mutacao_nans:
  assumes p: "candidato individuo" and i: "idx < 4"
    and zr: "denominador_nulo_mutacao ag individuo u idx z"
  shows "mutacao ag individuo u idx z = Inr nans"
proof -
  from candidato_reais [OF p] obtain a0 b0 c0 d0 where
    v: "individuo = [Fin a0, Fin b0, Fin c0, Fin d0]" by blast
  from perturbar4 [OF i, of a0 b0 c0 d0 z] obtain a b c d where
    r: "perturbar individuo idx z = Inr [Fin a, Fin b, Fin c, Fin d]"
    and nn: "0 \<le> a" "0 \<le> b" "0 \<le> c" "0 \<le> d"
    unfolding v by blast
  from zr r have u: "u < taxa_mutacao ag" and "a + b + c + d = 0"
    by (simp_all add: denominador_nulo_mutacao_def np_sum4)
  with nn have "a = 0 \<and> b = 0 \<and> c = 0 \<and> d = 0" using soma_zero_zeros by blast
  with r u show ?thesis
    by (simp add: mutacao_def bind_err_def dividir_zeros)
qed

text \<open>
  Claim C2, amended. Whenever the renormalisation divides by a sum that is not zero, the
  candidate returned by \<open>criar_individuo\<close>, and the candidate returned by
  \<open>crossover\<close> or \<open>mutacao\<close> on candidates (four non-negative components summing
  to 1), has four components, none negative, that sum to 1. The sum is exactly 1 here
  because finite arithmetic is exact in this model.
\<close>

theorem operadores_devolvem_candidato:
  "(uniforme4 u0 \<longrightarrow> np_sum (np_random4 u0) \<noteq> Fin 0 \<longrightarrow> candidato (criar_individuo u0)) \<and>
   (candidato pai1 \<longrightarrow> candidato pai2 \<longrightarrow> \<not> denominador_nulo_crossover ag pai1 pai2 uc um \<longrightarrow>
      (\<exists>filho. crossover ag pai1 pai2 uc um = Inr filho \<and> candidato filho)) \<and>
   (candidato individuo \<longrightarrow> idx < 4 \<longrightarrow> \<not> denominador_nulo_mutacao ag individuo u idx z \<longrightarrow>
      (\<exists>r. mutacao ag individuo u idx z = Inr r \<and> candidato r))"
  using criar_individuo_candidato crossover_candidato mutacao_candidato by blast

lemmas operadores =
  crossover_def mutacao_def recombinar_def perturbar_def np_where_def broadcast_def
  np_random4_def dividir_pela_soma_def criar_individuo_def np_sum_def bind_err_def
  denominador_nulo_crossover_def denominador_nulo_mutacao_def candidato_def
  uniforme_def uniforme4_def init_ag_def fle_def nans_def Let_def

theorem operadores_devolvem_candidato_witness:
  "uniforme4 (\<lambda>i. 1 / 2) \<and> np_sum (np_random4 (\<lambda>i. 1 / 2)) \<noteq> Fin 0 \<and>
   candidato (criar_individuo (\<lambda>i. 1 / 2)) \<and>
   candidato [Fin 1, Fin 0, Fin 0, Fin 0] \<and> candidato [Fin 0, Fin 1, Fin 0, Fin 0] \<and>
   \<not> denominador_nulo_crossover (init_ag 100 0.7 0.01 100 3)
       [Fin 1, Fin 0, Fin 0, Fin 0] [Fin 0, Fin 1, Fin 0, Fin 0] 0 (\<lambda>i. if i = 0 then 0.1 else 0.9) \<and>
   (\<exists>filho. crossover (init_ag 100 0.7 0.01 100 3)
       [Fin 1, Fin 0, Fin 0, Fin 0] [Fin 0, Fin 1, Fin 0, Fin 0] 0 (\<lambda>i. if i = 0 then 0.1 else 0.9)
         = Inr filho \<and> candidato filho) \<and>
   (1::nat) < 4 \<and>
   \<not> denominador_nulo_mutacao (init_ag 100 0.7 0.01 100 3) [Fin 1, Fin 0, Fin 0, Fin 0] 0 1 (- 1) \<and>
   (\<exists>r. mutacao (init_ag 100 0.7 0.01 100 3) [Fin 1, Fin 0, Fin 0, Fin 0] 0 1 (- 1) = Inr r \<and>
        candidato r)"
proof -
  let ?ag = "init_ag 100 0.7 0.01 100 3"
  let ?p1 = "[Fin 1, Fin 0, Fin 0, Fin 0]"
  let ?p2 = "[Fin 0, Fin 1, Fin 0, Fin 0]"
  let ?um = "\<lambda>i::nat. if i = 0 then 0.1 else (0.9::real)"
  have h1: "uniforme4 (\<lambda>i. 1 / 2)" by (simp add: operadores)
  have h2: "np_sum (np_random4 (\<lambda>i. 1 / 2)) \<noteq> Fin 0" by (simp add: operadores)
  have h3: "candidato ?p1" by (simp add: operadores)
  have h4: "candidato ?p2" by (simp add: operadores)
  have h5: "\<not> denominador_nulo_crossover ?ag ?p1 ?p2 0 ?um" by (simp add: operadores)
  have h6: "(1::nat) < 4" by simp
  have h7: "\<not> denominador_nulo_mutacao ?ag ?p1 0 1 (- 1)" by (simp add: operadores)
  from operadores_devolvem_candidato [of "\<lambda>i. 1 / 2" ?p1 ?p2 ?ag 0 ?um ?p1 1 0 "- 1"]
    h1 h2 h3 h4 h5 h6 h7
  show ?thesis by blast
qed

text \<open>
  Claim C2 as stated fails: the parents \<open>[1, 0, 0, 0]\<close> and \<open>[0, 1, 0, 0]\<close> are
  candidates, the mask that takes position 0 from the second parent and the others
  from the first gives the child \<open>[0, 0, 0, 0]\<close>, and dividing by its sum gives four
  \<open>nan\<close>.
\<close>

theorem crossover_soma_zero:
  "candidato [Fin 1, Fin 0, Fin 0, Fin 0] \<and> candidato [Fin 0, Fin 1, Fin 0, Fin 0] \<and>
   uniforme 0 \<and> uniforme4 (\<lambda>i. if i = 0 then 0.9 else 0.1) \<and>
   crossover (init_ag 100 0.7 0.01 100 3) [Fin 1, Fin 0, Fin 0, Fin 0] [Fin 0, Fin 1, Fin 0, Fin 0]
     0 (\<lambda>i. if i = 0 then 0.9 else 0.1) = Inr [NaN, NaN, NaN, NaN] \<and>
   \<not> candidato [NaN, NaN, NaN, NaN]"
  by (simp add: operadores)

text \<open>
  Claim C6. On the branch without crossover the candidate returned is a copy of the
  first parent, unchanged: its components are those of the first parent, and in memory
  it is a new array while every existing array keeps its contents. With crossover rate
  0 every uniform draw takes that branch, so \<open>crossover\<close> always returns the first
  parent.
\<close>

theorem crossover_sem_cruzamento:
  "(\<not> uc < taxa_crossover ag \<longrightarrow>
      crossover ag pai1 pai2 uc um = Inr pai1 \<and>
      (\<exists>m'. crossover_mem ag m a1 a2 uc um = Inr (m', proximo m) \<and>
            celulas m' (proximo m) = celulas m a1 \<and> preserva m m')) \<and>
   (uniforme uc \<longrightarrow> taxa_crossover ag = 0 \<longrightarrow> crossover ag pai1 pai2 uc um = Inr pai1)"
  by (simp add: crossover_def crossover_mem_def alocar_def preserva_def uniforme_def)

theorem crossover_sem_cruzamento_witness:
  "\<not> (0.8::real) < taxa_crossover (init_ag 100 0.7 0.01 100 3) \<and>
   crossover (init_ag 100 0.7 0.01 100 3) [Fin 0.4, Fin 0.3, Fin 0.2, Fin 0.1]
      [Fin 0.25, Fin 0.25, Fin 0.25, Fin 0.25] 0.8 (\<lambda>i. 0.1) = Inr [Fin 0.4, Fin 0.3, Fin 0.2, Fin 0.1] \<and>
   (\<exists>m'. crossover_mem (init_ag 100 0.7 0.01 100 3)
           (mem_de [[Fin 0.4, Fin 0.3, Fin 0.2, Fin 0.1], [Fin 0.25, Fin 0.25, Fin 0.25, Fin 0.25]])
           0 1 0.8 (\<lambda>i. 0.1) = Inr (m', 2) \<and>
         celulas m' 2 = [Fin 0.4, Fin 0.3, Fin 0.2, Fin 0.1] \<and>
         celulas m' 0 = [Fin 0.4, Fin 0.3, Fin 0.2, Fin 0.1]) \<and>
   uniforme 0 \<and> taxa_crossover (init_ag 100 0 0.01 100 3) = 0 \<and>
   crossover (init_ag 100 0 0.01 100 3) [Fin 0.4, Fin 0.3, Fin 0.2, Fin 0.1]
      [Fin 0.25, Fin 0.25, Fin 0.25, Fin 0.25] 0 (\<lambda>i. 0.1) = Inr [Fin 0.4, Fin 0.3, Fin 0.2, Fin 0.1]"
proof -
  let ?p1 = "[Fin 0.4, Fin 0.3, Fin 0.2, Fin 0.1]"
  let ?p2 = "[Fin 0.25, Fin 0.25, Fin 0.25, Fin 0.25]"
  let ?m = "mem_de [?p1, ?p2]"
  have a: "\<not> (0.8::real) < taxa_crossover (init_ag 100 0.7 0.01 100 3)"
    by (simp add: init_ag_def)
  have b: "uniforme 0" by (simp add: uniforme_def)
  have c: "taxa_crossover (init_ag 100 0 0.01 100 3) = 0" by (simp add: init_ag_def)
  have m: "proximo ?m = 2" "celulas ?m 0 = ?p1" by (simp_all add: mem_de_def)
  from crossover_sem_cruzamento [of "0.8" "init_ag 100 0.7 0.01 100 3" ?p1 ?p2 "\<lambda>i. 0.1" ?m 0 1] a
  obtain m' where r1: "crossover (init_ag 100 0.7 0.01 100 3) ?p1 ?p2 0.8 (\<lambda>i. 0.1) = Inr ?p1"
    and r2: "crossover_mem (init_ag 100 0.7 0.01 100 3) ?m 0 1 0.8 (\<lambda>i. 0.1) = Inr (m', proximo ?m)"
    and r3: "celulas m' (proximo ?m) = celulas ?m 0" and r4: "preserva ?m m'"
    by blast
  have "0 < proximo ?m" by (simp add: mem_de_def)
  with r4 have "celulas m' 0 = celulas ?m 0" unfolding preserva_def by blast
  with r2 r3 have e: "\<exists>m'. crossover_mem (init_ag 100 0.7 0.01 100 3) ?m 0 1 0.8 (\<lambda>i. 0.1)
      = Inr (m', 2) \<and> celulas m' 2 = ?p1 \<and> celulas m' 0 = ?p1"
    unfolding m by blast
  from crossover_sem_cruzamento [of 0 "init_ag 100 0 0.01 100 3" ?p1 ?p2 "\<lambda>i. 0.1"] b c
  have r5: "crossover (init_ag 100 0 0.01 100 3) ?p1 ?p2 0 (\<lambda>i. 0.1) = Inr ?p1" by blast
  from a b c r1 e r5 show ?thesis by (intro conjI)
qed

text \<open>
  Claim C7, amended. \<open>crossover\<close> and \<open>mutacao\<close> raise nothing on arrays of length 4,
  whatever the sum of the vector they renormalise. When that sum is zero, for candidates
  as input, the operator returns the array of four \<open>nan\<close>.
\<close>

theorem renormalizacao_nao_falha:
  "(length pai1 = 4 \<longrightarrow> length pai2 = 4 \<longrightarrow> (\<exists>filho. crossover ag pai1 pai2 uc um = Inr filho)) \<and>
   (length individuo = 4 \<longrightarrow> idx < 4 \<longrightarrow> (\<exists>r. mutacao ag individuo u idx z = Inr r)) \<and>
   (candidato pai1 \<longrightarrow> candidato pai2 \<longrightarrow> denominador_nulo_crossover ag pai1 pai2 uc um \<longrightarrow>
      crossover ag pai1 pai2 uc um = Inr nans) \<and>
   (candidato individuo \<longrightarrow> idx < 4 \<longrightarrow> denominador_nulo_mutacao ag individuo u idx z \<longrightarrow>
      mutacao ag individuo u idx z = Inr nans)"
  using crossover_Inr mutacao_Inr crossover_nans mutacao_nans by blast

theorem renormalizacao_nao_falha_witness:
  "length [Fin 0, Fin 0, Fin 1, Fin 0] = 4 \<and> length [Fin 0, Fin 0, Fin 0, Fin 1] = 4 \<and>
   candidato [Fin 0, Fin 0, Fin 1, Fin 0] \<and> candidato [Fin 0, Fin 0, Fin 0, Fin 1] \<and>
   (2::nat) < 4 \<and>
   denominador_nulo_crossover (init_ag 100 0.7 0.01 100 3)
     [Fin 0, Fin 0, Fin 1, Fin 0] [Fin 0, Fin 0, Fin 0, Fin 1] 0.5 (\<lambda>i. if i = 2 then 0.7 else 0.2) \<and>
   crossover (init_ag 100 0.7 0.01 100 3)
     [Fin 0, Fin 0, Fin 1, Fin 0] [Fin 0, Fin 0, Fin 0, Fin 1] 0.5 (\<lambda>i. if i = 2 then 0.7 else 0.2)
       = Inr nans \<and>
   denominador_nulo_mutacao (init_ag 100 0.7 0.01 100 3) [Fin 0, Fin 0, Fin 1, Fin 0] 0.005 2 (- 1) \<and>
   mutacao (init_ag 100 0.7 0.01 100 3) [Fin 0, Fin 0, Fin 1, Fin 0] 0.005 2 (- 1) = Inr nans"
proof -
  let ?ag = "init_ag 100 0.7 0.01 100 3"
  let ?p1 = "[Fin 0, Fin 0, Fin 1, Fin 0]"
  let ?p2 = "[Fin 0, Fin 0, Fin 0, Fin 1]"
  let ?um = "\<lambda>i::nat. if i = 2 then 0.7 else (0.2::real)"
  have h1: "length ?p1 = 4" "length ?p2 = 4" by simp_all
  have h2: "candidato ?p1" "candidato ?p2" by (simp_all add: operadores)
  have h3: "(2::nat) < 4" by simp
  have h4: "denominador_nulo_crossover ?ag ?p1 ?p2 0.5 ?um" by (simp add: operadores)
  have h5: "denominador_nulo_mutacao ?ag ?p1 0.005 2 (- 1)" by (simp add: operadores)
  from renormalizacao_nao_falha [of ?p1 ?p2 ?ag "0.5" ?um ?p1 2 "0.005" "- 1"] h1 h2 h3 h4 h5
  show ?thesis by blast
qed

text \<open>
  Claim C7 as stated fails: a mutation and a crossover whose renormalisation divides by
  zero both return an array, they do not raise.
\<close>

theorem mutacao_soma_zero:
  "np_sum [Fin 0, Fin 0, Fin 0, Fin 0] = Fin 0 \<and>
   perturbar [Fin 1, Fin 0, Fin 0, Fin 0] 0 (- 1) = Inr [Fin 0, Fin 0, Fin 0, Fin 0] \<and>
   mutacao (init_ag 100 0.7 0.01 100 3) [Fin 1, Fin 0, Fin 0, Fin 0] 0 0 (- 1)
     = Inr [NaN, NaN, NaN, NaN] \<and>
   recombinar (\<lambda>i. if i = 3 then 0.1 else 0.9) [Fin 0.5, Fin 0.5, Fin 0, Fin 0]
     [Fin 0, Fin 0, Fin 0, Fin 1] = Inr [Fin 0, Fin 0, Fin 0, Fin 0] \<and>
   crossover (init_ag 100 0.7 0.01 100 3) [Fin 0.5, Fin 0.5, Fin 0, Fin 0]
     [Fin 0, Fin 0, Fin 0, Fin 1] 0.3 (\<lambda>i. if i = 3 then 0.1 else 0.9) = Inr [NaN, NaN, NaN, NaN]"
  by (simp add: operadores)

section \<open>Tournament selection\<close>

lemma bind_err_Inr: "bind_err (Inr x) f = f x"
  by (simp add: bind_err_def)

lemma fle_refl: "x \<noteq> NaN \<Longrightarrow> fle x x"
  by (simp add: fle_def)

lemma fle_trans: "fle x y \<Longrightarrow> fle y z \<Longrightarrow> fle x z"
  by (cases x; cases y; cases z) (auto simp: fle_def)

lemma fle_antisym: "fle x y \<Longrightarrow> fle y x \<Longrightarrow> x = y"
  by (cases x; cases y) (auto simp: fle_def)

lemma fle_total: "x \<noteq> NaN \<Longrightarrow> y \<noteq> NaN \<Longrightarrow> fle x y \<or> fle y x"
  by (cases x; cases y) (auto simp: fle_def)

lemma not_fge_fle: "x \<noteq> NaN \<Longrightarrow> y \<noteq> NaN \<Longrightarrow> \<not> fge x y \<Longrightarrow> fle x y"
  using fle_total by (auto simp: fge_def)

text \<open>The scan of argmin keeps the index of a least element of what it has seen.\<close>

lemma argmin_laco_min:
  assumes "NaN \<notin> set pre" "NaN \<notin> set xs" "length pre = i" "min_ind < i"
    and "mp = pre ! min_ind" and "\<forall>y\<in>set pre. fle mp y"
  shows "argmin_laco xs i mp min_ind < length (pre @ xs) \<and>
         (\<forall>y\<in>set (pre @ xs). fle ((pre @ xs) ! argmin_laco xs i mp min_ind) y)"
  using assms
proof (induction xs arbitrary: pre i mp min_ind)
  case Nil
  then show ?case by simp
next
  case (Cons x xs)
  from Cons.prems have mpn: "mp \<noteq> NaN" and xn: "x \<noteq> NaN"
    by (auto simp: in_set_conv_nth)
  show ?case
  proof (cases "fge x mp")
    case True
    have "argmin_laco xs (Suc i) mp min_ind < length ((pre @ [x]) @ xs) \<and>
          (\<forall>y\<in>set ((pre @ [x]) @ xs). fle (((pre @ [x]) @ xs) ! argmin_laco xs (Suc i) mp min_ind) y)"
    proof (rule Cons.IH)
      show "mp = (pre @ [x]) ! min_ind" using Cons.prems by (simp add: nth_append)
      show "\<forall>y\<in>set (pre @ [x]). fle mp y" using Cons.prems True by (auto simp: fge_def)
    qed (use Cons.prems in auto)
    with True mpn show ?thesis by simp
  next
    case False
    with mpn xn have xm: "fle x mp" by (rule_tac not_fge_fle)
    have "argmin_laco xs (Suc i) x i < length ((pre @ [x]) @ xs) \<and>
          (\<forall>y\<in>set ((pre @ [x]) @ xs). fle (((pre @ [x]) @ xs) ! argmin_laco xs (Suc i) x i) y)"
    proof (rule Cons.IH)
      show "x = (pre @ [x]) ! i" using Cons.prems by (simp add: nth_append)
      show "\<forall>y\<in>set (pre @ [x]). fle x y"
        using Cons.prems xm xn by (auto intro: fle_trans fle_refl)
    qed (use Cons.prems in auto)
    with False mpn show ?thesis by simp
  qed
qed

lemma np_argmin_min:
  assumes "fs \<noteq> []" "NaN \<notin> set fs"
  shows "\<exists>j. np_argmin fs = Inr j \<and> j < length fs \<and> (\<forall>y\<in>set fs. fle (fs ! j) y)"
proof -
  from assms(1) obtain x xs where fs: "fs = x # xs" by (cases fs) auto
  from assms(2) fs have "x \<noteq> NaN" "NaN \<notin> set xs" by auto
  then have "argmin_laco xs 1 x 0 < length ([x] @ xs) \<and>
      (\<forall>y\<in>set ([x] @ xs). fle (([x] @ xs) ! argmin_laco xs 1 x 0) y)"
    by (intro argmin_laco_min) (auto simp: fle_refl)
  then show ?thesis by (simp add: fs)
qed

text \<open>Without any assumption on the values, argmin of a non-empty array is an index of it.\<close>

lemma argmin_laco_bound: "min_ind < i \<Longrightarrow> argmin_laco xs i mp min_ind < i + length xs"
proof (induction xs arbitrary: i mp min_ind)
  case Nil
  then show ?case by simp
next
  case (Cons x xs)
  have a: "argmin_laco xs (Suc i) x i < Suc i + length xs" by (rule Cons.IH) simp
  have b: "argmin_laco xs (Suc i) mp min_ind < Suc i + length xs"
    by (rule Cons.IH) (use Cons.prems in simp)
  from a b Cons.prems show ?case by simp
qed

lemma np_argmin_bound:
  assumes "fs \<noteq> []"
  shows "\<exists>j. np_argmin fs = Inr j \<and> j < length fs"
proof -
  from assms obtain x xs where fs: "fs = x # xs" by (cases fs) auto
  have "argmin_laco xs 1 x 0 < 1 + length xs" by (rule argmin_laco_bound) simp
  then show ?thesis by (simp add: fs)
qed

lemma np_random_choice_Inr:
  "0 \<le> k \<Longrightarrow> 0 < n \<Longrightarrow> np_random_choice n k d = Inr (map d [0..<nat k])"
  by (simp add: np_random_choice_def)

lemma np_take_Inr:
  "\<forall>i\<in>set idx. i < length xs \<Longrightarrow> np_take xs idx = Inr (map (\<lambda>i. xs ! i) idx)"
  by (simp add: np_take_def list_all_iff)

text \<open>A tournament of at least one valid draw returns the row of one of the drawn indices.\<close>

lemma selecao_torneio_sorteado:
  assumes k: "1 \<le> torneio_k ag" and n: "length fitness_values = length populacao"
    and d: "\<forall>j. d j < length populacao"
  shows "\<exists>j < nat (torneio_k ag).
           np_argmin (map (\<lambda>i. fitness_values ! i) (map d [0..<nat (torneio_k ag)])) = Inr j \<and>
           selecao_torneio ag populacao fitness_values d = Inr (populacao ! d j)"
proof -
  let ?k = "nat (torneio_k ag)"
  let ?idx = "map d [0..<?k]"
  let ?fs = "map (\<lambda>i. fitness_values ! i) ?idx"
  from d have pos: "0 < length populacao" by (metis less_nat_zero_code neq0_conv)
  from k have c: "np_random_choice (length populacao) (torneio_k ag) d = Inr ?idx"
    using pos by (simp add: np_random_choice_Inr)
  have t: "np_take fitness_values ?idx = Inr ?fs"
    using d n by (intro np_take_Inr) auto
  from k have "?fs \<noteq> []" by simp
  from np_argmin_bound [OF this] obtain j where a: "np_argmin ?fs = Inr j" and j: "j < ?k"
    by auto
  have g: "np_get ?idx j = Inr (d j)" using j by (simp add: np_get_def)
  have p: "np_get populacao (d j) = Inr (populacao ! d j)" using d by (simp add: np_get_def)
  have "selecao_torneio ag populacao fitness_values d = Inr (populacao ! d j)"
    by (simp only: selecao_torneio_def c t a g p bind_err_Inr)
  with a j show ?thesis by blast
qed

lemma selecao_torneio_menor_sorteado:
  assumes k: "1 \<le> torneio_k ag" and n: "length fitness_values = length populacao"
    and d: "\<forall>j. d j < length populacao" and nan: "NaN \<notin> set fitness_values"
  shows "\<exists>j < nat (torneio_k ag).
           selecao_torneio ag populacao fitness_values d = Inr (populacao ! d j) \<and>
           (\<forall>i < nat (torneio_k ag). fle (fitness_values ! d j) (fitness_values ! d i))"
proof -
  let ?k = "nat (torneio_k ag)"
  let ?fs = "map (\<lambda>i. fitness_values ! i) (map d [0..<?k])"
  from selecao_torneio_sorteado [OF k n d] obtain j where j: "j < ?k"
    and a: "np_argmin ?fs = Inr j"
    and s: "selecao_torneio ag populacao fitness_values d = Inr (populacao ! d j)" by blast
  from k have ne: "?fs \<noteq> []" by simp
  have nn: "NaN \<notin> set ?fs" using nan d n by (auto simp: in_set_conv_nth) metis
  from np_argmin_min [OF ne nn] a have m: "\<forall>y\<in>set ?fs. fle (?fs ! j) y" by auto
  have "\<forall>i < ?k. fle (fitness_values ! d j) (fitness_values ! d i)"
  proof (intro allI impI)
    fix i assume i: "i < ?k"
    then have "?fs ! i \<in> set ?fs" by (intro nth_mem) simp
    with m have "fle (?fs ! j) (?fs ! i)" by blast
    with i j show "fle (fitness_values ! d j) (fitness_values ! d i)" by simp
  qed
  with j s show ?thesis by blast
qed

text \<open>
  Claim C5, amended. For a non-empty population whose fitness values are pairwise
  distinct numbers, \<open>selecao_torneio\<close> with a tournament of the size of the population
  returns the individual of least fitness among the indices it has drawn; this is the
  individual of least fitness of the population whenever the index of that individual
  is among the draws.
\<close>

theorem selecao_torneio_populacao_inteira:
  assumes k: "torneio_k ag = int (length populacao)" and pos: "0 < length populacao"
    and n: "length fitness_values = length populacao"
    and dist: "distinct fitness_values" and nan: "NaN \<notin> set fitness_values"
    and d: "\<forall>j. d j < length populacao"
  shows "\<exists>j < length populacao.
           selecao_torneio ag populacao fitness_values d = Inr (populacao ! d j) \<and>
           (\<forall>i < length populacao. fle (fitness_values ! d j) (fitness_values ! d i)) \<and>
           (\<forall>m < length populacao.
              (\<forall>i < length populacao. fle (fitness_values ! m) (fitness_values ! i)) \<longrightarrow>
              (\<exists>i < length populacao. d i = m) \<longrightarrow> d j = m)"
proof -
  from pos have "1 \<le> int (length populacao)" by linarith
  with k have k1: "1 \<le> torneio_k ag" by simp
  from k have kn: "nat (torneio_k ag) = length populacao" by simp
  from selecao_torneio_menor_sorteado [OF k1 n d nan] obtain j where j: "j < length populacao"
    and s: "selecao_torneio ag populacao fitness_values d = Inr (populacao ! d j)"
    and m: "\<forall>i < length populacao. fle (fitness_values ! d j) (fitness_values ! d i)"
    unfolding kn by blast
  have "d j = m" if mn: "m < length populacao"
    and least: "\<forall>i < length populacao. fle (fitness_values ! m) (fitness_values ! i)"
    and drawn: "\<exists>i < length populacao. d i = m" for m
  proof -
    from drawn m have "fle (fitness_values ! d j) (fitness_values ! m)" by blast
    moreover from least d have "fle (fitness_values ! m) (fitness_values ! d j)" by blast
    ultimately have "fitness_values ! d j = fitness_values ! m" by (rule fle_antisym)
    with dist d mn n show ?thesis by (simp add: nth_eq_iff_index_eq)
  qed
  with j s m show ?thesis by blast
qed

lemma upt_0_2: "[0..<2] = [0, 1]"
  by (simp add: numeral_2_eq_2)

lemmas torneio = upt_0_2
  selecao_torneio_def np_random_choice_def np_take_def np_get_def bind_err_def
  fge_def fle_def init_ag_def

theorem selecao_torneio_populacao_inteira_witness:
  "torneio_k (init_ag 2 0.7 0.01 100 2)
     = int (length [[Fin 0.5, Fin 0.5, Fin 0, Fin 0], [Fin 0.25, Fin 0.25, Fin 0.25, Fin 0.25]]) \<and>
   length [Fin 2.75, Fin 102.525] = 2 \<and> distinct [Fin 2.75, Fin 102.525] \<and>
   NaN \<notin> set [Fin 2.75, Fin 102.525] \<and>
   (\<forall>j. (if j = 0 then 1 else 0) < (2::nat)) \<and>
   selecao_torneio (init_ag 2 0.7 0.01 100 2)
     [[Fin 0.5, Fin 0.5, Fin 0, Fin 0], [Fin 0.25, Fin 0.25, Fin 0.25, Fin 0.25]]
     [Fin 2.75, Fin 102.525] (\<lambda>j. if j = 0 then 1 else 0) = Inr [Fin 0.5, Fin 0.5, Fin 0, Fin 0]"
proof -
  let ?ag = "init_ag 2 0.7 0.01 100 2"
  let ?pop = "[[Fin 0.5, Fin 0.5, Fin 0, Fin 0], [Fin 0.25, Fin 0.25, Fin 0.25, Fin 0.25]]"
  let ?fv = "[Fin 2.75, Fin 102.525]"
  let ?d = "\<lambda>j::nat. if j = 0 then 1 else (0::nat)"
  have h1: "torneio_k ?ag = int (length ?pop)" by (simp add: init_ag_def)
  have h2: "0 < length ?pop" by simp
  have h3: "length ?fv = length ?pop" by simp
  have h4: "distinct ?fv" by simp
  have h5: "NaN \<notin> set ?fv" by simp
  have h6: "\<forall>j. ?d j < length ?pop" by simp
  from selecao_torneio_populacao_inteira [OF h1 h2 h3 h4 h5 h6] obtain j where
    s: "selecao_torneio ?ag ?pop ?fv ?d = Inr (?pop ! ?d j)"
    and m: "\<forall>m < length ?pop. (\<forall>i < length ?pop. fle (?fv ! m) (?fv ! i)) \<longrightarrow>
              (\<exists>i < length ?pop. ?d i = m) \<longrightarrow> ?d j = m"
    by blast
  have least: "\<forall>i < length ?pop. fle (?fv ! 0) (?fv ! i)"
    by (auto simp: fle_def less_Suc_eq)
  have drawn: "\<exists>i < length ?pop. ?d i = 0"
    by (rule exI [of _ 1]) simp
  from m least drawn have "?d j = 0" by (metis h2)
  with s have "selecao_torneio ?ag ?pop ?fv ?d = Inr [Fin 0.5, Fin 0.5, Fin 0, Fin 0]"
    by simp
  with h1 h3 h4 h5 h6 show ?thesis by simp
qed

text \<open>
  Claim C5 as stated fails: the indices are drawn with replacement. In a population of
  two with fitness 2.75 and 102.525 and a tournament of size two, the draws
  \<open>[1, 1]\<close> select the individual of fitness 102.525.
\<close>

theorem torneio_repete_indice:
  "fitness_todos (init_ag 2 0.7 0.01 100 2)
     [[Fin 0.5, Fin 0.5, Fin 0, Fin 0], [Fin 0.25, Fin 0.25, Fin 0.25, Fin 0.25]]
     = Inr [Fin 2.75, Fin 102.525] \<and>
   distinct [Fin 2.75, Fin 102.525] \<and> flt (Fin 2.75) (Fin 102.525) \<and>
   torneio_k (init_ag 2 0.7 0.01 100 2)
     = int (length [[Fin 0.5, Fin 0.5, Fin 0, Fin 0], [Fin 0.25, Fin 0.25, Fin 0.25, Fin 0.25]]) \<and>
   np_random_choice 2 (torneio_k (init_ag 2 0.7 0.01 100 2)) (\<lambda>j. 1) = Inr [1, 1] \<and>
   selecao_torneio (init_ag 2 0.7 0.01 100 2)
     [[Fin 0.5, Fin 0.5, Fin 0, Fin 0], [Fin 0.25, Fin 0.25, Fin 0.25, Fin 0.25]]
     [Fin 2.75, Fin 102.525] (\<lambda>j. 1) = Inr [Fin 0.25, Fin 0.25, Fin 0.25, Fin 0.25]"
  by (simp add: torneio avaliar)

section \<open>The run: generations, history and best cost\<close>

lemma length_dividir_pela_soma: "length (dividir_pela_soma xs) = length xs"
  by (simp add: dividir_pela_soma_def)

lemma length_criar_individuo: "length (criar_individuo u) = 4"
  by (simp add: criar_individuo_def np_random4_def length_dividir_pela_soma)

lemma length_criar_populacao: "length (criar_populacao ag us) = nat (tamanho_pop ag)"
  by (simp add: criar_populacao_def)

lemma linhas4_criar_populacao: "linhas4 (criar_populacao ag us)"
  by (simp add: linhas4_def criar_populacao_def list_all_iff length_criar_individuo)

lemma linhas4_nth: "linhas4 populacao \<Longrightarrow> i < length populacao \<Longrightarrow> length (populacao ! i) = 4"
  by (simp add: linhas4_def list_all_length)

lemma fitness_Inr:
  assumes "length individuo = 4" "comprimento4 (componentes ag)"
  shows "\<exists>f. fitness ag individuo = Inr f"
  using assms
  by (simp add: fitness_def calcular_custo_def calcular_penalidades_def
      calcular_propriedades_def comprimento4_def np_dot_Inr bind_err_Inr)

lemma fitness_todos_Inr:
  assumes "linhas4 populacao" "comprimento4 (componentes ag)"
  shows "\<exists>fs. fitness_todos ag populacao = Inr fs \<and> length fs = length populacao"
  using assms(1)
proof (induction populacao)
  case Nil
  then show ?case by simp
next
  case (Cons ind populacao)
  then have "length ind = 4" and "linhas4 populacao" by (simp_all add: linhas4_def)
  with Cons.IH fitness_Inr [OF _ assms(2)] obtain f fs where
    "fitness ag ind = Inr f" "fitness_todos ag populacao = Inr fs" "length fs = length populacao"
    by blast
  then show ?case by simp
qed

lemma fitness_todos_length:
  "fitness_todos ag populacao = Inr fs \<Longrightarrow> length fs = length populacao"
  by (induction populacao arbitrary: fs) (auto split: sum.splits)

lemma fitness_todos_nth:
  "fitness_todos ag populacao = Inr fs \<Longrightarrow> i < length populacao \<Longrightarrow>
   fitness ag (populacao ! i) = Inr (fs ! i)"
proof (induction populacao arbitrary: fs i)
  case Nil
  then show ?case by simp
next
  case (Cons ind populacao)
  then show ?case by (cases i) (auto split: sum.splits)
qed

text \<open>An offspring is a mutation of a crossover of two tournament winners.\<close>

lemma gerar_filho_operadores:
  assumes "gerar_filho ag populacao fs s = Inr r"
  shows "\<exists>pai1 pai2 filho.
           selecao_torneio ag populacao fs (torneio1 s) = Inr pai1 \<and>
           selecao_torneio ag populacao fs (torneio2 s) = Inr pai2 \<and>
           crossover ag pai1 pai2 (u_crossover s) (u_mascara s) = Inr filho \<and>
           mutacao ag filho (u_mutacao s) (idx_mutacao s) (ruido s) = Inr r"
  using assms by (auto simp: gerar_filho_def bind_err_def split: sum.splits)

lemma length_crossover:
  assumes "length pai1 = 4" "length pai2 = 4"
  shows "\<exists>filho. crossover ag pai1 pai2 uc um = Inr filho \<and> length filho = 4"
proof -
  from assms(1) obtain a1 b1 c1 d1 where "pai1 = [a1, b1, c1, d1]"
    using length4 by blast
  moreover from assms(2) obtain a2 b2 c2 d2 where "pai2 = [a2, b2, c2, d2]"
    using length4 by blast
  ultimately show ?thesis
    by (simp add: crossover_def recombinar4 bind_err_Inr length_dividir_pela_soma)
qed

lemma length_mutacao:
  assumes "length individuo = 4" "idx < 4"
  shows "\<exists>r. mutacao ag individuo u idx z = Inr r \<and> length r = 4"
  using assms
  by (simp add: mutacao_def perturbar_def bind_err_Inr length_dividir_pela_soma)

lemma selecao_torneio_linha:
  assumes "1 \<le> torneio_k ag" "length fitness_values = length populacao"
    "\<forall>j. d j < length populacao" "linhas4 populacao"
  shows "\<exists>pai. selecao_torneio ag populacao fitness_values d = Inr pai \<and> length pai = 4"
proof -
  from selecao_torneio_sorteado [OF assms(1-3)] obtain j where
    "selecao_torneio ag populacao fitness_values d = Inr (populacao ! d j)" by blast
  with assms(3,4) show ?thesis by (simp add: linhas4_nth)
qed

lemma gerar_filho_Inr:
  assumes k: "1 \<le> torneio_k ag" and n: "length fitness_values = length populacao"
    and l: "linhas4 populacao" and v: "sorteio_valido (length populacao) s"
  shows "\<exists>filho. gerar_filho ag populacao fitness_values s = Inr filho \<and> length filho = 4"
proof -
  from v have d1: "\<forall>j. torneio1 s j < length populacao"
    and d2: "\<forall>j. torneio2 s j < length populacao" and i: "idx_mutacao s < 4"
    by (simp_all add: sorteio_valido_def)
  from selecao_torneio_linha [OF k n d1 l] obtain pai1 where
    p1: "selecao_torneio ag populacao fitness_values (torneio1 s) = Inr pai1" "length pai1 = 4"
    by blast
  from selecao_torneio_linha [OF k n d2 l] obtain pai2 where
    p2: "selecao_torneio ag populacao fitness_values (torneio2 s) = Inr pai2" "length pai2 = 4"
    by blast
  from length_crossover [OF p1(2) p2(2)] obtain filho where
    c: "crossover ag pai1 pai2 (u_crossover s) (u_mascara s) = Inr filho" "length filho = 4"
    by blast
  from length_mutacao [OF c(2) i] obtain r where
    m: "mutacao ag filho (u_mutacao s) (idx_mutacao s) (ruido s) = Inr r" "length r = 4"
    by blast
  from p1 p2 c m show ?thesis by (simp add: gerar_filho_def bind_err_Inr)
qed

lemma completar_Inr:
  assumes "1 \<le> torneio_k ag" and "length fitness_values = length populacao"
    and "linhas4 populacao" and "\<forall>j. sorteio_valido (length populacao) (srt j)"
  shows "\<exists>filhos. completar ag populacao fitness_values srt j nova = Inr (nova @ filhos) \<and>
           length filhos = nat (tamanho_pop ag) - length nova \<and> linhas4 filhos \<and>
           (\<forall>i < length filhos.
              gerar_filho ag populacao fitness_values (srt (j + i)) = Inr (filhos ! i))"
  using assms
proof (induction ag populacao fitness_values srt j nova rule: completar.induct)
  case (1 ag populacao fitness_values srt j nova)
  show ?case
  proof (cases "int (length nova) < tamanho_pop ag")
    case False
    then have "completar ag populacao fitness_values srt j nova = Inr (nova @ [])"
      by (subst completar.simps) simp
    moreover from False have "nat (tamanho_pop ag) - length nova = 0" by simp
    ultimately show ?thesis by (intro exI [of _ "[]"]) (simp add: linhas4_def)
  next
    case True
    from "1.prems" have "sorteio_valido (length populacao) (srt j)" by blast
    from gerar_filho_Inr [OF "1.prems"(1-3) this] obtain filho where
      f: "gerar_filho ag populacao fitness_values (srt j) = Inr filho" "length filho = 4"
      by blast
    from "1.IH" [OF True f(1) "1.prems"] obtain filhos where
      c: "completar ag populacao fitness_values srt (Suc j) (nova @ [filho])
            = Inr ((nova @ [filho]) @ filhos)"
      and len: "length filhos = nat (tamanho_pop ag) - length (nova @ [filho])"
      and l4: "linhas4 filhos"
      and each: "\<forall>i < length filhos.
              gerar_filho ag populacao fitness_values (srt (Suc j + i)) = Inr (filhos ! i)"
      by blast
    have r: "completar ag populacao fitness_values srt j nova = Inr (nova @ filho # filhos)"
      using True f(1) c by (subst completar.simps) simp
    have len': "length (filho # filhos) = nat (tamanho_pop ag) - length nova"
      using True len by simp
    have l4': "linhas4 (filho # filhos)" using l4 f(2) by (simp add: linhas4_def)
    have each': "\<forall>i < length (filho # filhos).
        gerar_filho ag populacao fitness_values (srt (j + i)) = Inr ((filho # filhos) ! i)"
    proof (intro allI impI)
      fix i assume "i < length (filho # filhos)"
      then show "gerar_filho ag populacao fitness_values (srt (j + i)) = Inr ((filho # filhos) ! i)"
        using f(1) each by (cases i) simp_all
    qed
    from r len' l4' each' show ?thesis by blast
  qed
qed

lemma registrar_eq:
  "(let ag1 = ag\<lparr>historico_custos := historico_custos ag @ [f]\<rparr>;
        ag2 = (if flt f (melhor_custo ag1)
               then ag1\<lparr>melhor_custo := f, melhor_solucao := Some m\<rparr>
               else ag1)
    in F ag2) = F (registrar ag f m)"
  by (simp add: registrar_def Let_def)

lemma geracao_passo_registrar:
  "geracao_passo ag populacao srt =
     bind_err (fitness_todos ag populacao) (\<lambda>fs.
     bind_err (np_argmin fs) (\<lambda>melhor_idx.
     bind_err (np_get fs melhor_idx) (\<lambda>f.
     bind_err (np_get populacao melhor_idx) (\<lambda>melhor.
     bind_err (completar (registrar ag f melhor) populacao fs srt 0 [melhor]) (\<lambda>nova.
     Inr (registrar ag f melhor, nova))))))"
  unfolding geracao_passo_def by (simp only: registrar_eq)

lemma geracao_passo_registro:
  assumes "geracao_passo ag populacao srt = Inr (ag', populacao')"
  shows "\<exists>fs melhor_idx. fitness_todos ag populacao = Inr fs \<and> np_argmin fs = Inr melhor_idx \<and>
           melhor_idx < length fs \<and> melhor_idx < length populacao \<and>
           ag' = registrar ag (fs ! melhor_idx) (populacao ! melhor_idx) \<and>
           completar ag' populacao fs srt 0 [populacao ! melhor_idx] = Inr populacao'"
  using assms unfolding geracao_passo_registrar
  by (auto simp: bind_err_def np_get_def split: sum.splits if_splits)

lemma geracao_passo_de_registro:
  assumes "fitness_todos ag populacao = Inr fs" "np_argmin fs = Inr melhor_idx"
    "melhor_idx < length fs" "melhor_idx < length populacao"
    "completar (registrar ag (fs ! melhor_idx) (populacao ! melhor_idx)) populacao fs srt 0
       [populacao ! melhor_idx] = Inr populacao'"
  shows "geracao_passo ag populacao srt
           = Inr (registrar ag (fs ! melhor_idx) (populacao ! melhor_idx), populacao')"
  using assms unfolding geracao_passo_registrar
  by (simp add: bind_err_def np_get_def)

lemma registrar_config:
  "tamanho_pop (registrar ag f m) = tamanho_pop ag"
  "torneio_k (registrar ag f m) = torneio_k ag"
  "geracoes (registrar ag f m) = geracoes ag"
  "taxa_crossover (registrar ag f m) = taxa_crossover ag"
  "taxa_mutacao (registrar ag f m) = taxa_mutacao ag"
  "componentes (registrar ag f m) = componentes ag"
  "specs (registrar ag f m) = specs ag"
  by (simp_all add: registrar_def)

lemma registrar_estado:
  "historico_custos (registrar ag f m) = historico_custos ag @ [f]"
  "melhor_custo (registrar ag f m) = (if flt f (melhor_custo ag) then f else melhor_custo ag)"
  by (simp_all add: registrar_def)

lemma geracao_passo_ok:
  assumes ok: "estado_ok P ag populacao" and v: "\<forall>j. sorteio_valido (nat P) (srt j)"
  shows "\<exists>ag' populacao' fs melhor_idx filhos.
           geracao_passo ag populacao srt = Inr (ag', populacao') \<and>
           estado_ok P ag' populacao' \<and>
           fitness_todos ag populacao = Inr fs \<and> np_argmin fs = Inr melhor_idx \<and>
           melhor_idx < length populacao \<and>
           ag' = registrar ag (fs ! melhor_idx) (populacao ! melhor_idx) \<and>
           populacao' = populacao ! melhor_idx # filhos \<and> length filhos = nat P - 1 \<and>
           (\<forall>j < nat P - 1. gerar_filho ag' populacao fs (srt j) = Inr (filhos ! j))"
proof -
  from ok have P: "tamanho_pop ag = P" "0 < P" and k: "1 \<le> torneio_k ag"
    and c4: "comprimento4 (componentes ag)" and len: "length populacao = nat P"
    and l4: "linhas4 populacao"
    by (simp_all add: estado_ok_def)
  from fitness_todos_Inr [OF l4 c4] obtain fs where
    fs: "fitness_todos ag populacao = Inr fs" "length fs = length populacao" by blast
  from P len fs(2) have "fs \<noteq> []" by auto
  from np_argmin_bound [OF this] obtain melhor_idx where
    a: "np_argmin fs = Inr melhor_idx" "melhor_idx < length fs" by blast
  let ?melhor = "populacao ! melhor_idx"
  let ?ag' = "registrar ag (fs ! melhor_idx) ?melhor"
  have k': "1 \<le> torneio_k ?ag'" using k by (simp add: registrar_config)
  have v': "\<forall>j. sorteio_valido (length populacao) (srt j)" using v len by simp
  from completar_Inr [OF k' fs(2) l4 v', of 0 "[?melhor]"] obtain filhos where
    c: "completar ?ag' populacao fs srt 0 [?melhor] = Inr ([?melhor] @ filhos)"
    and lf: "length filhos = nat (tamanho_pop ?ag') - length [?melhor]"
    and l4f: "linhas4 filhos"
    and each: "\<forall>i < length filhos. gerar_filho ?ag' populacao fs (srt (0 + i)) = Inr (filhos ! i)"
    by blast
  from lf P have lf': "length filhos = nat P - 1" by (simp add: registrar_config)
  have mi: "melhor_idx < length populacao" using a(2) fs(2) by simp
  have step: "geracao_passo ag populacao srt = Inr (?ag', ?melhor # filhos)"
    using geracao_passo_de_registro [OF fs(1) a(1) a(2) mi] c by simp
  have "length ?melhor = 4" using l4 mi by (rule linhas4_nth)
  with l4f have l4': "linhas4 (?melhor # filhos)" by (simp add: linhas4_def)
  have ok': "estado_ok P ?ag' (?melhor # filhos)"
    using P k c4 lf' l4' by (simp add: estado_ok_def registrar_config)
  from each lf' have each': "\<forall>j < nat P - 1. gerar_filho ?ag' populacao fs (srt j) = Inr (filhos ! j)"
    by simp
  from step ok' fs(1) a(1) mi lf' each' show ?thesis by blast
qed

text \<open>One more generation after \<open>n\<close> of them.\<close>

lemma laco_geracoes_Suc:
  "laco_geracoes (Suc n) srts g estado =
     (case laco_geracoes n srts g estado of
        Inl e \<Rightarrow> Inl e
      | Inr estado' \<Rightarrow> geracao_passo (fst estado') (snd estado') (srts (g + n)))"
proof (induction n arbitrary: g estado)
  case 0
  then show ?case by (simp split: sum.splits)
next
  case (Suc n)
  show ?case
  proof (cases "geracao_passo (fst estado) (snd estado) (srts g)")
    case (Inl e)
    then show ?thesis by simp
  next
    case (Inr estado1)
    have 1: "laco_geracoes (Suc (Suc n)) srts g estado = laco_geracoes (Suc n) srts (Suc g) estado1"
      using Inr by simp
    have 2: "laco_geracoes (Suc n) srts (Suc g) estado1 =
      (case laco_geracoes n srts (Suc g) estado1 of
        Inl e \<Rightarrow> Inl e
      | Inr estado' \<Rightarrow> geracao_passo (fst estado') (snd estado') (srts (Suc g + n)))"
      by (rule Suc.IH)
    have 3: "laco_geracoes (Suc n) srts g estado = laco_geracoes n srts (Suc g) estado1"
      using Inr by simp
    show ?thesis by (simp only: 1 2 3 add_Suc_right add_Suc)
  qed
qed

lemma apos_geracoes_Suc:
  "apos_geracoes ag ale (Suc g) =
     (case apos_geracoes ag ale g of
        Inl e \<Rightarrow> Inl e
      | Inr estado \<Rightarrow> geracao_passo (fst estado) (snd estado) (sorteios ale g))"
  unfolding apos_geracoes_def by (simp only: laco_geracoes_Suc add_0)

lemma apos_geracoes_0:
  "apos_geracoes ag ale 0 = Inr (ag, criar_populacao ag (iniciais ale))"
  by (simp add: apos_geracoes_def)

lemma menor_corrente_Nil: "menor_corrente b [] = b"
  by (simp add: menor_corrente_def)

lemma menor_corrente_snoc:
  "menor_corrente b (hs @ [f]) =
     (if flt f (menor_corrente b hs) then f else menor_corrente b hs)"
  by (simp add: menor_corrente_def)

lemma menor_corrente_append:
  "menor_corrente b (hs @ hs') = menor_corrente (menor_corrente b hs) hs'"
  by (simp add: menor_corrente_def)

lemma flt_not_NaN: "flt x y \<Longrightarrow> x \<noteq> NaN \<and> y \<noteq> NaN"
  by (cases x; cases y) simp_all

lemma flt_fle: "flt x y \<Longrightarrow> fle x y"
  by (simp add: fle_def)

lemma not_flt_fle: "x \<noteq> NaN \<Longrightarrow> y \<noteq> NaN \<Longrightarrow> \<not> flt x y \<Longrightarrow> fle y x"
  by (cases x; cases y) (auto simp: fle_def)

lemma menor_corrente_not_NaN: "b \<noteq> NaN \<Longrightarrow> menor_corrente b hs \<noteq> NaN"
proof (induction hs rule: rev_induct)
  case Nil
  then show ?case by (simp add: menor_corrente_Nil)
next
  case (snoc f hs)
  then show ?case using flt_not_NaN by (auto simp: menor_corrente_snoc)
qed

lemma passo_nao_aumenta: "m \<noteq> NaN \<Longrightarrow> fle (if flt f m then f else m) m"
  by (simp add: flt_fle fle_refl)

lemma menor_corrente_minimo:
  assumes "b \<noteq> NaN" "NaN \<notin> set hs"
  shows "minimo_de (b # hs) (menor_corrente b hs)"
  using assms(2)
proof (induction hs rule: rev_induct)
  case Nil
  then show ?case using assms(1) by (simp add: menor_corrente_Nil minimo_de_def fle_refl)
next
  case (snoc f hs)
  let ?m = "menor_corrente b hs"
  from snoc have ih: "?m \<in> set (b # hs)" "\<forall>x\<in>set (b # hs). fle ?m x" and f: "f \<noteq> NaN"
    by (auto simp: minimo_de_def list_all_iff)
  have mn: "?m \<noteq> NaN" using assms(1) by (rule menor_corrente_not_NaN)
  show ?case
  proof (cases "flt f ?m")
    case True
    then have "\<forall>x\<in>set (b # hs). fle f x" using ih(2) flt_fle fle_trans by blast
    with True f show ?thesis
      by (simp add: menor_corrente_snoc minimo_de_def list_all_iff fle_refl)
  next
    case False
    with f mn have "fle ?m f" by (intro not_flt_fle)
    with False ih show ?thesis
      by (auto simp: menor_corrente_snoc minimo_de_def list_all_iff)
  qed
qed

lemma menor_corrente_Cons:
  "menor_corrente b (x # hs) = menor_corrente (if flt x b then x else b) hs"
  by (simp add: menor_corrente_def)

lemma menor_corrente_numeros: "menor_corrente b (numeros hs) = menor_corrente b hs"
  by (induction hs arbitrary: b) (simp_all add: numeros_def menor_corrente_Cons)

lemma NaN_notin_numeros: "NaN \<notin> set (numeros hs)"
  by (simp add: numeros_def)

lemma menor_corrente_minimo_numeros:
  assumes "b \<noteq> NaN"
  shows "minimo_de (b # numeros hs) (menor_corrente b hs)"
  using menor_corrente_minimo [OF assms NaN_notin_numeros, of hs]
  by (simp add: menor_corrente_numeros)

lemma minimo_de_PInf:
  assumes "minimo_de (PInf # hs) m" "hs \<noteq> []"
  shows "minimo_de hs m"
proof (cases "m \<in> set hs")
  case True
  with assms(1) show ?thesis by (simp add: minimo_de_def)
next
  case False
  with assms(1) have m: "m = PInf" and all: "\<forall>x\<in>set hs. fle PInf x"
    by (auto simp: minimo_de_def list_all_iff)
  from assms(2) obtain x where x: "x \<in> set hs" by (cases hs) auto
  with all have "fle PInf x" by blast
  then have "x = PInf" by (cases x) (simp_all add: fle_def)
  with x m False show ?thesis by simp
qed

lemma registrar_mesma_config: "mesma_config ag (registrar ag f m)"
  by (simp add: mesma_config_def registrar_config)

lemma mesma_config_trans: "mesma_config a b \<Longrightarrow> mesma_config b c \<Longrightarrow> mesma_config a c"
  by (simp add: mesma_config_def)

lemma mesma_config_refl: "mesma_config a a"
  by (simp add: mesma_config_def)

text \<open>What the last of \<open>Suc g\<close> generations does.\<close>

lemma apos_geracoes_ultimo:
  assumes "apos_geracoes ag ale (Suc g) = Inr (ag2, populacao2)"
  shows "\<exists>ag1 populacao1. apos_geracoes ag ale g = Inr (ag1, populacao1) \<and>
           geracao_passo ag1 populacao1 (sorteios ale g) = Inr (ag2, populacao2)"
  using assms unfolding apos_geracoes_Suc by (auto split: sum.splits)

lemma apos_geracoes_historico:
  assumes "apos_geracoes ag ale g = Inr (ag', populacao')"
  shows "\<exists>hs. length hs = g \<and> historico_custos ag' = historico_custos ag @ hs \<and>
           melhor_custo ag' = menor_corrente (melhor_custo ag) hs \<and> mesma_config ag ag'"
  using assms
proof (induction g arbitrary: ag' populacao')
  case 0
  then show ?case
    by (simp add: apos_geracoes_0 menor_corrente_Nil mesma_config_refl)
next
  case (Suc g)
  from apos_geracoes_ultimo [OF Suc.prems] obtain ag1 populacao1 where
    a: "apos_geracoes ag ale g = Inr (ag1, populacao1)"
    and p: "geracao_passo ag1 populacao1 (sorteios ale g) = Inr (ag', populacao')" by blast
  from Suc.IH [OF a] obtain hs where hs: "length hs = g"
    "historico_custos ag1 = historico_custos ag @ hs"
    "melhor_custo ag1 = menor_corrente (melhor_custo ag) hs" "mesma_config ag ag1" by blast
  from geracao_passo_registro [OF p] obtain f m where r: "ag' = registrar ag1 f m" by blast
  have "length (hs @ [f]) = Suc g" using hs(1) by simp
  moreover have "historico_custos ag' = historico_custos ag @ (hs @ [f])"
    using r hs(2) by (simp add: registrar_estado)
  moreover have "melhor_custo ag' = menor_corrente (melhor_custo ag) (hs @ [f])"
    using r hs(3) by (simp add: registrar_estado menor_corrente_snoc)
  moreover have "mesma_config ag ag'"
    using r hs(4) registrar_mesma_config mesma_config_trans by blast
  ultimately show ?case by blast
qed

lemma apos_geracoes_ok:
  assumes "0 < tamanho_pop ag" "1 \<le> torneio_k ag" "comprimento4 (componentes ag)"
    and v: "aleatorio_valido (nat (tamanho_pop ag)) ale"
  shows "\<exists>ag' populacao'. apos_geracoes ag ale g = Inr (ag', populacao') \<and>
           estado_ok (tamanho_pop ag) ag' populacao'"
proof (induction g)
  case 0
  from assms(1-3) show ?case
    by (simp add: apos_geracoes_0 estado_ok_def length_criar_populacao linhas4_criar_populacao)
next
  case (Suc g)
  then obtain ag1 populacao1 where a: "apos_geracoes ag ale g = Inr (ag1, populacao1)"
    and ok: "estado_ok (tamanho_pop ag) ag1 populacao1" by blast
  from v have "\<forall>j. sorteio_valido (nat (tamanho_pop ag)) (sorteios ale g j)"
    by (simp add: aleatorio_valido_def)
  from geracao_passo_ok [OF ok this] obtain ag2 populacao2 where
    "geracao_passo ag1 populacao1 (sorteios ale g) = Inr (ag2, populacao2)"
    "estado_ok (tamanho_pop ag) ag2 populacao2" by blast
  with a show ?case by (simp add: apos_geracoes_Suc)
qed

text \<open>
  Claim C3, amended. In \<open>executar\<close> the best cost of all generations is replaced only by
  a generation's best fitness that is strictly smaller. So after each generation it is
  at most what it was before, and it is the minimum of the recorded best fitness values
  that are numbers, up to that generation, together with the best cost the call started
  from (infinity for a new object). When none of the values recorded up to that
  generation is \<open>nan\<close> it is the minimum of all of them.
\<close>

theorem melhor_custo_minimo_do_historico:
  assumes run: "apos_geracoes ag ale (Suc g) = Inr (ag2, populacao2)"
    and b: "melhor_custo ag \<noteq> NaN"
  shows "\<exists>ag1 populacao1 hs fs melhor_idx.
           apos_geracoes ag ale g = Inr (ag1, populacao1) \<and>
           fitness_todos ag1 populacao1 = Inr fs \<and> np_argmin fs = Inr melhor_idx \<and>
           length hs = g \<and> historico_custos ag1 = historico_custos ag @ hs \<and>
           historico_custos ag2 = historico_custos ag @ hs @ [fs ! melhor_idx] \<and>
           melhor_custo ag2 = (if flt (fs ! melhor_idx) (melhor_custo ag1)
                               then fs ! melhor_idx else melhor_custo ag1) \<and>
           fle (melhor_custo ag2) (melhor_custo ag1) \<and>
           minimo_de (melhor_custo ag # numeros (hs @ [fs ! melhor_idx])) (melhor_custo ag2) \<and>
           (NaN \<notin> set (hs @ [fs ! melhor_idx]) \<longrightarrow>
              minimo_de (melhor_custo ag # hs @ [fs ! melhor_idx]) (melhor_custo ag2)) \<and>
           (NaN \<notin> set (hs @ [fs ! melhor_idx]) \<longrightarrow> melhor_custo ag = PInf \<longrightarrow>
              minimo_de (hs @ [fs ! melhor_idx]) (melhor_custo ag2))"
proof -
  from apos_geracoes_ultimo [OF run] obtain ag1 populacao1 where
    a: "apos_geracoes ag ale g = Inr (ag1, populacao1)"
    and p: "geracao_passo ag1 populacao1 (sorteios ale g) = Inr (ag2, populacao2)" by blast
  from geracao_passo_registro [OF p] obtain fs melhor_idx where
    fs: "fitness_todos ag1 populacao1 = Inr fs" "np_argmin fs = Inr melhor_idx"
    and r: "ag2 = registrar ag1 (fs ! melhor_idx) (populacao1 ! melhor_idx)" by blast
  let ?f = "fs ! melhor_idx"
  from apos_geracoes_historico [OF a] obtain hs where hs: "length hs = g"
    "historico_custos ag1 = historico_custos ag @ hs"
    "melhor_custo ag1 = menor_corrente (melhor_custo ag) hs" by blast
  have n1: "melhor_custo ag1 \<noteq> NaN" unfolding hs(3) using b by (rule menor_corrente_not_NaN)
  have h2: "historico_custos ag2 = historico_custos ag @ hs @ [?f]"
    using r hs(2) by (simp add: registrar_estado)
  have m2: "melhor_custo ag2 = (if flt ?f (melhor_custo ag1) then ?f else melhor_custo ag1)"
    using r by (simp add: registrar_estado)
  have le: "fle (melhor_custo ag2) (melhor_custo ag1)"
    unfolding m2 using n1 by (rule passo_nao_aumenta)
  have m2': "melhor_custo ag2 = menor_corrente (melhor_custo ag) (hs @ [?f])"
    unfolding m2 hs(3) by (simp add: menor_corrente_snoc)
  have min0: "minimo_de (melhor_custo ag # numeros (hs @ [?f])) (melhor_custo ag2)"
    unfolding m2' using b by (rule menor_corrente_minimo_numeros)
  have min1: "NaN \<notin> set (hs @ [?f]) \<longrightarrow>
      minimo_de (melhor_custo ag # hs @ [?f]) (melhor_custo ag2)"
    unfolding m2' using b by (intro impI menor_corrente_minimo)
  have min2: "NaN \<notin> set (hs @ [?f]) \<longrightarrow> melhor_custo ag = PInf \<longrightarrow>
      minimo_de (hs @ [?f]) (melhor_custo ag2)"
  proof (intro impI)
    assume "NaN \<notin> set (hs @ [?f])" and inf: "melhor_custo ag = PInf"
    with min1 have "minimo_de (PInf # hs @ [?f]) (melhor_custo ag2)" by simp
    then show "minimo_de (hs @ [?f]) (melhor_custo ag2)" by (rule minimo_de_PInf) simp
  qed
  show ?thesis
    by (intro exI conjI; (rule a fs hs(1,2) h2 m2 le min0 min1 min2))
qed

lemma exemplo_populacao:
  "mesma_config ag_exemplo ag \<Longrightarrow>
   criar_populacao ag (iniciais aleatorio_exemplo) =
     [[Fin 1, Fin 0, Fin 0, Fin 0], [Fin 0.25, Fin 0.25, Fin 0.25, Fin 0.25]]"
  by (simp add: criar_populacao_def ag_exemplo_def aleatorio_exemplo_def init_ag_def upt_0_2
      criar_individuo_def np_random4_def dividir_pela_soma_def np_sum_def mesma_config_def)

lemmas fitness_defs =
  fitness_def calcular_custo_def calcular_penalidades_def
  calcular_propriedades_def penalidade_de_def componente_dados_def especificacoes_def
  np_dot_def np_sum_def bind_err_def fsub_def fgt_def Let_def mesma_config_def
  ag_exemplo_def init_ag_def

lemma exemplo_fitness_0:
  "mesma_config ag_exemplo ag \<Longrightarrow>
   fitness_todos ag [[Fin 1, Fin 0, Fin 0, Fin 0], [Fin 0.25, Fin 0.25, Fin 0.25, Fin 0.25]]
     = Inr [Fin 1752.5, Fin 102.525]"
  by (simp add: fitness_defs)

lemma exemplo_fitness_1:
  "mesma_config ag_exemplo ag \<Longrightarrow>
   fitness_todos ag [[Fin 0.25, Fin 0.25, Fin 0.25, Fin 0.25], [Fin 0.5, Fin 0.5, Fin 0, Fin 0]]
     = Inr [Fin 102.525, Fin 2.75]"
  by (simp add: fitness_defs)

lemmas filho_defs =
  gerar_filho_def selecao_torneio_def np_random_choice_def np_take_def np_get_def
  crossover_def mutacao_def perturbar_def dividir_pela_soma_def np_sum_def bind_err_def
  fge_def fle_def upt_0_2 sorteio_exemplo_def mesma_config_def ag_exemplo_def init_ag_def

lemma exemplo_filho_0:
  "mesma_config ag_exemplo ag \<Longrightarrow>
   gerar_filho ag [[Fin 1, Fin 0, Fin 0, Fin 0], [Fin 0.25, Fin 0.25, Fin 0.25, Fin 0.25]]
     [Fin 1752.5, Fin 102.525] sorteio_exemplo = Inr [Fin 0.5, Fin 0.5, Fin 0, Fin 0]"
  by (simp add: filho_defs)

lemma exemplo_filho_1:
  "mesma_config ag_exemplo ag \<Longrightarrow>
   gerar_filho ag [[Fin 0.25, Fin 0.25, Fin 0.25, Fin 0.25], [Fin 0.5, Fin 0.5, Fin 0, Fin 0]]
     [Fin 102.525, Fin 2.75] sorteio_exemplo = Inr [Fin 0.125, Fin 0.625, Fin 0.125, Fin 0.125]"
  by (simp add: filho_defs)

lemma exemplo_completar:
  assumes "mesma_config ag_exemplo ag"
    and "gerar_filho ag populacao fs sorteio_exemplo = Inr filho"
  shows "completar ag populacao fs (\<lambda>j. sorteio_exemplo) 0 [melhor] = Inr [melhor, filho]"
proof -
  from assms(1) have P: "tamanho_pop ag = 2" by (simp add: mesma_config_def ag_exemplo_def init_ag_def)
  have "completar ag populacao fs (\<lambda>j. sorteio_exemplo) 0 [melhor] =
        completar ag populacao fs (\<lambda>j. sorteio_exemplo) (Suc 0) ([melhor] @ [filho])"
    using P assms(2) by (subst completar.simps) simp
  also have "\<dots> = Inr ([melhor] @ [filho])"
    using P by (subst completar.simps) simp
  finally show ?thesis by simp
qed

lemma exemplo_passo_0:
  assumes c: "mesma_config ag_exemplo ag"
  shows "geracao_passo ag [[Fin 1, Fin 0, Fin 0, Fin 0], [Fin 0.25, Fin 0.25, Fin 0.25, Fin 0.25]]
           (\<lambda>j. sorteio_exemplo)
         = Inr (registrar ag (Fin 102.525) [Fin 0.25, Fin 0.25, Fin 0.25, Fin 0.25],
                [[Fin 0.25, Fin 0.25, Fin 0.25, Fin 0.25], [Fin 0.5, Fin 0.5, Fin 0, Fin 0]])"
proof -
  let ?pop = "[[Fin 1, Fin 0, Fin 0, Fin 0], [Fin 0.25, Fin 0.25, Fin 0.25, Fin 0.25]]"
  let ?fs = "[Fin 1752.5, Fin 102.525]"
  have c': "mesma_config ag_exemplo (registrar ag (?fs ! 1) (?pop ! 1))"
    using c registrar_mesma_config mesma_config_trans by blast
  have a: "np_argmin ?fs = Inr 1" by (simp add: fge_def fle_def)
  have k: "completar (registrar ag (?fs ! 1) (?pop ! 1)) ?pop ?fs (\<lambda>j. sorteio_exemplo) 0 [?pop ! 1]
      = Inr [?pop ! 1, [Fin 0.5, Fin 0.5, Fin 0, Fin 0]]"
    using c' exemplo_filho_0 [OF c'] by (rule exemplo_completar)
  from geracao_passo_de_registro [OF exemplo_fitness_0 [OF c] a _ _ k]
  show ?thesis by simp
qed

lemma exemplo_passo_1:
  assumes c: "mesma_config ag_exemplo ag"
  shows "geracao_passo ag [[Fin 0.25, Fin 0.25, Fin 0.25, Fin 0.25], [Fin 0.5, Fin 0.5, Fin 0, Fin 0]]
           (\<lambda>j. sorteio_exemplo)
         = Inr (registrar ag (Fin 2.75) [Fin 0.5, Fin 0.5, Fin 0, Fin 0],
                [[Fin 0.5, Fin 0.5, Fin 0, Fin 0], [Fin 0.125, Fin 0.625, Fin 0.125, Fin 0.125]])"
proof -
  let ?pop = "[[Fin 0.25, Fin 0.25, Fin 0.25, Fin 0.25], [Fin 0.5, Fin 0.5, Fin 0, Fin 0]]"
  let ?fs = "[Fin 102.525, Fin 2.75]"
  have c': "mesma_config ag_exemplo (registrar ag (?fs ! 1) (?pop ! 1))"
    using c registrar_mesma_config mesma_config_trans by blast
  have a: "np_argmin ?fs = Inr 1" by (simp add: fge_def fle_def)
  have k: "completar (registrar ag (?fs ! 1) (?pop ! 1)) ?pop ?fs (\<lambda>j. sorteio_exemplo) 0 [?pop ! 1]
      = Inr [?pop ! 1, [Fin 0.125, Fin 0.625, Fin 0.125, Fin 0.125]]"
    using c' exemplo_filho_1 [OF c'] by (rule exemplo_completar)
  from geracao_passo_de_registro [OF exemplo_fitness_1 [OF c] a _ _ k]
  show ?thesis by simp
qed

lemma exemplo_apos_1_geral:
  assumes c: "mesma_config ag_exemplo ag"
  shows "apos_geracoes ag aleatorio_exemplo 1 =
     Inr (registrar ag (Fin 102.525) [Fin 0.25, Fin 0.25, Fin 0.25, Fin 0.25],
          [[Fin 0.25, Fin 0.25, Fin 0.25, Fin 0.25], [Fin 0.5, Fin 0.5, Fin 0, Fin 0]])"
proof -
  have s: "sorteios aleatorio_exemplo g = (\<lambda>j. sorteio_exemplo)" for g
    by (simp add: aleatorio_exemplo_def)
  show ?thesis
    unfolding One_nat_def apos_geracoes_Suc apos_geracoes_0 exemplo_populacao [OF c]
    by (simp only: sum.case fst_conv snd_conv s exemplo_passo_0 [OF c])
qed

lemma exemplo_apos_2_geral:
  assumes c: "mesma_config ag_exemplo ag"
  shows "apos_geracoes ag aleatorio_exemplo (Suc 1) =
     Inr (registrar (registrar ag (Fin 102.525) [Fin 0.25, Fin 0.25, Fin 0.25, Fin 0.25])
            (Fin 2.75) [Fin 0.5, Fin 0.5, Fin 0, Fin 0],
          [[Fin 0.5, Fin 0.5, Fin 0, Fin 0], [Fin 0.125, Fin 0.625, Fin 0.125, Fin 0.125]])"
proof -
  have s: "sorteios aleatorio_exemplo g = (\<lambda>j. sorteio_exemplo)" for g
    by (simp add: aleatorio_exemplo_def)
  have c': "mesma_config ag_exemplo
      (registrar ag (Fin 102.525) [Fin 0.25, Fin 0.25, Fin 0.25, Fin 0.25])"
    using c registrar_mesma_config mesma_config_trans by blast
  show ?thesis
    unfolding apos_geracoes_Suc [of _ _ 1] exemplo_apos_1_geral [OF c]
    by (simp only: sum.case fst_conv snd_conv s exemplo_passo_1 [OF c'])
qed

lemma exemplo_apos_1:
  "apos_geracoes ag_exemplo aleatorio_exemplo 1 =
     Inr (ag_exemplo_1,
          [[Fin 0.25, Fin 0.25, Fin 0.25, Fin 0.25], [Fin 0.5, Fin 0.5, Fin 0, Fin 0]])"
  unfolding ag_exemplo_1_def by (rule exemplo_apos_1_geral [OF mesma_config_refl])

lemma exemplo_apos_2:
  "apos_geracoes ag_exemplo aleatorio_exemplo (Suc 1) =
     Inr (ag_exemplo_2,
          [[Fin 0.5, Fin 0.5, Fin 0, Fin 0], [Fin 0.125, Fin 0.625, Fin 0.125, Fin 0.125]])"
  unfolding ag_exemplo_2_def ag_exemplo_1_def by (rule exemplo_apos_2_geral [OF mesma_config_refl])

lemma exemplo_config_2: "mesma_config ag_exemplo ag_exemplo_2"
  unfolding ag_exemplo_2_def ag_exemplo_1_def
  using registrar_mesma_config mesma_config_trans by blast

lemma exemplo_apos_4:
  "apos_geracoes ag_exemplo_2 aleatorio_exemplo (Suc 1) =
     Inr (ag_exemplo_4,
          [[Fin 0.5, Fin 0.5, Fin 0, Fin 0], [Fin 0.125, Fin 0.625, Fin 0.125, Fin 0.125]])"
  unfolding ag_exemplo_4_def by (rule exemplo_apos_2_geral [OF exemplo_config_2])

lemma exemplo_estado_4:
  "historico_custos ag_exemplo_4 = [Fin 102.525, Fin 2.75, Fin 102.525, Fin 2.75]"
  "melhor_custo ag_exemplo_4 = Fin 2.75"
  "melhor_solucao ag_exemplo_4 = Some [Fin 0.5, Fin 0.5, Fin 0, Fin 0]"
  by (simp_all add: ag_exemplo_4_def ag_exemplo_2_def ag_exemplo_1_def ag_exemplo_def
      init_ag_def registrar_def)

lemma exemplo_estado_2:
  "historico_custos ag_exemplo_2 = [Fin 102.525, Fin 2.75]"
  "melhor_custo ag_exemplo_2 = Fin 2.75"
  "melhor_solucao ag_exemplo_2 = Some [Fin 0.5, Fin 0.5, Fin 0, Fin 0]"
  by (simp_all add: ag_exemplo_2_def ag_exemplo_1_def ag_exemplo_def init_ag_def registrar_def)

theorem melhor_custo_minimo_do_historico_witness:
  "apos_geracoes ag_exemplo aleatorio_exemplo (Suc 1) =
     Inr (ag_exemplo_2,
          [[Fin 0.5, Fin 0.5, Fin 0, Fin 0], [Fin 0.125, Fin 0.625, Fin 0.125, Fin 0.125]]) \<and>
   melhor_custo ag_exemplo \<noteq> NaN \<and> melhor_custo ag_exemplo = PInf \<and>
   historico_custos ag_exemplo_1 = [Fin 102.525] \<and>
   historico_custos ag_exemplo_2 = [Fin 102.525, Fin 2.75] \<and>
   NaN \<notin> set [Fin 102.525, Fin 2.75] \<and>
   melhor_custo ag_exemplo_1 = Fin 102.525 \<and> melhor_custo ag_exemplo_2 = Fin 2.75 \<and>
   fle (melhor_custo ag_exemplo_2) (melhor_custo ag_exemplo_1) \<and>
   minimo_de [Fin 102.525, Fin 2.75] (melhor_custo ag_exemplo_2)"
proof -
  have b: "melhor_custo ag_exemplo \<noteq> NaN" and inf: "melhor_custo ag_exemplo = PInf"
    and h0: "historico_custos ag_exemplo = []"
    by (simp_all add: ag_exemplo_def init_ag_def)
  have e1: "historico_custos ag_exemplo_1 = [Fin 102.525]"
    "melhor_custo ag_exemplo_1 = Fin 102.525"
    by (simp_all add: ag_exemplo_1_def ag_exemplo_def init_ag_def registrar_def)
  from melhor_custo_minimo_do_historico [OF exemplo_apos_2 b] obtain ag1 populacao1 hs f where
    a: "apos_geracoes ag_exemplo aleatorio_exemplo 1 = Inr (ag1, populacao1)"
    and h: "historico_custos ag_exemplo_2 = historico_custos ag_exemplo @ hs @ [f]"
    and le: "fle (melhor_custo ag_exemplo_2) (melhor_custo ag1)"
    and m: "NaN \<notin> set (hs @ [f]) \<longrightarrow> melhor_custo ag_exemplo = PInf \<longrightarrow>
              minimo_de (hs @ [f]) (melhor_custo ag_exemplo_2)"
    by blast
  from a exemplo_apos_1 have ag1: "ag1 = ag_exemplo_1" by simp
  from h have hf: "hs @ [f] = [Fin 102.525, Fin 2.75]" by (simp add: h0 exemplo_estado_2)
  have nn: "NaN \<notin> set [Fin 102.525, Fin 2.75]" by simp
  from m nn inf have "minimo_de [Fin 102.525, Fin 2.75] (melhor_custo ag_exemplo_2)"
    unfolding hf by blast
  with exemplo_apos_2 b inf e1 exemplo_estado_2 nn le ag1 show ?thesis by simp
qed

lemma executar_de_apos:
  "apos_geracoes ag ale (nat (geracoes ag)) = Inr (ag', populacao') \<Longrightarrow>
   executar ag ale = Inr (ag', (melhor_solucao ag', melhor_custo ag'))"
  by (simp add: executar_def bind_err_Inr)

text \<open>
  Claim C4, amended. With a positive population size \<open>P\<close> and a tournament size of at
  least 1, \<open>executar\<close> returns after the \<open>G\<close> iterations of its loop, having appended one
  best fitness per generation. Each next population has \<open>P\<close> members. The first is the
  row of the current population at the index that \<open>np.argmin\<close> gives on the fitness
  values, which is the individual of least fitness when all fitness values of the
  generation are numbers. Each of the other \<open>P - 1\<close> is the result of \<open>mutacao\<close> on the
  result of \<open>crossover\<close> on two results of \<open>selecao_torneio\<close> on the current population
  and its fitness values.
\<close>

theorem executar_geracoes:
  assumes P: "0 < tamanho_pop ag" and k: "1 \<le> torneio_k ag"
    and c4: "comprimento4 (componentes ag)"
    and v: "aleatorio_valido (nat (tamanho_pop ag)) ale"
  shows "\<exists>ag' populacao' hs.
           apos_geracoes ag ale (nat (geracoes ag)) = Inr (ag', populacao') \<and>
           executar ag ale = Inr (ag', (melhor_solucao ag', melhor_custo ag')) \<and>
           length hs = nat (geracoes ag) \<and> historico_custos ag' = historico_custos ag @ hs \<and>
           (\<forall>g < nat (geracoes ag). \<exists>ag1 populacao1 ag2 populacao2 fs melhor_idx.
              apos_geracoes ag ale g = Inr (ag1, populacao1) \<and>
              apos_geracoes ag ale (Suc g) = Inr (ag2, populacao2) \<and>
              length (historico_custos ag2) = Suc (length (historico_custos ag1)) \<and>
              fitness_todos ag1 populacao1 = Inr fs \<and> np_argmin fs = Inr melhor_idx \<and>
              melhor_idx < length populacao1 \<and>
              (\<forall>i < length populacao1. fitness ag1 (populacao1 ! i) = Inr (fs ! i)) \<and>
              (NaN \<notin> set fs \<longrightarrow> minimo_de fs (fs ! melhor_idx)) \<and>
              length populacao2 = nat (tamanho_pop ag) \<and>
              populacao2 ! 0 = populacao1 ! melhor_idx \<and>
              (\<forall>j < nat (tamanho_pop ag) - 1. \<exists>pai1 pai2 filho.
                 selecao_torneio ag2 populacao1 fs (torneio1 (sorteios ale g j)) = Inr pai1 \<and>
                 selecao_torneio ag2 populacao1 fs (torneio2 (sorteios ale g j)) = Inr pai2 \<and>
                 crossover ag2 pai1 pai2 (u_crossover (sorteios ale g j))
                   (u_mascara (sorteios ale g j)) = Inr filho \<and>
                 mutacao ag2 filho (u_mutacao (sorteios ale g j))
                   (idx_mutacao (sorteios ale g j)) (ruido (sorteios ale g j))
                   = Inr (populacao2 ! Suc j)))"
proof -
  from apos_geracoes_ok [OF P k c4 v] obtain ag' populacao' where
    a: "apos_geracoes ag ale (nat (geracoes ag)) = Inr (ag', populacao')" by blast
  from apos_geracoes_historico [OF a] obtain hs where
    hs: "length hs = nat (geracoes ag)" "historico_custos ag' = historico_custos ag @ hs"
    by blast
  have each: "\<exists>ag1 populacao1 ag2 populacao2 fs melhor_idx.
              apos_geracoes ag ale g = Inr (ag1, populacao1) \<and>
              apos_geracoes ag ale (Suc g) = Inr (ag2, populacao2) \<and>
              length (historico_custos ag2) = Suc (length (historico_custos ag1)) \<and>
              fitness_todos ag1 populacao1 = Inr fs \<and> np_argmin fs = Inr melhor_idx \<and>
              melhor_idx < length populacao1 \<and>
              (\<forall>i < length populacao1. fitness ag1 (populacao1 ! i) = Inr (fs ! i)) \<and>
              (NaN \<notin> set fs \<longrightarrow> minimo_de fs (fs ! melhor_idx)) \<and>
              length populacao2 = nat (tamanho_pop ag) \<and>
              populacao2 ! 0 = populacao1 ! melhor_idx \<and>
              (\<forall>j < nat (tamanho_pop ag) - 1. \<exists>pai1 pai2 filho.
                 selecao_torneio ag2 populacao1 fs (torneio1 (sorteios ale g j)) = Inr pai1 \<and>
                 selecao_torneio ag2 populacao1 fs (torneio2 (sorteios ale g j)) = Inr pai2 \<and>
                 crossover ag2 pai1 pai2 (u_crossover (sorteios ale g j))
                   (u_mascara (sorteios ale g j)) = Inr filho \<and>
                 mutacao ag2 filho (u_mutacao (sorteios ale g j))
                   (idx_mutacao (sorteios ale g j)) (ruido (sorteios ale g j))
                   = Inr (populacao2 ! Suc j))" for g
  proof -
    from apos_geracoes_ok [OF P k c4 v] obtain ag1 populacao1 where
      a1: "apos_geracoes ag ale g = Inr (ag1, populacao1)"
      and ok: "estado_ok (tamanho_pop ag) ag1 populacao1" by blast
    from v have vs: "\<forall>j. sorteio_valido (nat (tamanho_pop ag)) (sorteios ale g j)"
      by (simp add: aleatorio_valido_def)
    from geracao_passo_ok [OF ok vs] obtain ag2 populacao2 fs melhor_idx filhos where
      p: "geracao_passo ag1 populacao1 (sorteios ale g) = Inr (ag2, populacao2)"
      and fs: "fitness_todos ag1 populacao1 = Inr fs" "np_argmin fs = Inr melhor_idx"
        "melhor_idx < length populacao1"
      and r: "ag2 = registrar ag1 (fs ! melhor_idx) (populacao1 ! melhor_idx)"
      and n: "populacao2 = populacao1 ! melhor_idx # filhos" "length filhos = nat (tamanho_pop ag) - 1"
      and f: "\<forall>j < nat (tamanho_pop ag) - 1.
                gerar_filho ag2 populacao1 fs (sorteios ale g j) = Inr (filhos ! j)"
      by blast
    have a2: "apos_geracoes ag ale (Suc g) = Inr (ag2, populacao2)"
      by (simp add: apos_geracoes_Suc a1 p)
    have h: "length (historico_custos ag2) = Suc (length (historico_custos ag1))"
      using r by (simp add: registrar_estado)
    have l: "length populacao2 = nat (tamanho_pop ag)" using n P by simp
    have z: "populacao2 ! 0 = populacao1 ! melhor_idx" using n by simp
    have ft: "\<forall>i < length populacao1. fitness ag1 (populacao1 ! i) = Inr (fs ! i)"
      using fitness_todos_nth [OF fs(1)] by blast
    have least: "NaN \<notin> set fs \<longrightarrow> minimo_de fs (fs ! melhor_idx)"
    proof
      assume nn: "NaN \<notin> set fs"
      from fs(3) fitness_todos_length [OF fs(1)] have ne: "fs \<noteq> []" by auto
      from np_argmin_min [OF ne nn] fs(2) have "melhor_idx < length fs"
        "\<forall>y\<in>set fs. fle (fs ! melhor_idx) y" by auto
      then show "minimo_de fs (fs ! melhor_idx)"
        by (simp add: minimo_de_def list_all_iff)
    qed
    have f': "\<forall>j < nat (tamanho_pop ag) - 1. \<exists>pai1 pai2 filho.
                 selecao_torneio ag2 populacao1 fs (torneio1 (sorteios ale g j)) = Inr pai1 \<and>
                 selecao_torneio ag2 populacao1 fs (torneio2 (sorteios ale g j)) = Inr pai2 \<and>
                 crossover ag2 pai1 pai2 (u_crossover (sorteios ale g j))
                   (u_mascara (sorteios ale g j)) = Inr filho \<and>
                 mutacao ag2 filho (u_mutacao (sorteios ale g j))
                   (idx_mutacao (sorteios ale g j)) (ruido (sorteios ale g j))
                   = Inr (populacao2 ! Suc j)"
    proof (intro allI impI)
      fix j assume "j < nat (tamanho_pop ag) - 1"
      with f have "gerar_filho ag2 populacao1 fs (sorteios ale g j) = Inr (populacao2 ! Suc j)"
        using n by simp
      then show "\<exists>pai1 pai2 filho.
                 selecao_torneio ag2 populacao1 fs (torneio1 (sorteios ale g j)) = Inr pai1 \<and>
                 selecao_torneio ag2 populacao1 fs (torneio2 (sorteios ale g j)) = Inr pai2 \<and>
                 crossover ag2 pai1 pai2 (u_crossover (sorteios ale g j))
                   (u_mascara (sorteios ale g j)) = Inr filho \<and>
                 mutacao ag2 filho (u_mutacao (sorteios ale g j))
                   (idx_mutacao (sorteios ale g j)) (ruido (sorteios ale g j))
                   = Inr (populacao2 ! Suc j)"
        by (rule gerar_filho_operadores)
    qed
    show ?thesis
      by (intro exI conjI; (rule a1 a2 h fs l z ft least f'))
  qed
  show ?thesis
    apply (rule exI [of _ ag'], rule exI [of _ populacao'], rule exI [of _ hs])
    apply (intro conjI allI impI)
        apply (rule a executar_de_apos [OF a] hs each)+
    done
qed

lemma exemplo_valido: "aleatorio_valido 2 aleatorio_exemplo"
  by (simp add: aleatorio_valido_def aleatorio_exemplo_def sorteio_valido_def sorteio_exemplo_def
      uniforme4_def uniforme_def)

lemma exemplo_config:
  "tamanho_pop ag_exemplo = 2" "torneio_k ag_exemplo = 2" "geracoes ag_exemplo = 2"
  "comprimento4 (componentes ag_exemplo)"
  by (simp_all add: ag_exemplo_def init_ag_def comprimento4_def componente_dados_def)

theorem executar_geracoes_witness:
  "0 < tamanho_pop ag_exemplo \<and> 1 \<le> torneio_k ag_exemplo \<and>
   comprimento4 (componentes ag_exemplo) \<and>
   aleatorio_valido (nat (tamanho_pop ag_exemplo)) aleatorio_exemplo \<and>
   geracoes ag_exemplo = 2 \<and>
   executar ag_exemplo aleatorio_exemplo
     = Inr (ag_exemplo_2, (Some [Fin 0.5, Fin 0.5, Fin 0, Fin 0], Fin 2.75)) \<and>
   historico_custos ag_exemplo = [] \<and>
   historico_custos ag_exemplo_2 = [Fin 102.525, Fin 2.75] \<and>
   fitness_todos ag_exemplo
     [[Fin 1, Fin 0, Fin 0, Fin 0], [Fin 0.25, Fin 0.25, Fin 0.25, Fin 0.25]]
     = Inr [Fin 1752.5, Fin 102.525] \<and>
   NaN \<notin> set [Fin 1752.5, Fin 102.525] \<and>
   minimo_de [Fin 1752.5, Fin 102.525] (Fin 102.525) \<and>
   (\<exists>pai1 pai2 filho.
      selecao_torneio ag_exemplo_1
        [[Fin 1, Fin 0, Fin 0, Fin 0], [Fin 0.25, Fin 0.25, Fin 0.25, Fin 0.25]]
        [Fin 1752.5, Fin 102.525] (torneio1 sorteio_exemplo) = Inr pai1 \<and>
      selecao_torneio ag_exemplo_1
        [[Fin 1, Fin 0, Fin 0, Fin 0], [Fin 0.25, Fin 0.25, Fin 0.25, Fin 0.25]]
        [Fin 1752.5, Fin 102.525] (torneio2 sorteio_exemplo) = Inr pai2 \<and>
      crossover ag_exemplo_1 pai1 pai2 (u_crossover sorteio_exemplo) (u_mascara sorteio_exemplo)
        = Inr filho \<and>
      mutacao ag_exemplo_1 filho (u_mutacao sorteio_exemplo) (idx_mutacao sorteio_exemplo)
        (ruido sorteio_exemplo) = Inr [Fin 0.5, Fin 0.5, Fin 0, Fin 0])"
proof -
  let ?pop = "[[Fin 1, Fin 0, Fin 0, Fin 0], [Fin 0.25, Fin 0.25, Fin 0.25, Fin 0.25]]"
  let ?fs = "[Fin 1752.5, Fin 102.525]"
  have P: "0 < tamanho_pop ag_exemplo" and k: "1 \<le> torneio_k ag_exemplo"
    by (simp_all add: exemplo_config)
  have v: "aleatorio_valido (nat (tamanho_pop ag_exemplo)) aleatorio_exemplo"
    using exemplo_valido by (simp add: exemplo_config)
  have G: "nat (geracoes ag_exemplo) = Suc 1" by (simp add: exemplo_config)
  have s: "sorteios aleatorio_exemplo 0 0 = sorteio_exemplo"
    by (simp add: aleatorio_exemplo_def)
  have P1: "(0::nat) < nat (tamanho_pop ag_exemplo) - 1" by (simp add: exemplo_config)
  note t = executar_geracoes [OF P k exemplo_config(4) v]
  from t obtain ag' populacao' where
    a: "apos_geracoes ag_exemplo aleatorio_exemplo (nat (geracoes ag_exemplo)) = Inr (ag', populacao')"
    and e: "executar ag_exemplo aleatorio_exemplo = Inr (ag', (melhor_solucao ag', melhor_custo ag'))"
    by (elim exE conjE)
  from a have "ag' = ag_exemplo_2" unfolding G exemplo_apos_2 by simp
  with e have ex: "executar ag_exemplo aleatorio_exemplo
     = Inr (ag_exemplo_2, (Some [Fin 0.5, Fin 0.5, Fin 0, Fin 0], Fin 2.75))"
    by (simp add: exemplo_estado_2)
  have h0: "historico_custos ag_exemplo = []" by (simp add: ag_exemplo_def init_ag_def)
  from t have "\<exists>ag1 populacao1 ag2 populacao2 fs melhor_idx.
      apos_geracoes ag_exemplo aleatorio_exemplo 0 = Inr (ag1, populacao1) \<and>
      apos_geracoes ag_exemplo aleatorio_exemplo (Suc 0) = Inr (ag2, populacao2) \<and>
      fitness_todos ag1 populacao1 = Inr fs \<and> np_argmin fs = Inr melhor_idx \<and>
      (NaN \<notin> set fs \<longrightarrow> minimo_de fs (fs ! melhor_idx)) \<and>
      (\<exists>pai1 pai2 filho.
         selecao_torneio ag2 populacao1 fs (torneio1 sorteio_exemplo) = Inr pai1 \<and>
         selecao_torneio ag2 populacao1 fs (torneio2 sorteio_exemplo) = Inr pai2 \<and>
         crossover ag2 pai1 pai2 (u_crossover sorteio_exemplo) (u_mascara sorteio_exemplo)
           = Inr filho \<and>
         mutacao ag2 filho (u_mutacao sorteio_exemplo) (idx_mutacao sorteio_exemplo)
           (ruido sorteio_exemplo) = Inr (populacao2 ! Suc 0))"
    unfolding G using P1 s by (elim exE conjE) (metis zero_less_Suc)
  then obtain ag1 populacao1 ag2 populacao2 fs melhor_idx where
    a1: "apos_geracoes ag_exemplo aleatorio_exemplo 0 = Inr (ag1, populacao1)"
    and a2: "apos_geracoes ag_exemplo aleatorio_exemplo (Suc 0) = Inr (ag2, populacao2)"
    and ft: "fitness_todos ag1 populacao1 = Inr fs" and am: "np_argmin fs = Inr melhor_idx"
    and least: "NaN \<notin> set fs \<longrightarrow> minimo_de fs (fs ! melhor_idx)"
    and ops: "\<exists>pai1 pai2 filho.
         selecao_torneio ag2 populacao1 fs (torneio1 sorteio_exemplo) = Inr pai1 \<and>
         selecao_torneio ag2 populacao1 fs (torneio2 sorteio_exemplo) = Inr pai2 \<and>
         crossover ag2 pai1 pai2 (u_crossover sorteio_exemplo) (u_mascara sorteio_exemplo)
           = Inr filho \<and>
         mutacao ag2 filho (u_mutacao sorteio_exemplo) (idx_mutacao sorteio_exemplo)
           (ruido sorteio_exemplo) = Inr (populacao2 ! Suc 0)"
    by blast
  from a1 have e1: "ag1 = ag_exemplo" "populacao1 = ?pop"
    by (simp_all add: apos_geracoes_0 exemplo_populacao [OF mesma_config_refl])
  from a2 exemplo_apos_1 have e2: "ag2 = ag_exemplo_1"
    "populacao2 = [[Fin 0.25, Fin 0.25, Fin 0.25, Fin 0.25], [Fin 0.5, Fin 0.5, Fin 0, Fin 0]]"
    by simp_all
  have f0: "fitness_todos ag_exemplo ?pop = Inr ?fs"
    by (rule exemplo_fitness_0 [OF mesma_config_refl])
  from ft f0 have e3: "fs = ?fs" unfolding e1 by simp
  from am have e4: "melhor_idx = 1" unfolding e3 by (simp add: fge_def fle_def)
  have nn: "NaN \<notin> set ?fs" by simp
  from least nn have mn: "minimo_de ?fs (Fin 102.525)" unfolding e3 e4 by simp
  from ops have ops': "\<exists>pai1 pai2 filho.
      selecao_torneio ag_exemplo_1 ?pop ?fs (torneio1 sorteio_exemplo) = Inr pai1 \<and>
      selecao_torneio ag_exemplo_1 ?pop ?fs (torneio2 sorteio_exemplo) = Inr pai2 \<and>
      crossover ag_exemplo_1 pai1 pai2 (u_crossover sorteio_exemplo) (u_mascara sorteio_exemplo)
        = Inr filho \<and>
      mutacao ag_exemplo_1 filho (u_mutacao sorteio_exemplo) (idx_mutacao sorteio_exemplo)
        (ruido sorteio_exemplo) = Inr [Fin 0.5, Fin 0.5, Fin 0, Fin 0]"
    unfolding e1 e2 e3 by simp
  from P k exemplo_config(4) v exemplo_config(3) ex h0 exemplo_estado_2(1) f0 nn mn ops'
  show ?thesis by (intro conjI)
qed

lemma init_ag_config:
  "tamanho_pop (init_ag tp tc tm g k) = tp" "torneio_k (init_ag tp tc tm g k) = k"
  "geracoes (init_ag tp tc tm g k) = g" "comprimento4 (componentes (init_ag tp tc tm g k))"
  "historico_custos (init_ag tp tc tm g k) = []" "melhor_custo (init_ag tp tc tm g k) = PInf"
  by (simp_all add: init_ag_def comprimento4_def componente_dados_def)

text \<open>
  Claim C10, amended. A second call of \<open>executar\<close> on the same object does not reset
  the state of the run: the history keeps the \<open>G\<close> entries of the first call and grows
  to \<open>2G\<close> entries, and the best cost returned by the second call is the minimum of
  infinity and the recorded best fitness values of both calls that are numbers. When
  none of the recorded values is \<open>nan\<close> it is the minimum of all of them.
\<close>

theorem executar_duas_vezes:
  assumes P: "0 < tp" and k: "1 \<le> k" and G: "0 < g"
    and v1: "aleatorio_valido (nat tp) ale1" and v2: "aleatorio_valido (nat tp) ale2"
  shows "\<exists>ag1 r1 ag2 r2 h1 h2.
           executar (init_ag tp tc tm g k) ale1 = Inr (ag1, r1) \<and>
           executar ag1 ale2 = Inr (ag2, r2) \<and>
           length h1 = nat g \<and> length h2 = nat g \<and>
           historico_custos ag1 = h1 \<and> historico_custos ag2 = h1 @ h2 \<and>
           length (historico_custos ag2) = 2 * nat g \<and>
           r2 = (melhor_solucao ag2, melhor_custo ag2) \<and>
           minimo_de (PInf # numeros (h1 @ h2)) (melhor_custo ag2) \<and>
           (NaN \<notin> set (h1 @ h2) \<longrightarrow> minimo_de (h1 @ h2) (melhor_custo ag2))"
proof -
  let ?ag = "init_ag tp tc tm g k"
  have P0: "0 < tamanho_pop ?ag" and k0: "1 \<le> torneio_k ?ag"
    and c0: "comprimento4 (componentes ?ag)"
    and v0: "aleatorio_valido (nat (tamanho_pop ?ag)) ale1"
    using P k v1 by (simp_all add: init_ag_config)
  from apos_geracoes_ok [OF P0 k0 c0 v0] obtain ag1 populacao1 where
    a1: "apos_geracoes ?ag ale1 (nat (geracoes ?ag)) = Inr (ag1, populacao1)" by blast
  from apos_geracoes_historico [OF a1] obtain h1 where h1: "length h1 = nat g"
    "historico_custos ag1 = h1" "melhor_custo ag1 = menor_corrente PInf h1"
    and c: "mesma_config ?ag ag1"
    by (auto simp: init_ag_config)
  from c P0 k0 c0 v2 have P1: "0 < tamanho_pop ag1" and k1: "1 \<le> torneio_k ag1"
    and c1: "comprimento4 (componentes ag1)"
    and v1': "aleatorio_valido (nat (tamanho_pop ag1)) ale2" and g1: "geracoes ag1 = g"
    by (simp_all add: mesma_config_def init_ag_config)
  from apos_geracoes_ok [OF P1 k1 c1 v1'] obtain ag2 populacao2 where
    a2: "apos_geracoes ag1 ale2 (nat (geracoes ag1)) = Inr (ag2, populacao2)" by blast
  from apos_geracoes_historico [OF a2] obtain h2 where h2: "length h2 = nat g"
    "historico_custos ag2 = h1 @ h2" and m: "melhor_custo ag2 = menor_corrente PInf (h1 @ h2)"
    using h1 g1 by (auto simp: menor_corrente_append)
  have len: "length (historico_custos ag2) = 2 * nat g" using h1(1) h2(1,2) by simp
  from G h1(1) have ne: "h1 @ h2 \<noteq> []" by auto
  have mn: "NaN \<notin> set (h1 @ h2) \<longrightarrow> minimo_de (h1 @ h2) (melhor_custo ag2)"
  proof
    assume "NaN \<notin> set (h1 @ h2)"
    then have "minimo_de (PInf # h1 @ h2) (menor_corrente PInf (h1 @ h2))"
      by (intro menor_corrente_minimo) simp_all
    then show "minimo_de (h1 @ h2) (melhor_custo ag2)"
      unfolding m using ne by (rule minimo_de_PInf)
  qed
  have mn0: "minimo_de (PInf # numeros (h1 @ h2)) (melhor_custo ag2)"
    unfolding m by (rule menor_corrente_minimo_numeros) simp
  show ?thesis
    apply (rule exI [of _ ag1], rule exI [of _ "(melhor_solucao ag1, melhor_custo ag1)"])
    apply (rule exI [of _ ag2], rule exI [of _ "(melhor_solucao ag2, melhor_custo ag2)"])
    apply (rule exI [of _ h1], rule exI [of _ h2])
    apply (intro conjI)
            apply (rule executar_de_apos [OF a1] executar_de_apos [OF a2] h1 h2 len refl mn0 mn)+
    done
qed

theorem executar_duas_vezes_witness:
  "(0::int) < 2 \<and> (1::int) \<le> 2 \<and> aleatorio_valido (nat 2) aleatorio_exemplo \<and>
   ag_exemplo = init_ag 2 0.7 0.01 2 2 \<and>
   executar ag_exemplo aleatorio_exemplo
     = Inr (ag_exemplo_2, (Some [Fin 0.5, Fin 0.5, Fin 0, Fin 0], Fin 2.75)) \<and>
   executar ag_exemplo_2 aleatorio_exemplo
     = Inr (ag_exemplo_4, (Some [Fin 0.5, Fin 0.5, Fin 0, Fin 0], Fin 2.75)) \<and>
   historico_custos ag_exemplo_2 = [Fin 102.525, Fin 2.75] \<and>
   historico_custos ag_exemplo_4 = [Fin 102.525, Fin 2.75, Fin 102.525, Fin 2.75] \<and>
   NaN \<notin> set [Fin 102.525, Fin 2.75, Fin 102.525, Fin 2.75] \<and>
   minimo_de [Fin 102.525, Fin 2.75, Fin 102.525, Fin 2.75] (melhor_custo ag_exemplo_4)"
proof -
  have P: "(0::int) < 2" and k: "(1::int) \<le> 2" by simp_all
  have v: "aleatorio_valido (nat 2) aleatorio_exemplo" using exemplo_valido by simp
  have g2: "nat (geracoes ag_exemplo_2) = Suc 1"
    using exemplo_config_2 by (simp add: mesma_config_def exemplo_config)
  have g0: "nat (geracoes ag_exemplo) = Suc 1" by (simp add: exemplo_config)
  have e1: "executar ag_exemplo aleatorio_exemplo
     = Inr (ag_exemplo_2, (Some [Fin 0.5, Fin 0.5, Fin 0, Fin 0], Fin 2.75))"
    using executar_de_apos [of ag_exemplo aleatorio_exemplo] exemplo_apos_2
    unfolding g0 by (simp add: exemplo_estado_2)
  have e2: "executar ag_exemplo_2 aleatorio_exemplo
     = Inr (ag_exemplo_4, (Some [Fin 0.5, Fin 0.5, Fin 0, Fin 0], Fin 2.75))"
    using executar_de_apos [of ag_exemplo_2 aleatorio_exemplo] exemplo_apos_4
    unfolding g2 by (simp add: exemplo_estado_4)
  from executar_duas_vezes [OF P k P v v, of "0.7" "0.01"] obtain ag1 r1 ag2 r2 h1 h2 where
    x1: "executar (init_ag 2 0.7 0.01 2 2) aleatorio_exemplo = Inr (ag1, r1)"
    and x2: "executar ag1 aleatorio_exemplo = Inr (ag2, r2)"
    and h: "historico_custos ag2 = h1 @ h2"
    and m: "NaN \<notin> set (h1 @ h2) \<longrightarrow> minimo_de (h1 @ h2) (melhor_custo ag2)"
    by blast
  from x1 e1 have "ag1 = ag_exemplo_2" by (simp add: ag_exemplo_def)
  with x2 e2 have ag2: "ag2 = ag_exemplo_4" by simp
  from h ag2 have hh: "h1 @ h2 = [Fin 102.525, Fin 2.75, Fin 102.525, Fin 2.75]"
    by (simp add: exemplo_estado_4)
  have nn: "NaN \<notin> set [Fin 102.525, Fin 2.75, Fin 102.525, Fin 2.75]" by simp
  from m nn have "minimo_de [Fin 102.525, Fin 2.75, Fin 102.525, Fin 2.75] (melhor_custo ag_exemplo_4)"
    unfolding hh ag2 by blast
  with P k v e1 e2 exemplo_estado_2(1) exemplo_estado_4(1) nn show ?thesis
    by (simp add: ag_exemplo_def)
qed

text \<open>A run in which an individual is \<open>nan\<close> in every component.\<close>

lemma aleatorio_nan_valido: "aleatorio_valido 2 aleatorio_nan"
  by (simp add: aleatorio_valido_def aleatorio_nan_def sorteio_valido_def sorteio_nan_def
      uniforme4_def uniforme_def)

lemma nan_populacao:
  "mesma_config ag_exemplo ag \<Longrightarrow>
   criar_populacao ag (iniciais aleatorio_nan) =
     [[NaN, NaN, NaN, NaN], [Fin 0.25, Fin 0.25, Fin 0.25, Fin 0.25]]"
  by (simp add: criar_populacao_def ag_exemplo_def aleatorio_nan_def init_ag_def upt_0_2
      criar_individuo_def np_random4_def dividir_pela_soma_def np_sum_def mesma_config_def)

lemma nan_fitness:
  "mesma_config ag_exemplo ag \<Longrightarrow>
   fitness_todos ag [[NaN, NaN, NaN, NaN], [Fin 0.25, Fin 0.25, Fin 0.25, Fin 0.25]]
     = Inr [NaN, Fin 102.525]"
  by (simp add: fitness_defs)

lemma nan_filho:
  "mesma_config ag_exemplo ag \<Longrightarrow>
   gerar_filho ag [[NaN, NaN, NaN, NaN], [Fin 0.25, Fin 0.25, Fin 0.25, Fin 0.25]]
     [NaN, Fin 102.525] sorteio_nan = Inr [Fin 0.25, Fin 0.25, Fin 0.25, Fin 0.25]"
  by (simp add: filho_defs sorteio_nan_def)

lemma completar_dois:
  assumes P: "tamanho_pop ag = 2"
    and "gerar_filho ag populacao fs (srt 0) = Inr filho"
  shows "completar ag populacao fs srt 0 [melhor] = Inr [melhor, filho]"
proof -
  have "completar ag populacao fs srt 0 [melhor] =
        completar ag populacao fs srt (Suc 0) ([melhor] @ [filho])"
    using P assms(2) by (subst completar.simps) simp
  also have "\<dots> = Inr ([melhor] @ [filho])"
    using P by (subst completar.simps) simp
  finally show ?thesis by simp
qed

lemma nan_passo:
  assumes c: "mesma_config ag_exemplo ag"
  shows "geracao_passo ag [[NaN, NaN, NaN, NaN], [Fin 0.25, Fin 0.25, Fin 0.25, Fin 0.25]]
           (\<lambda>j. sorteio_nan)
         = Inr (registrar ag NaN [NaN, NaN, NaN, NaN],
                [[NaN, NaN, NaN, NaN], [Fin 0.25, Fin 0.25, Fin 0.25, Fin 0.25]])"
proof -
  let ?pop = "[[NaN, NaN, NaN, NaN], [Fin 0.25, Fin 0.25, Fin 0.25, Fin 0.25]]"
  let ?fs = "[NaN, Fin 102.525]"
  have c': "mesma_config ag_exemplo (registrar ag (?fs ! 0) (?pop ! 0))"
    using c registrar_mesma_config mesma_config_trans by blast
  then have P: "tamanho_pop (registrar ag (?fs ! 0) (?pop ! 0)) = 2"
    by (simp add: mesma_config_def exemplo_config)
  have a: "np_argmin ?fs = Inr 0" by simp
  have k: "completar (registrar ag (?fs ! 0) (?pop ! 0)) ?pop ?fs (\<lambda>j. sorteio_nan) 0 [?pop ! 0]
      = Inr [?pop ! 0, [Fin 0.25, Fin 0.25, Fin 0.25, Fin 0.25]]"
    using P nan_filho [OF c'] by (rule completar_dois)
  from geracao_passo_de_registro [OF nan_fitness [OF c] a _ _ k]
  show ?thesis by simp
qed

lemma nan_apos_1:
  assumes c: "mesma_config ag_exemplo ag"
  shows "apos_geracoes ag aleatorio_nan 1 =
     Inr (registrar ag NaN [NaN, NaN, NaN, NaN],
          [[NaN, NaN, NaN, NaN], [Fin 0.25, Fin 0.25, Fin 0.25, Fin 0.25]])"
proof -
  have s: "sorteios aleatorio_nan g = (\<lambda>j. sorteio_nan)" for g
    by (simp add: aleatorio_nan_def)
  show ?thesis
    unfolding One_nat_def apos_geracoes_Suc apos_geracoes_0 nan_populacao [OF c]
    by (simp only: sum.case fst_conv snd_conv s nan_passo [OF c])
qed

lemma nan_apos_2:
  assumes c: "mesma_config ag_exemplo ag"
  shows "apos_geracoes ag aleatorio_nan (Suc 1) =
     Inr (registrar (registrar ag NaN [NaN, NaN, NaN, NaN]) NaN [NaN, NaN, NaN, NaN],
          [[NaN, NaN, NaN, NaN], [Fin 0.25, Fin 0.25, Fin 0.25, Fin 0.25]])"
proof -
  have s: "sorteios aleatorio_nan g = (\<lambda>j. sorteio_nan)" for g
    by (simp add: aleatorio_nan_def)
  have c': "mesma_config ag_exemplo (registrar ag NaN [NaN, NaN, NaN, NaN])"
    using c registrar_mesma_config mesma_config_trans by blast
  show ?thesis
    unfolding apos_geracoes_Suc [of _ _ 1] nan_apos_1 [OF c]
    by (simp only: sum.case fst_conv snd_conv s nan_passo [OF c'])
qed

lemma nan_config_2: "mesma_config ag_exemplo ag_nan_2"
  unfolding ag_nan_2_def using registrar_mesma_config mesma_config_trans by blast

lemma nan_estado:
  "historico_custos (registrar ag_exemplo NaN [NaN, NaN, NaN, NaN]) = [NaN]"
  "melhor_custo (registrar ag_exemplo NaN [NaN, NaN, NaN, NaN]) = PInf"
  "historico_custos ag_nan_2 = [NaN, NaN]" "melhor_custo ag_nan_2 = PInf"
  "melhor_solucao ag_nan_2 = None"
  "historico_custos ag_nan_4 = [NaN, NaN, NaN, NaN]" "melhor_custo ag_nan_4 = PInf"
  "melhor_solucao ag_nan_4 = None"
  by (simp_all add: ag_nan_4_def ag_nan_2_def ag_exemplo_def init_ag_def registrar_def)

lemma nan_executar_1:
  "executar ag_exemplo aleatorio_nan = Inr (ag_nan_2, (None, PInf))"
proof -
  have g: "nat (geracoes ag_exemplo) = Suc 1" by (simp add: exemplo_config)
  from nan_apos_2 [OF mesma_config_refl] show ?thesis
    using executar_de_apos [of ag_exemplo aleatorio_nan] unfolding g ag_nan_2_def [symmetric]
    by (simp add: nan_estado)
qed

lemma nan_executar_2:
  "executar ag_nan_2 aleatorio_nan = Inr (ag_nan_4, (None, PInf))"
proof -
  have g: "nat (geracoes ag_nan_2) = Suc 1"
    using nan_config_2 by (simp add: mesma_config_def exemplo_config)
  from nan_apos_2 [OF nan_config_2] show ?thesis
    using executar_de_apos [of ag_nan_2 aleatorio_nan] unfolding g ag_nan_4_def [symmetric]
    by (simp add: nan_estado)
qed

text \<open>
  Claim C3 as stated fails. Draws in the ranges numpy gives, on a new object: the first
  individual is \<open>0 / 0\<close> in every component, its fitness is \<open>nan\<close> and \<open>np.argmin\<close>
  selects it. After the first generation the history is \<open>[nan]\<close> and the best cost is
  still infinity, which is not the minimum of the history.
\<close>

theorem historico_com_nan:
  "aleatorio_valido (nat (tamanho_pop ag_exemplo)) aleatorio_nan \<and>
   historico_custos ag_exemplo = [] \<and> melhor_custo ag_exemplo = PInf \<and>
   apos_geracoes ag_exemplo aleatorio_nan 1 =
     Inr (registrar ag_exemplo NaN [NaN, NaN, NaN, NaN],
          [[NaN, NaN, NaN, NaN], [Fin 0.25, Fin 0.25, Fin 0.25, Fin 0.25]]) \<and>
   historico_custos (registrar ag_exemplo NaN [NaN, NaN, NaN, NaN]) = [NaN] \<and>
   melhor_custo (registrar ag_exemplo NaN [NaN, NaN, NaN, NaN]) = PInf \<and>
   \<not> minimo_de [NaN] PInf"
  using aleatorio_nan_valido nan_apos_1 [OF mesma_config_refl]
  by (simp add: nan_estado exemplo_config minimo_de_def)
     (simp add: ag_exemplo_def init_ag_def)

text \<open>
  Claim C4 as stated fails. In the same run the fitness values of the first generation
  are \<open>nan\<close> and 102.525; the first member of the next population is the individual of
  fitness \<open>nan\<close>, not the individual of fitness 102.525.
\<close>

theorem elite_com_nan:
  "aleatorio_valido (nat (tamanho_pop ag_exemplo)) aleatorio_nan \<and>
   0 < tamanho_pop ag_exemplo \<and> 0 < geracoes ag_exemplo \<and> 1 \<le> torneio_k ag_exemplo \<and>
   apos_geracoes ag_exemplo aleatorio_nan 0 =
     Inr (ag_exemplo, [[NaN, NaN, NaN, NaN], [Fin 0.25, Fin 0.25, Fin 0.25, Fin 0.25]]) \<and>
   fitness_todos ag_exemplo [[NaN, NaN, NaN, NaN], [Fin 0.25, Fin 0.25, Fin 0.25, Fin 0.25]]
     = Inr [NaN, Fin 102.525] \<and>
   np_argmin [NaN, Fin 102.525] = Inr 0 \<and>
   apos_geracoes ag_exemplo aleatorio_nan 1 =
     Inr (registrar ag_exemplo NaN [NaN, NaN, NaN, NaN],
          [[NaN, NaN, NaN, NaN], [Fin 0.25, Fin 0.25, Fin 0.25, Fin 0.25]]) \<and>
   \<not> fle NaN (Fin 102.525) \<and> \<not> minimo_de [NaN, Fin 102.525] NaN"
  using aleatorio_nan_valido nan_apos_1 [OF mesma_config_refl]
    nan_fitness [OF mesma_config_refl] nan_populacao [OF mesma_config_refl]
  by (simp add: exemplo_config apos_geracoes_0 minimo_de_def fle_def)

text \<open>
  Claim C10 as stated fails. Two calls with those draws leave a history of four \<open>nan\<close>,
  and the second call returns infinity.
\<close>

theorem duas_execucoes_com_nan:
  "ag_exemplo = init_ag 2 0.7 0.01 2 2 \<and> aleatorio_valido (nat 2) aleatorio_nan \<and>
   executar ag_exemplo aleatorio_nan = Inr (ag_nan_2, (None, PInf)) \<and>
   executar ag_nan_2 aleatorio_nan = Inr (ag_nan_4, (None, PInf)) \<and>
   historico_custos ag_nan_4 = [NaN, NaN, NaN, NaN] \<and>
   \<not> minimo_de [NaN, NaN, NaN, NaN] PInf"
  using aleatorio_nan_valido nan_executar_1 nan_executar_2
  by (simp add: nan_estado minimo_de_def) (simp add: ag_exemplo_def)

section \<open>The operators in memory: what they write\<close>

lemma alocar_eq:
  "alocar m v = (m', a) \<Longrightarrow>
   a = proximo m \<and> proximo m' = Suc (proximo m) \<and> celulas m' = (celulas m)(proximo m := v)"
  by (auto simp: alocar_def)

lemma preserva_refl: "preserva m m"
  by (simp add: preserva_def)

lemma preserva_trans: "preserva m1 m2 \<Longrightarrow> preserva m2 m3 \<Longrightarrow> preserva m1 m3"
  by (auto simp: preserva_def)

lemma preserva_alocar: "alocar m v = (m', a) \<Longrightarrow> preserva m m'"
  by (auto simp: alocar_def preserva_def)

lemma preserva_linhas: "preserva m m' \<Longrightarrow> alocados m as \<Longrightarrow> linhas m' as = linhas m as"
  by (auto simp: preserva_def alocados_def linhas_def list_all_iff)

lemma preserva_alocados: "preserva m m' \<Longrightarrow> alocados m as \<Longrightarrow> alocados m' as"
  by (auto simp: preserva_def alocados_def list_all_iff)

lemma preserva_celula: "preserva m m' \<Longrightarrow> a < proximo m \<Longrightarrow> celulas m' a = celulas m a"
  by (simp add: preserva_def)

lemma preserva_proximo: "preserva m m' \<Longrightarrow> proximo m \<le> proximo m'"
  by (simp add: preserva_def)

lemma length_linhas: "length (linhas m as) = length as"
  by (simp add: linhas_def)

lemma np_get_linhas:
  "np_get populacao i = Inr a \<Longrightarrow> np_get (linhas m populacao) i = Inr (celulas m a)"
  by (auto simp: np_get_def linhas_def split: if_splits)

lemma selecao_torneio_mem_copia:
  assumes "selecao_torneio_mem ag m populacao fitness_values d = Inr (m', pai)"
  shows "pai = proximo m \<and> proximo m' = Suc (proximo m) \<and> preserva m m' \<and>
         (\<exists>i < length populacao. celulas m' pai = celulas m (populacao ! i)) \<and>
         selecao_torneio ag (linhas m populacao) fitness_values d = Inr (celulas m' pai)"
proof -
  from assms obtain idx fs j melhor_idx linha where
    c: "np_random_choice (length populacao) (torneio_k ag) d = Inr idx"
    and t: "np_take fitness_values idx = Inr fs" and a: "np_argmin fs = Inr j"
    and g: "np_get idx j = Inr melhor_idx" and p: "np_get populacao melhor_idx = Inr linha"
    and al: "alocar m (celulas m linha) = (m', pai)"
    by (auto simp: selecao_torneio_mem_def bind_err_def split: sum.splits)
  from p have i: "melhor_idx < length populacao" "linha = populacao ! melhor_idx"
    by (auto simp: np_get_def split: if_splits)
  from alocar_eq [OF al] have e: "pai = proximo m" "proximo m' = Suc (proximo m)"
    "celulas m' pai = celulas m linha" by auto
  have s: "selecao_torneio ag (linhas m populacao) fitness_values d = Inr (celulas m linha)"
    by (simp only: selecao_torneio_def length_linhas c t a g np_get_linhas [OF p] bind_err_Inr)
  from e i s preserva_alocar [OF al] show ?thesis by auto
qed

lemma crossover_mem_novo:
  assumes "crossover_mem ag m pai1 pai2 u um = Inr (m', filho)"
  shows "proximo m \<le> filho \<and> filho < proximo m' \<and> preserva m m' \<and>
         crossover ag (celulas m pai1) (celulas m pai2) u um = Inr (celulas m' filho)"
proof (cases "u < taxa_crossover ag")
  case False
  with assms have al: "alocar m (celulas m pai1) = (m', filho)"
    by (simp add: crossover_mem_def)
  from alocar_eq [OF al] preserva_alocar [OF al] False show ?thesis
    by (simp add: crossover_def)
next
  case True
  with assms obtain v m1 a where r: "recombinar um (celulas m pai1) (celulas m pai2) = Inr v"
    and a1: "alocar m v = (m1, a)"
    and a2: "alocar m1 (dividir_pela_soma (celulas m1 a)) = (m', filho)"
    by (auto simp: crossover_mem_def bind_err_def split: sum.splits prod.splits)
  from alocar_eq [OF a1] alocar_eq [OF a2] have e: "filho = Suc (proximo m)"
    "proximo m' = Suc (Suc (proximo m))" "celulas m' filho = dividir_pela_soma v"
    by auto
  from preserva_alocar [OF a1] preserva_alocar [OF a2] have "preserva m m'"
    by (rule preserva_trans)
  with e True r show ?thesis by (simp add: crossover_def bind_err_Inr)
qed

text \<open>
  \<open>mutacao\<close> writes into the array it is given and into new arrays only.
\<close>

lemma mutacao_mem_escreve:
  assumes "mutacao_mem ag m individuo u idx z = Inr (m', r)"
  shows "proximo m \<le> proximo m' \<and>
         (\<forall>a < proximo m. a \<noteq> individuo \<longrightarrow> celulas m' a = celulas m a) \<and>
         ((r = individuo \<and> m' = m) \<or> (proximo m \<le> r \<and> r < proximo m')) \<and>
         mutacao ag (celulas m individuo) u idx z = Inr (celulas m' r)"
proof (cases "u < taxa_mutacao ag")
  case False
  with assms show ?thesis by (simp add: mutacao_mem_def mutacao_def)
next
  case True
  let ?v = "(celulas m individuo)[idx := fadd (celulas m individuo ! idx) (Fin z)]"
  let ?m1 = "escrever m individuo ?v"
  from True assms have i: "idx < length (celulas m individuo)"
    by (auto simp: mutacao_mem_def split: if_splits)
  with True assms obtain m2 b where
    a1: "alocar ?m1 (map fabs (celulas ?m1 individuo)) = (m2, b)"
    and a2: "alocar m2 (dividir_pela_soma (celulas m2 b)) = (m', r)"
    by (auto simp: mutacao_mem_def Let_def split: prod.splits)
  have w: "proximo ?m1 = proximo m" "celulas ?m1 = (celulas m)(individuo := ?v)"
    by (simp_all add: escrever_def)
  from alocar_eq [OF a1] alocar_eq [OF a2] w have e: "r = Suc (proximo m)"
    "proximo m' = Suc (Suc (proximo m))"
    "celulas m' = (celulas m)(individuo := ?v, proximo m := map fabs ?v,
        Suc (proximo m) := dividir_pela_soma (map fabs ?v))"
    by auto
  from e True i show ?thesis
    by (simp add: mutacao_def perturbar_def bind_err_Inr)
qed

lemma gerar_filho_mem_preserva:
  assumes al: "alocados m populacao"
    and g: "gerar_filho_mem ag m populacao fitness_values s = Inr (m', filho)"
  shows "preserva m m' \<and> proximo m \<le> filho \<and> filho < proximo m' \<and>
         gerar_filho ag (linhas m populacao) fitness_values s = Inr (celulas m' filho)"
proof -
  from g obtain m1 pai1 m2 pai2 m3 f3 where
    s1: "selecao_torneio_mem ag m populacao fitness_values (torneio1 s) = Inr (m1, pai1)"
    and s2: "selecao_torneio_mem ag m1 populacao fitness_values (torneio2 s) = Inr (m2, pai2)"
    and c: "crossover_mem ag m2 pai1 pai2 (u_crossover s) (u_mascara s) = Inr (m3, f3)"
    and mu: "mutacao_mem ag m3 f3 (u_mutacao s) (idx_mutacao s) (ruido s) = Inr (m', filho)"
    by (auto simp: gerar_filho_mem_def bind_err_def split: sum.splits prod.splits)
  from selecao_torneio_mem_copia [OF s1] have 1: "pai1 = proximo m"
    "proximo m1 = Suc (proximo m)" "preserva m m1"
    "selecao_torneio ag (linhas m populacao) fitness_values (torneio1 s) = Inr (celulas m1 pai1)"
    by auto
  from selecao_torneio_mem_copia [OF s2] have 2: "pai2 = proximo m1"
    "proximo m2 = Suc (proximo m1)" "preserva m1 m2"
    "selecao_torneio ag (linhas m1 populacao) fitness_values (torneio2 s) = Inr (celulas m2 pai2)"
    by auto
  from crossover_mem_novo [OF c] have 3: "proximo m2 \<le> f3" "f3 < proximo m3" "preserva m2 m3"
    "crossover ag (celulas m2 pai1) (celulas m2 pai2) (u_crossover s) (u_mascara s)
       = Inr (celulas m3 f3)"
    by auto
  from mutacao_mem_escreve [OF mu] have 4: "proximo m3 \<le> proximo m'"
    "\<forall>a < proximo m3. a \<noteq> f3 \<longrightarrow> celulas m' a = celulas m3 a"
    "(filho = f3 \<and> m' = m3) \<or> (proximo m3 \<le> filho \<and> filho < proximo m')"
    "mutacao ag (celulas m3 f3) (u_mutacao s) (idx_mutacao s) (ruido s) = Inr (celulas m' filho)"
    by auto
  have p13: "preserva m m3" using 1(3) 2(3) 3(3) preserva_trans by blast
  have lo: "proximo m \<le> proximo m3" using p13 by (rule preserva_proximo)
  have f3lo: "proximo m \<le> f3" using 1(2) 2(2) 3(1) by simp
  have pres: "preserva m m'"
    unfolding preserva_def
  proof (intro conjI allI impI)
    show "proximo m \<le> proximo m'" using lo 4(1) by simp
  next
    fix a assume a: "a < proximo m"
    with lo f3lo have "a < proximo m3" "a \<noteq> f3" by simp_all
    with 4(2) have "celulas m' a = celulas m3 a" by blast
    also have "\<dots> = celulas m a" using p13 a by (rule preserva_celula)
    finally show "celulas m' a = celulas m a" .
  qed
  have flo: "proximo m \<le> filho" using 4(3) f3lo lo by auto
  have fhi: "filho < proximo m'" using 4(3) 3(2) by auto
  have l1: "linhas m1 populacao = linhas m populacao" using 1(3) al by (rule preserva_linhas)
  have v1: "celulas m2 pai1 = celulas m1 pai1"
    using 2(3) by (rule preserva_celula) (simp add: 1)
  from 1(4) 2(4) 3(4) 4(4)
  have "gerar_filho ag (linhas m populacao) fitness_values s = Inr (celulas m' filho)"
    by (simp add: gerar_filho_def l1 v1 bind_err_Inr)
  with pres flo fhi show ?thesis by blast
qed

lemma alocados_append: "alocados m (as @ bs) = (alocados m as \<and> alocados m bs)"
  by (simp add: alocados_def)

lemma linhas_append: "linhas m (as @ bs) = linhas m as @ linhas m bs"
  by (simp add: linhas_def)

lemma completar_mem_preserva:
  assumes "alocados m populacao" "alocados m nova"
    and "completar_mem ag m populacao fitness_values srt j nova = Inr (m', nova')"
  shows "preserva m m' \<and> alocados m' nova' \<and>
         completar ag (linhas m populacao) fitness_values srt j (linhas m nova)
           = Inr (linhas m' nova')"
  using assms
proof (induction ag m populacao fitness_values srt j nova rule: completar_mem.induct)
  case (1 ag m populacao fitness_values srt j nova)
  show ?case
  proof (cases "int (length nova) < tamanho_pop ag")
    case False
    with "1.prems"(3) have e: "m' = m" "nova' = nova"
      by (simp_all add: completar_mem.simps [of ag m])
    have "completar ag (linhas m populacao) fitness_values srt j (linhas m nova)
        = Inr (linhas m nova)"
      using False by (subst completar.simps) (simp add: length_linhas)
    with e "1.prems"(2) show ?thesis by (simp add: preserva_refl)
  next
    case True
    with "1.prems"(3) obtain m1 filho where
      g: "gerar_filho_mem ag m populacao fitness_values (srt j) = Inr (m1, filho)"
      and r: "completar_mem ag m1 populacao fitness_values srt (Suc j) (nova @ [filho])
                = Inr (m', nova')"
      by (auto simp: completar_mem.simps [of ag m] split: sum.splits)
    from gerar_filho_mem_preserva [OF "1.prems"(1) g] have p: "preserva m m1"
      and f: "filho < proximo m1"
      and v: "gerar_filho ag (linhas m populacao) fitness_values (srt j) = Inr (celulas m1 filho)"
      by auto
    have a1: "alocados m1 populacao" using p "1.prems"(1) by (rule preserva_alocados)
    have a2: "alocados m1 (nova @ [filho])"
      using preserva_alocados [OF p "1.prems"(2)] f by (simp add: alocados_append alocados_def)
    from "1.IH" [OF True g refl a1 a2 r] have ih: "preserva m1 m'" "alocados m' nova'"
      "completar ag (linhas m1 populacao) fitness_values srt (Suc j) (linhas m1 (nova @ [filho]))
         = Inr (linhas m' nova')"
      by auto
    have l1: "linhas m1 populacao = linhas m populacao" using p "1.prems"(1) by (rule preserva_linhas)
    have l2: "linhas m1 (nova @ [filho]) = linhas m nova @ [celulas m1 filho]"
      using preserva_linhas [OF p "1.prems"(2)] by (simp add: linhas_append) (simp add: linhas_def)
    have "completar ag (linhas m populacao) fitness_values srt j (linhas m nova)
        = Inr (linhas m' nova')"
      using True v ih(3) unfolding l1 l2
      by (subst completar.simps) (simp add: length_linhas)
    with p ih(1,2) preserva_trans show ?thesis by blast
  qed
qed

lemma proximo_mem_de: "proximo (mem_de rows) = length rows"
  by (simp add: mem_de_def)

lemma celulas_mem_de: "a < length rows \<Longrightarrow> celulas (mem_de rows) a = rows ! a"
  by (simp add: mem_de_def)

lemma alocar_mem_de: "alocar (mem_de rows) v = (mem_de (rows @ [v]), length rows)"
  by (auto simp: alocar_def mem_de_def fun_eq_iff nth_append)

lemma escrever_mem_de:
  "a < length rows \<Longrightarrow> escrever (mem_de rows) a v = mem_de (rows[a := v])"
  by (auto simp: escrever_def mem_de_def fun_eq_iff)

lemma alocados_mem_de: "alocados (mem_de rows) as = list_all (\<lambda>a. a < length rows) as"
  by (simp add: alocados_def proximo_mem_de)

text \<open>
  Claim C8. The genetic operators never change an individual of the current population
  in place. \<open>selecao_torneio\<close> returns a new array with the contents of the selected
  row; \<open>crossover\<close> returns a new array; \<open>mutacao\<close> applied to an array that is not a
  row of the population leaves every row as it is; and the whole loop that fills the
  next population leaves every array that existed before it, so every row of the
  current population, with its contents. On the contents, each operator in memory
  computes what the operator on values computes.
\<close>

theorem operadores_nao_alteram_populacao:
  "(selecao_torneio_mem ag m populacao fitness_values d = Inr (m1, pai) \<longrightarrow>
      pai = proximo m \<and> preserva m m1 \<and>
      (\<exists>i < length populacao. celulas m1 pai = celulas m (populacao ! i)) \<and>
      selecao_torneio ag (linhas m populacao) fitness_values d = Inr (celulas m1 pai)) \<and>
   (crossover_mem ag m pai1 pai2 u um = Inr (m2, filho) \<longrightarrow>
      proximo m \<le> filho \<and> preserva m m2 \<and>
      crossover ag (celulas m pai1) (celulas m pai2) u um = Inr (celulas m2 filho)) \<and>
   (alocados m populacao \<longrightarrow> individuo \<notin> set populacao \<longrightarrow>
    mutacao_mem ag m individuo u' idx z = Inr (m3, r) \<longrightarrow>
      linhas m3 populacao = linhas m populacao \<and>
      mutacao ag (celulas m individuo) u' idx z = Inr (celulas m3 r)) \<and>
   (alocados m populacao \<longrightarrow> alocados m nova \<longrightarrow>
    completar_mem ag m populacao fitness_values srt j nova = Inr (m4, nova') \<longrightarrow>
      preserva m m4 \<and> linhas m4 populacao = linhas m populacao \<and>
      completar ag (linhas m populacao) fitness_values srt j (linhas m nova)
        = Inr (linhas m4 nova'))"
proof (intro conjI impI)
  assume "selecao_torneio_mem ag m populacao fitness_values d = Inr (m1, pai)"
  from selecao_torneio_mem_copia [OF this]
  show "pai = proximo m" and "preserva m m1"
    and "\<exists>i < length populacao. celulas m1 pai = celulas m (populacao ! i)"
    and "selecao_torneio ag (linhas m populacao) fitness_values d = Inr (celulas m1 pai)"
    by blast+
next
  assume "crossover_mem ag m pai1 pai2 u um = Inr (m2, filho)"
  from crossover_mem_novo [OF this]
  show "proximo m \<le> filho" and "preserva m m2"
    and "crossover ag (celulas m pai1) (celulas m pai2) u um = Inr (celulas m2 filho)"
    by blast+
next
  assume al: "alocados m populacao" and ni: "individuo \<notin> set populacao"
    and mu: "mutacao_mem ag m individuo u' idx z = Inr (m3, r)"
  from mutacao_mem_escreve [OF mu]
  have same: "\<forall>a < proximo m. a \<noteq> individuo \<longrightarrow> celulas m3 a = celulas m a"
    and v: "mutacao ag (celulas m individuo) u' idx z = Inr (celulas m3 r)" by blast+
  from al ni same show "linhas m3 populacao = linhas m populacao"
    by (auto simp: linhas_def alocados_def list_all_iff)
  from v show "mutacao ag (celulas m individuo) u' idx z = Inr (celulas m3 r)" .
next
  assume al: "alocados m populacao" and an: "alocados m nova"
    and c: "completar_mem ag m populacao fitness_values srt j nova = Inr (m4, nova')"
  from completar_mem_preserva [OF al an c]
  show p: "preserva m m4"
    and "completar ag (linhas m populacao) fitness_values srt j (linhas m nova)
        = Inr (linhas m4 nova')" by blast+
  from p al show "linhas m4 populacao = linhas m populacao" by (rule preserva_linhas)
qed

lemmas mem_defs =
  selecao_torneio_mem_def crossover_mem_def mutacao_mem_def gerar_filho_mem_def
  np_random_choice_def np_take_def np_get_def bind_err_def
  alocar_mem_de celulas_mem_de escrever_mem_de proximo_mem_de
  recombinar_def np_where_def broadcast_def np_random4_def dividir_pela_soma_def np_sum_def
  ag_exemplo_def init_ag_def sorteio_exemplo_def upt_0_2 fge_def fle_def Let_def

lemma exemplo_selecao_mem:
  "selecao_torneio_mem ag_exemplo
     (mem_de [[Fin 1, Fin 0, Fin 0, Fin 0], [Fin 0.25, Fin 0.25, Fin 0.25, Fin 0.25],
              [Fin 0.25, Fin 0.25, Fin 0.25, Fin 0.25]])
     [0, 1] [Fin 1752.5, Fin 102.525] (\<lambda>j. 0)
   = Inr (mem_de [[Fin 1, Fin 0, Fin 0, Fin 0], [Fin 0.25, Fin 0.25, Fin 0.25, Fin 0.25],
                  [Fin 0.25, Fin 0.25, Fin 0.25, Fin 0.25], [Fin 1, Fin 0, Fin 0, Fin 0]], 3)"
  by (simp add: mem_defs)

lemma exemplo_crossover_mem:
  "crossover_mem ag_exemplo
     (mem_de [[Fin 1, Fin 0, Fin 0, Fin 0], [Fin 0.25, Fin 0.25, Fin 0.25, Fin 0.25],
              [Fin 0.25, Fin 0.25, Fin 0.25, Fin 0.25]])
     0 1 0.5 (\<lambda>i. if i = 0 then 0.1 else 0.9)
   = Inr (mem_de [[Fin 1, Fin 0, Fin 0, Fin 0], [Fin 0.25, Fin 0.25, Fin 0.25, Fin 0.25],
                  [Fin 0.25, Fin 0.25, Fin 0.25, Fin 0.25],
                  [Fin 1, Fin 0.25, Fin 0.25, Fin 0.25],
                  [Fin (4 / 7), Fin (1 / 7), Fin (1 / 7), Fin (1 / 7)]], 4)"
  by (simp add: mem_defs)

lemma exemplo_mutacao_mem:
  "mutacao_mem ag_exemplo
     (mem_de [[Fin 1, Fin 0, Fin 0, Fin 0], [Fin 0.25, Fin 0.25, Fin 0.25, Fin 0.25],
              [Fin 0.25, Fin 0.25, Fin 0.25, Fin 0.25], [Fin 1, Fin 0, Fin 0, Fin 0]])
     3 0 1 1
   = Inr (mem_de [[Fin 1, Fin 0, Fin 0, Fin 0], [Fin 0.25, Fin 0.25, Fin 0.25, Fin 0.25],
                  [Fin 0.25, Fin 0.25, Fin 0.25, Fin 0.25], [Fin 1, Fin 1, Fin 0, Fin 0],
                  [Fin 1, Fin 1, Fin 0, Fin 0], [Fin 0.5, Fin 0.5, Fin 0, Fin 0]], 5)"
  by (simp add: mem_defs)

lemma exemplo_gerar_filho_mem:
  "gerar_filho_mem ag_exemplo
     (mem_de [[Fin 1, Fin 0, Fin 0, Fin 0], [Fin 0.25, Fin 0.25, Fin 0.25, Fin 0.25],
              [Fin 0.25, Fin 0.25, Fin 0.25, Fin 0.25]])
     [0, 1] [Fin 1752.5, Fin 102.525] sorteio_exemplo
   = Inr (mem_de [[Fin 1, Fin 0, Fin 0, Fin 0], [Fin 0.25, Fin 0.25, Fin 0.25, Fin 0.25],
                  [Fin 0.25, Fin 0.25, Fin 0.25, Fin 0.25], [Fin 1, Fin 0, Fin 0, Fin 0],
                  [Fin 0.25, Fin 0.25, Fin 0.25, Fin 0.25], [Fin 1, Fin 1, Fin 0, Fin 0],
                  [Fin 1, Fin 1, Fin 0, Fin 0], [Fin 0.5, Fin 0.5, Fin 0, Fin 0]], 7)"
  by (simp add: mem_defs)

lemma exemplo_completar_mem:
  "completar_mem ag_exemplo
     (mem_de [[Fin 1, Fin 0, Fin 0, Fin 0], [Fin 0.25, Fin 0.25, Fin 0.25, Fin 0.25],
              [Fin 0.25, Fin 0.25, Fin 0.25, Fin 0.25]])
     [0, 1] [Fin 1752.5, Fin 102.525] (\<lambda>j. sorteio_exemplo) 0 [2]
   = Inr (mem_de [[Fin 1, Fin 0, Fin 0, Fin 0], [Fin 0.25, Fin 0.25, Fin 0.25, Fin 0.25],
                  [Fin 0.25, Fin 0.25, Fin 0.25, Fin 0.25], [Fin 1, Fin 0, Fin 0, Fin 0],
                  [Fin 0.25, Fin 0.25, Fin 0.25, Fin 0.25], [Fin 1, Fin 1, Fin 0, Fin 0],
                  [Fin 1, Fin 1, Fin 0, Fin 0], [Fin 0.5, Fin 0.5, Fin 0, Fin 0]], [2, 7])"
proof -
  have P: "tamanho_pop ag_exemplo = 2" by (simp add: exemplo_config)
  show ?thesis
    apply (subst completar_mem.simps)
    apply (simp only: exemplo_gerar_filho_mem P)
    apply (subst completar_mem.simps)
    apply (simp add: P)
    done
qed

theorem operadores_nao_alteram_populacao_witness:
  "selecao_torneio_mem ag_exemplo
     (mem_de [[Fin 1, Fin 0, Fin 0, Fin 0], [Fin 0.25, Fin 0.25, Fin 0.25, Fin 0.25],
              [Fin 0.25, Fin 0.25, Fin 0.25, Fin 0.25]])
     [0, 1] [Fin 1752.5, Fin 102.525] (\<lambda>j. 0)
   = Inr (mem_de [[Fin 1, Fin 0, Fin 0, Fin 0], [Fin 0.25, Fin 0.25, Fin 0.25, Fin 0.25],
                  [Fin 0.25, Fin 0.25, Fin 0.25, Fin 0.25], [Fin 1, Fin 0, Fin 0, Fin 0]], 3) \<and>
   selecao_torneio ag_exemplo
     [[Fin 1, Fin 0, Fin 0, Fin 0], [Fin 0.25, Fin 0.25, Fin 0.25, Fin 0.25]]
     [Fin 1752.5, Fin 102.525] (\<lambda>j. 0) = Inr [Fin 1, Fin 0, Fin 0, Fin 0] \<and>
   crossover_mem ag_exemplo
     (mem_de [[Fin 1, Fin 0, Fin 0, Fin 0], [Fin 0.25, Fin 0.25, Fin 0.25, Fin 0.25],
              [Fin 0.25, Fin 0.25, Fin 0.25, Fin 0.25]])
     0 1 0.5 (\<lambda>i. if i = 0 then 0.1 else 0.9)
   = Inr (mem_de [[Fin 1, Fin 0, Fin 0, Fin 0], [Fin 0.25, Fin 0.25, Fin 0.25, Fin 0.25],
                  [Fin 0.25, Fin 0.25, Fin 0.25, Fin 0.25],
                  [Fin 1, Fin 0.25, Fin 0.25, Fin 0.25],
                  [Fin (4 / 7), Fin (1 / 7), Fin (1 / 7), Fin (1 / 7)]], 4) \<and>
   crossover ag_exemplo [Fin 1, Fin 0, Fin 0, Fin 0] [Fin 0.25, Fin 0.25, Fin 0.25, Fin 0.25]
     0.5 (\<lambda>i. if i = 0 then 0.1 else 0.9)
   = Inr [Fin (4 / 7), Fin (1 / 7), Fin (1 / 7), Fin (1 / 7)] \<and>
   alocados (mem_de [[Fin 1, Fin 0, Fin 0, Fin 0], [Fin 0.25, Fin 0.25, Fin 0.25, Fin 0.25],
              [Fin 0.25, Fin 0.25, Fin 0.25, Fin 0.25], [Fin 1, Fin 0, Fin 0, Fin 0]]) [0, 1] \<and>
   (3::nat) \<notin> set [0, 1] \<and>
   mutacao_mem ag_exemplo
     (mem_de [[Fin 1, Fin 0, Fin 0, Fin 0], [Fin 0.25, Fin 0.25, Fin 0.25, Fin 0.25],
              [Fin 0.25, Fin 0.25, Fin 0.25, Fin 0.25], [Fin 1, Fin 0, Fin 0, Fin 0]])
     3 0 1 1
   = Inr (mem_de [[Fin 1, Fin 0, Fin 0, Fin 0], [Fin 0.25, Fin 0.25, Fin 0.25, Fin 0.25],
                  [Fin 0.25, Fin 0.25, Fin 0.25, Fin 0.25], [Fin 1, Fin 1, Fin 0, Fin 0],
                  [Fin 1, Fin 1, Fin 0, Fin 0], [Fin 0.5, Fin 0.5, Fin 0, Fin 0]], 5) \<and>
   linhas (mem_de [[Fin 1, Fin 0, Fin 0, Fin 0], [Fin 0.25, Fin 0.25, Fin 0.25, Fin 0.25],
                  [Fin 0.25, Fin 0.25, Fin 0.25, Fin 0.25], [Fin 1, Fin 1, Fin 0, Fin 0],
                  [Fin 1, Fin 1, Fin 0, Fin 0], [Fin 0.5, Fin 0.5, Fin 0, Fin 0]]) [0, 1]
   = [[Fin 1, Fin 0, Fin 0, Fin 0], [Fin 0.25, Fin 0.25, Fin 0.25, Fin 0.25]] \<and>
   mutacao ag_exemplo [Fin 1, Fin 0, Fin 0, Fin 0] 0 1 1 = Inr [Fin 0.5, Fin 0.5, Fin 0, Fin 0] \<and>
   alocados (mem_de [[Fin 1, Fin 0, Fin 0, Fin 0], [Fin 0.25, Fin 0.25, Fin 0.25, Fin 0.25],
              [Fin 0.25, Fin 0.25, Fin 0.25, Fin 0.25]]) [0, 1] \<and>
   alocados (mem_de [[Fin 1, Fin 0, Fin 0, Fin 0], [Fin 0.25, Fin 0.25, Fin 0.25, Fin 0.25],
              [Fin 0.25, Fin 0.25, Fin 0.25, Fin 0.25]]) [2] \<and>
   completar_mem ag_exemplo
     (mem_de [[Fin 1, Fin 0, Fin 0, Fin 0], [Fin 0.25, Fin 0.25, Fin 0.25, Fin 0.25],
              [Fin 0.25, Fin 0.25, Fin 0.25, Fin 0.25]])
     [0, 1] [Fin 1752.5, Fin 102.525] (\<lambda>j. sorteio_exemplo) 0 [2]
   = Inr (mem_de [[Fin 1, Fin 0, Fin 0, Fin 0], [Fin 0.25, Fin 0.25, Fin 0.25, Fin 0.25],
                  [Fin 0.25, Fin 0.25, Fin 0.25, Fin 0.25], [Fin 1, Fin 0, Fin 0, Fin 0],
                  [Fin 0.25, Fin 0.25, Fin 0.25, Fin 0.25], [Fin 1, Fin 1, Fin 0, Fin 0],
                  [Fin 1, Fin 1, Fin 0, Fin 0], [Fin 0.5, Fin 0.5, Fin 0, Fin 0]], [2, 7]) \<and>
   linhas (mem_de [[Fin 1, Fin 0, Fin 0, Fin 0], [Fin 0.25, Fin 0.25, Fin 0.25, Fin 0.25],
                  [Fin 0.25, Fin 0.25, Fin 0.25, Fin 0.25], [Fin 1, Fin 0, Fin 0, Fin 0],
                  [Fin 0.25, Fin 0.25, Fin 0.25, Fin 0.25], [Fin 1, Fin 1, Fin 0, Fin 0],
                  [Fin 1, Fin 1, Fin 0, Fin 0], [Fin 0.5, Fin 0.5, Fin 0, Fin 0]]) [0, 1]
   = [[Fin 1, Fin 0, Fin 0, Fin 0], [Fin 0.25, Fin 0.25, Fin 0.25, Fin 0.25]] \<and>
   completar ag_exemplo [[Fin 1, Fin 0, Fin 0, Fin 0], [Fin 0.25, Fin 0.25, Fin 0.25, Fin 0.25]]
     [Fin 1752.5, Fin 102.525] (\<lambda>j. sorteio_exemplo) 0 [[Fin 0.25, Fin 0.25, Fin 0.25, Fin 0.25]]
   = Inr [[Fin 0.25, Fin 0.25, Fin 0.25, Fin 0.25], [Fin 0.5, Fin 0.5, Fin 0, Fin 0]]"
proof -
  let ?r = "[Fin 1, Fin 0, Fin 0, Fin 0]"
  let ?q = "[Fin 0.25, Fin 0.25, Fin 0.25, Fin 0.25]"
  let ?m0 = "mem_de [?r, ?q, ?q]"
  let ?m1 = "mem_de [?r, ?q, ?q, ?r]"
  let ?fs = "[Fin 1752.5, Fin 102.525]"
  note t1 = operadores_nao_alteram_populacao [THEN conjunct1, rule_format]
  note t2 = operadores_nao_alteram_populacao [THEN conjunct2, THEN conjunct1, rule_format]
  note t3 = operadores_nao_alteram_populacao
    [THEN conjunct2, THEN conjunct2, THEN conjunct1, rule_format]
  note t4 = operadores_nao_alteram_populacao
    [THEN conjunct2, THEN conjunct2, THEN conjunct2, rule_format]
  have l0: "linhas ?m0 [0, 1] = [?r, ?q]" "linhas ?m0 [2] = [?q]"
    "celulas ?m0 0 = ?r" "celulas ?m0 1 = ?q"
    by (simp_all add: linhas_def celulas_mem_de)
  have l1: "linhas ?m1 [0, 1] = [?r, ?q]" "celulas ?m1 3 = ?r"
    by (simp_all add: linhas_def celulas_mem_de)
  have a0: "alocados ?m0 [0, 1]" "alocados ?m0 [2]" and a1: "alocados ?m1 [0, 1]"
    by (simp_all add: alocados_mem_de)
  have n: "(3::nat) \<notin> set [0, 1]" by simp
  let ?p = "[Fin 0.5, Fin 0.5, Fin 0, Fin 0]"
  let ?w = "[Fin 1, Fin 1, Fin 0, Fin 0]"
  let ?x = "[Fin (4 / 7), Fin (1 / 7), Fin (1 / 7), Fin (1 / 7)]"
  have l2: "celulas (mem_de [?r, ?q, ?q, [Fin 1, Fin 0.25, Fin 0.25, Fin 0.25], ?x]) 4 = ?x"
    "celulas (mem_de [?r, ?q, ?q, ?w, ?w, ?p]) 5 = ?p"
    "linhas (mem_de [?r, ?q, ?q, ?r, ?q, ?w, ?w, ?p]) [2, 7] = [?q, ?p]"
    by (simp_all add: linhas_def celulas_mem_de)
  from t1 [OF exemplo_selecao_mem]
  have s: "selecao_torneio ag_exemplo [?r, ?q] ?fs (\<lambda>j. 0) = Inr ?r"
    unfolding l0 l1 by (elim conjE)
  from t2 [OF exemplo_crossover_mem]
  have c: "crossover ag_exemplo ?r ?q 0.5 (\<lambda>i. if i = 0 then 0.1 else 0.9) = Inr ?x"
    unfolding l0 l2 by (elim conjE)
  from t3 [OF a1 n exemplo_mutacao_mem]
  have m: "linhas (mem_de [?r, ?q, ?q, ?w, ?w, ?p]) [0, 1] = [?r, ?q]"
    "mutacao ag_exemplo ?r 0 1 1 = Inr ?p"
    unfolding l1 l2 by blast+
  from t4 [OF a0 exemplo_completar_mem]
  have k: "linhas (mem_de [?r, ?q, ?q, ?r, ?q, ?w, ?w, ?p]) [0, 1] = [?r, ?q]"
    "completar ag_exemplo [?r, ?q] ?fs (\<lambda>j. sorteio_exemplo) 0 [?q] = Inr [?q, ?p]"
    unfolding l0 l2 by blast+
  from exemplo_selecao_mem s exemplo_crossover_mem c a1 n exemplo_mutacao_mem m a0
    exemplo_completar_mem k
  show ?thesis by (intro conjI)
qed

end
